theory Spec2Isabelle
  imports Main "HOL-Library.AList" "HOL-Library.Word"
begin

section \<open>JSON values built by the generator\<close>

text \<open>
  \<^verbatim>\<open>scripts/generate_openapi.py\<close> builds the OpenAPI document as nested Python dicts, lists,
  strings, integers, booleans and \<^verbatim>\<open>None\<close>. A dict is an association list in insertion
  order (the order \<^verbatim>\<open>json.dumps\<close> writes); no dict literal of the generator repeats a key.
\<close>

datatype json =
    JNull
  | JBool bool
  | JInt int
  | JString string
  | JArray "json list"
  | JObject "(string \<times> json) list"

text \<open>\<^verbatim>\<open>d.get(k)\<close>: the value stored under a key, if the value is a dict that has the key.\<close>

fun lookup_key :: "json \<Rightarrow> string \<Rightarrow> json option" where
  "lookup_key (JObject kvs) k = map_of kvs k"
| "lookup_key _ k = None"

text \<open>
  \<^verbatim>\<open>d[k]\<close>. Python raises \<^verbatim>\<open>KeyError\<close> on a missing key; here the result is then
  \<open>the None\<close>, about which nothing can be proved. Lemma \<open>subscripts_defined\<close> below shows
  that every subscript the generator evaluates hits a key that is present.
\<close>

definition subscript :: "json \<Rightarrow> string \<Rightarrow> json" where
  "subscript d k = the (lookup_key d k)"

text \<open>\<^verbatim>\<open>d.copy()\<close> is a shallow copy: the same value in a model without aliasing.\<close>

definition dict_copy :: "json \<Rightarrow> json" where
  "dict_copy d = d"

text \<open>
  \<^verbatim>\<open>{**d, k: v}\<close>: the key keeps its position when \<^verbatim>\<open>d\<close> has it and is appended otherwise.
\<close>

fun dict_set :: "json \<Rightarrow> string \<Rightarrow> json \<Rightarrow> json" where
  "dict_set (JObject kvs) k v = JObject (AList.update k v kvs)"

text \<open>Following a chain of keys from the root of a document.\<close>

fun jpath :: "json \<Rightarrow> string list \<Rightarrow> json option" where
  "jpath d [] = Some d"
| "jpath d (k # ks) = (case lookup_key d k of None \<Rightarrow> None | Some v \<Rightarrow> jpath v ks)"

text \<open>The keys of a dict, in order, and the elements of a list.\<close>

fun dict_keys :: "json \<Rightarrow> string list" where
  "dict_keys (JObject kvs) = map fst kvs"
| "dict_keys _ = []"

fun array_items :: "json \<Rightarrow> json list" where
  "array_items (JArray xs) = xs"
| "array_items _ = []"

section \<open>The generator: example payloads and \<^verbatim>\<open>build_spec\<close>\<close>

text \<open>
  Each example function of the script is a constant. Inside \<^verbatim>\<open>build_spec\<close> the three local
  dicts \<^verbatim>\<open>components\<close>, \<^verbatim>\<open>responses\<close> and \<^verbatim>\<open>paths\<close> are constants of the same names;
  each entry of \<^verbatim>\<open>components["schemas"]\<close> is named \<open>schema_<name>\<close>, each entry of
  \<^verbatim>\<open>responses\<close> is named \<open>response_<code>\<close>, and each operation object of \<^verbatim>\<open>paths\<close> is named
  \<open>op_<operationId>\<close>, so that a proof unfolds only the part of the document it reads.
\<close>

definition sandbox_response_example :: "json" where
  "sandbox_response_example = JObject [
    (''id'', JString ''9f9c9872-2d9c-4c25-9c36-4e45be927834''),
    (''namespace'', JString ''demo''),
    (''name'', JString ''runner''),
    (''runtime'', JString ''process''),
    (''status'', JString ''created''),
    (''limits'', JObject [
      (''cpu_millis'', JInt 750),
      (''memory_mib'', JInt 1024),
      (''disk_mib'', JInt 1024),
      (''timeout_seconds'', JInt 120)]),
    (''created_at'', JString ''2025-10-18T12:34:56Z''),
    (''updated_at'', JString ''2025-10-18T12:34:56Z''),
    (''last_started_at'', JNull),
    (''last_stopped_at'', JNull)]"

definition exec_response_example :: "json" where
  "exec_response_example = JObject [
    (''exit_code'', JInt 0),
    (''stdout'', JString ''hello\<newline>''),
    (''stderr'', JString ''''),
    (''duration_ms'', JInt 42),
    (''timed_out'', JBool False)]"

definition execution_record_example :: "json" where
  "execution_record_example = JObject [
    (''command'', JString ''python''),
    (''args'', JArray [
      JString ''-c'',
      JString (''print('' @ [CHR 0x27] @ ''hello'' @ [CHR 0x27] @ '')'')]),
    (''executed_at'', JString ''2025-10-18T12:35:10Z''),
    (''exit_code'', JInt 0),
    (''stdout'', JString ''hello\<newline>''),
    (''stderr'', JString ''''),
    (''duration_ms'', JInt 55),
    (''timed_out'', JBool False)]"

definition issued_key_example :: "json" where
  "issued_key_example = JObject [
    (''token'', JString ''bkg_demo_abcdefghijklmno''),
    (''info'', JObject [
      (''id'', JString ''4b2a4d3a-4cbe-4b05-87a3-9528cdf6a1ed''),
      (''scope'', JObject [
        (''type'', JString ''namespace''),
        (''namespace'', JString ''demo'')]),
      (''rate_limit'', JInt 100),
      (''created_at'', JString ''2025-10-18T12:00:00Z''),
      (''last_used_at'', JNull),
      (''expires_at'', JString ''2025-11-17T12:00:00Z''),
      (''key_prefix'', JString ''bkg_demo_abcd'')])]"

definition rotation_webhook_payload_example :: "json" where
  "rotation_webhook_payload_example = JObject [
    (''event'', JString ''cave.auth.key.rotated''),
    (''key_id'', JString ''a7d6b321-2c52-4e76-9af2-2f893d4856fc''),
    (''previous_key_id'', JString ''4b2a4d3a-4cbe-4b05-87a3-9528cdf6a1ed''),
    (''rotated_at'', JString ''2025-10-18T12:10:00Z''),
    (''scope'', JObject [
      (''type'', JString ''admin'')]),
    (''owner'', JString ''admin''),
    (''key_prefix'', JString ''bkg_admin_new'')]"

definition rotated_key_example :: "json" where
  "rotated_key_example =
    (let previous = dict_copy (subscript issued_key_example ''info'');
         current = JObject [
           (''id'', JString ''a7d6b321-2c52-4e76-9af2-2f893d4856fc''),
           (''scope'', JObject [
             (''type'', JString ''admin'')]),
           (''rate_limit'', JInt 200),
           (''created_at'', JString ''2025-10-18T12:10:00Z''),
           (''key_prefix'', JString ''bkg_admin_new''),
           (''rotated_from'', JString ''4b2a4d3a-4cbe-4b05-87a3-9528cdf6a1ed''),
           (''rotated_at'', JString ''2025-10-18T12:10:00Z'')]
     in JObject [
       (''token'', JString ''bkg_admin_newtokenvalue''),
       (''info'', current),
       (''previous'', previous),
       (''webhook'', JObject [
         (''event_id'', JString ''5b0c33d4-a1d8-4a1c-9844-3d955b1b4c6e''),
         (''signature'', JString ''sha256=abc123...''),
         (''payload'', rotation_webhook_payload_example)])])"

definition error_example :: "string \<Rightarrow> json" where
  "error_example message = JObject [(''error'', JString message)]"

definition schema_ErrorResponse :: "json" where
  "schema_ErrorResponse = JObject [
    (''type'', JString ''object''),
    (''required'', JArray [JString ''error'']),
    (''properties'', JObject [
      (''error'', JObject [
        (''type'', JString ''string''),
        (''description'', JString ''Human readable error message.'')])]),
    (''example'', error_example ''sandbox 123 not found'')]"

definition schema_SandboxLimits :: "json" where
  "schema_SandboxLimits = JObject [
    (''type'', JString ''object''),
    (''required'', JArray [
      JString ''cpu_millis'',
      JString ''memory_mib'',
      JString ''disk_mib'',
      JString ''timeout_seconds'']),
    (''properties'', JObject [
      (''cpu_millis'', JObject [
        (''type'', JString ''integer''),
        (''format'', JString ''int32''),
        (''description'', JString ''CPU time slice in milli-CPUs.'')]),
      (''memory_mib'', JObject [
        (''type'', JString ''integer''),
        (''format'', JString ''int64''),
        (''description'', JString ''Memory limit in MiB.'')]),
      (''disk_mib'', JObject [
        (''type'', JString ''integer''),
        (''format'', JString ''int64''),
        (''description'', JString ''Ephemeral disk limit in MiB.'')]),
      (''timeout_seconds'', JObject [
        (''type'', JString ''integer''),
        (''format'', JString ''int32''),
        (''description'', JString ''Execution timeout in seconds.'')])])]"

definition schema_SandboxResponse :: "json" where
  "schema_SandboxResponse = JObject [
    (''type'', JString ''object''),
    (''required'', JArray [
      JString ''id'',
      JString ''namespace'',
      JString ''name'',
      JString ''runtime'',
      JString ''status'',
      JString ''limits'',
      JString ''created_at'',
      JString ''updated_at'']),
    (''properties'', JObject [
      (''id'', JObject [
        (''type'', JString ''string''),
        (''format'', JString ''uuid'')]),
      (''namespace'', JObject [
        (''type'', JString ''string'')]),
      (''name'', JObject [
        (''type'', JString ''string'')]),
      (''runtime'', JObject [
        (''type'', JString ''string'')]),
      (''status'', JObject [
        (''type'', JString ''string''),
        (''description'', JString ''Current sandbox lifecycle state.'')]),
      (''limits'', JObject [
        (''$ref'', JString ''#/components/schemas/SandboxLimits'')]),
      (''created_at'', JObject [
        (''type'', JString ''string''),
        (''format'', JString ''date-time'')]),
      (''updated_at'', JObject [
        (''type'', JString ''string''),
        (''format'', JString ''date-time'')]),
      (''last_started_at'', JObject [
        (''type'', JString ''string''),
        (''format'', JString ''date-time''),
        (''nullable'', JBool True)]),
      (''last_stopped_at'', JObject [
        (''type'', JString ''string''),
        (''format'', JString ''date-time''),
        (''nullable'', JBool True)])]),
    (''example'', sandbox_response_example)]"

definition schema_CreateSandboxLimits :: "json" where
  "schema_CreateSandboxLimits = JObject [
    (''type'', JString ''object''),
    (''properties'', JObject [
      (''cpu_millis'', JObject [
        (''type'', JString ''integer''),
        (''format'', JString ''int32'')]),
      (''memory_mib'', JObject [
        (''type'', JString ''integer''),
        (''format'', JString ''int64'')]),
      (''disk_mib'', JObject [
        (''type'', JString ''integer''),
        (''format'', JString ''int64'')]),
      (''timeout_seconds'', JObject [
        (''type'', JString ''integer''),
        (''format'', JString ''int32'')])]),
    (''description'', JString ''Optional overrides for namespace defaults.'')]"

definition schema_CreateSandboxRequest :: "json" where
  "schema_CreateSandboxRequest = JObject [
    (''type'', JString ''object''),
    (''required'', JArray [JString ''namespace'', JString ''name'']),
    (''properties'', JObject [
      (''namespace'', JObject [
        (''type'', JString ''string'')]),
      (''name'', JObject [
        (''type'', JString ''string'')]),
      (''runtime'', JObject [
        (''type'', JString ''string''),
        (''description'', JString ''Sandbox runtime identifier (defaults to process).'')]),
      (''limits'', JObject [
        (''$ref'', JString ''#/components/schemas/CreateSandboxLimits'')])]),
    (''example'', JObject [
      (''namespace'', JString ''demo''),
      (''name'', JString ''runner''),
      (''runtime'', JString ''process''),
      (''limits'', JObject [
        (''cpu_millis'', JInt 750),
        (''memory_mib'', JInt 1024),
        (''disk_mib'', JInt 1024),
        (''timeout_seconds'', JInt 120)])])]"

definition schema_ExecRequest :: "json" where
  "schema_ExecRequest = JObject [
    (''type'', JString ''object''),
    (''required'', JArray [JString ''command'']),
    (''properties'', JObject [
      (''command'', JObject [
        (''type'', JString ''string'')]),
      (''args'', JObject [
        (''type'', JString ''array''),
        (''items'', JObject [
          (''type'', JString ''string'')]),
        (''description'', JString ''Command arguments.'')]),
      (''stdin'', JObject [
        (''type'', JString ''string''),
        (''description'', JString ''Optional STDIN payload.'')]),
      (''timeout_ms'', JObject [
        (''type'', JString ''integer''),
        (''format'', JString ''int64''),
        (''description'', JString ''Optional execution timeout in milliseconds.'')])]),
    (''example'', JObject [
      (''command'', JString ''python''),
      (''args'', JArray [
        JString ''-c'',
        JString (''print('' @ [CHR 0x27] @ ''hello'' @ [CHR 0x27] @ '')'')]),
      (''stdin'', JNull),
      (''timeout_ms'', JInt 2000)])]"

definition schema_ExecResponse :: "json" where
  "schema_ExecResponse = JObject [
    (''type'', JString ''object''),
    (''required'', JArray [JString ''duration_ms'', JString ''timed_out'']),
    (''properties'', JObject [
      (''exit_code'', JObject [
        (''type'', JString ''integer''),
        (''format'', JString ''int32''),
        (''nullable'', JBool True)]),
      (''stdout'', JObject [
        (''type'', JString ''string''),
        (''nullable'', JBool True)]),
      (''stderr'', JObject [
        (''type'', JString ''string''),
        (''nullable'', JBool True)]),
      (''duration_ms'', JObject [
        (''type'', JString ''integer''),
        (''format'', JString ''int64'')]),
      (''timed_out'', JObject [
        (''type'', JString ''boolean'')])]),
    (''example'', exec_response_example)]"

definition schema_ExecutionRecord :: "json" where
  "schema_ExecutionRecord = JObject [
    (''type'', JString ''object''),
    (''required'', JArray [
      JString ''command'',
      JString ''args'',
      JString ''executed_at'',
      JString ''duration_ms'',
      JString ''timed_out'']),
    (''properties'', JObject [
      (''command'', JObject [
        (''type'', JString ''string'')]),
      (''args'', JObject [
        (''type'', JString ''array''),
        (''items'', JObject [
          (''type'', JString ''string'')])]),
      (''executed_at'', JObject [
        (''type'', JString ''string''),
        (''format'', JString ''date-time'')]),
      (''exit_code'', JObject [
        (''type'', JString ''integer''),
        (''format'', JString ''int32''),
        (''nullable'', JBool True)]),
      (''stdout'', JObject [
        (''type'', JString ''string''),
        (''nullable'', JBool True)]),
      (''stderr'', JObject [
        (''type'', JString ''string''),
        (''nullable'', JBool True)]),
      (''duration_ms'', JObject [
        (''type'', JString ''integer''),
        (''format'', JString ''int64'')]),
      (''timed_out'', JObject [
        (''type'', JString ''boolean'')])]),
    (''example'', execution_record_example)]"

definition schema_CreateKeyScope :: "json" where
  "schema_CreateKeyScope = JObject [
    (''oneOf'', JArray [
      JObject [
        (''type'', JString ''object''),
        (''required'', JArray [JString ''type'']),
        (''properties'', JObject [
          (''type'', JObject [
            (''type'', JString ''string''),
            (''enum'', JArray [JString ''admin''])])])],
      JObject [
        (''type'', JString ''object''),
        (''required'', JArray [JString ''type'', JString ''namespace'']),
        (''properties'', JObject [
          (''type'', JObject [
            (''type'', JString ''string''),
            (''enum'', JArray [JString ''namespace''])]),
          (''namespace'', JObject [
            (''type'', JString ''string'')])])]]),
    (''discriminator'', JObject [
      (''propertyName'', JString ''type'')])]"

definition schema_CreateKeyRequest :: "json" where
  "schema_CreateKeyRequest = JObject [
    (''type'', JString ''object''),
    (''required'', JArray [JString ''scope'']),
    (''properties'', JObject [
      (''scope'', JObject [
        (''$ref'', JString ''#/components/schemas/CreateKeyScope'')]),
      (''rate_limit'', JObject [
        (''type'', JString ''integer''),
        (''format'', JString ''int32''),
        (''description'', JString ''Requests per minute (defaults to 100).'')]),
      (''ttl_seconds'', JObject [
        (''type'', JString ''integer''),
        (''format'', JString ''int64''),
        (''description'', JString ''Optional time-to-live for the key.'')])]),
    (''example'', JObject [
      (''scope'', JObject [
        (''type'', JString ''namespace''),
        (''namespace'', JString ''demo'')]),
      (''rate_limit'', JInt 100),
      (''ttl_seconds'', JInt 2592000)])]"

definition schema_KeyScope :: "json" where
  "schema_KeyScope = JObject [
    (''oneOf'', JArray [
      JObject [
        (''type'', JString ''object''),
        (''required'', JArray [JString ''type'']),
        (''properties'', JObject [
          (''type'', JObject [
            (''type'', JString ''string''),
            (''enum'', JArray [JString ''admin''])])])],
      JObject [
        (''type'', JString ''object''),
        (''required'', JArray [JString ''type'', JString ''namespace'']),
        (''properties'', JObject [
          (''type'', JObject [
            (''type'', JString ''string''),
            (''enum'', JArray [JString ''namespace''])]),
          (''namespace'', JObject [
            (''type'', JString ''string'')])])]]),
    (''discriminator'', JObject [
      (''propertyName'', JString ''type'')])]"

definition schema_KeyInfo :: "json" where
  "schema_KeyInfo = JObject [
    (''type'', JString ''object''),
    (''required'', JArray [
      JString ''id'',
      JString ''scope'',
      JString ''rate_limit'',
      JString ''created_at'',
      JString ''key_prefix'']),
    (''properties'', JObject [
      (''id'', JObject [
        (''type'', JString ''string''),
        (''format'', JString ''uuid'')]),
      (''scope'', JObject [
        (''$ref'', JString ''#/components/schemas/KeyScope'')]),
      (''rate_limit'', JObject [
        (''type'', JString ''integer''),
        (''format'', JString ''int32'')]),
      (''created_at'', JObject [
        (''type'', JString ''string''),
        (''format'', JString ''date-time'')]),
      (''last_used_at'', JObject [
        (''type'', JString ''string''),
        (''format'', JString ''date-time''),
        (''nullable'', JBool True)]),
      (''expires_at'', JObject [
        (''type'', JString ''string''),
        (''format'', JString ''date-time''),
        (''nullable'', JBool True)]),
      (''key_prefix'', JObject [
        (''type'', JString ''string''),
        (''description'', JString ''Truncated token prefix for audit displays.'')]),
      (''rotated_from'', JObject [
        (''type'', JString ''string''),
        (''format'', JString ''uuid''),
        (''nullable'', JBool True)]),
      (''rotated_at'', JObject [
        (''type'', JString ''string''),
        (''format'', JString ''date-time''),
        (''nullable'', JBool True)])])]"

definition schema_IssuedKeyResponse :: "json" where
  "schema_IssuedKeyResponse = JObject [
    (''type'', JString ''object''),
    (''required'', JArray [JString ''token'', JString ''info'']),
    (''properties'', JObject [
      (''token'', JObject [
        (''type'', JString ''string''),
        (''description'', JString ''Full bearer token. Shown once.'')]),
      (''info'', JObject [
        (''$ref'', JString ''#/components/schemas/KeyInfo'')])]),
    (''example'', issued_key_example)]"

definition schema_RotateKeyRequest :: "json" where
  "schema_RotateKeyRequest = JObject [
    (''type'', JString ''object''),
    (''required'', JArray [JString ''key_id'']),
    (''properties'', JObject [
      (''key_id'', JObject [
        (''type'', JString ''string''),
        (''format'', JString ''uuid'')]),
      (''rate_limit'', JObject [
        (''type'', JString ''integer''),
        (''format'', JString ''int32''),
        (''description'', JString ''Override rate limit for the rotated key (requests per minute).'')]),
      (''ttl_seconds'', JObject [
        (''type'', JString ''integer''),
        (''format'', JString ''int64''),
        (''description'', JString ''Optional TTL for the rotated key in seconds.'')])]),
    (''example'', JObject [
      (''key_id'', JString ''4b2a4d3a-4cbe-4b05-87a3-9528cdf6a1ed''),
      (''rate_limit'', JInt 200)])]"

definition schema_RotationWebhookPayload :: "json" where
  "schema_RotationWebhookPayload = JObject [
    (''type'', JString ''object''),
    (''required'', JArray [
      JString ''event'',
      JString ''key_id'',
      JString ''previous_key_id'',
      JString ''rotated_at'',
      JString ''scope'',
      JString ''owner'',
      JString ''key_prefix'']),
    (''properties'', JObject [
      (''event'', JObject [
        (''type'', JString ''string'')]),
      (''key_id'', JObject [
        (''type'', JString ''string''),
        (''format'', JString ''uuid'')]),
      (''previous_key_id'', JObject [
        (''type'', JString ''string''),
        (''format'', JString ''uuid'')]),
      (''rotated_at'', JObject [
        (''type'', JString ''string''),
        (''format'', JString ''date-time'')]),
      (''scope'', JObject [
        (''$ref'', JString ''#/components/schemas/KeyScope'')]),
      (''owner'', JObject [
        (''type'', JString ''string'')]),
      (''key_prefix'', JObject [
        (''type'', JString ''string'')])]),
    (''example'', rotation_webhook_payload_example)]"

definition schema_RotationWebhookResponse :: "json" where
  "schema_RotationWebhookResponse = JObject [
    (''type'', JString ''object''),
    (''required'', JArray [JString ''event_id'', JString ''signature'', JString ''payload'']),
    (''properties'', JObject [
      (''event_id'', JObject [
        (''type'', JString ''string''),
        (''format'', JString ''uuid'')]),
      (''signature'', JObject [
        (''type'', JString ''string'')]),
      (''payload'', JObject [
        (''$ref'', JString ''#/components/schemas/RotationWebhookPayload'')])])]"

definition schema_RotatedKeyResponse :: "json" where
  "schema_RotatedKeyResponse = JObject [
    (''type'', JString ''object''),
    (''required'', JArray [JString ''token'', JString ''info'', JString ''previous'', JString ''webhook'']),
    (''properties'', JObject [
      (''token'', JObject [
        (''type'', JString ''string'')]),
      (''info'', JObject [
        (''$ref'', JString ''#/components/schemas/KeyInfo'')]),
      (''previous'', JObject [
        (''$ref'', JString ''#/components/schemas/KeyInfo'')]),
      (''webhook'', JObject [
        (''$ref'', JString ''#/components/schemas/RotationWebhookResponse'')])]),
    (''example'', rotated_key_example)]"

definition components :: "json" where
  "components = JObject [
    (''securitySchemes'', JObject [
      (''bearerAuth'', JObject [
        (''type'', JString ''http''),
        (''scheme'', JString ''bearer''),
        (''bearerFormat'', JString ''API Token'')])]),
    (''schemas'', JObject [
      (''ErrorResponse'', schema_ErrorResponse),
      (''SandboxLimits'', schema_SandboxLimits),
      (''SandboxResponse'', schema_SandboxResponse),
      (''CreateSandboxLimits'', schema_CreateSandboxLimits),
      (''CreateSandboxRequest'', schema_CreateSandboxRequest),
      (''ExecRequest'', schema_ExecRequest),
      (''ExecResponse'', schema_ExecResponse),
      (''ExecutionRecord'', schema_ExecutionRecord),
      (''CreateKeyScope'', schema_CreateKeyScope),
      (''CreateKeyRequest'', schema_CreateKeyRequest),
      (''KeyScope'', schema_KeyScope),
      (''KeyInfo'', schema_KeyInfo),
      (''IssuedKeyResponse'', schema_IssuedKeyResponse),
      (''RotateKeyRequest'', schema_RotateKeyRequest),
      (''RotationWebhookPayload'', schema_RotationWebhookPayload),
      (''RotationWebhookResponse'', schema_RotationWebhookResponse),
      (''RotatedKeyResponse'', schema_RotatedKeyResponse)])]"

definition response_400 :: "json" where
  "response_400 = JObject [
    (''description'', JString ''Bad request''),
    (''content'', JObject [
      (''application/json'', JObject [
        (''schema'', JObject [
          (''$ref'', JString ''#/components/schemas/ErrorResponse'')]),
        (''example'', error_example ''namespace query parameter is required'')])])]"

definition response_401 :: "json" where
  "response_401 = JObject [
    (''description'', JString ''Unauthorized''),
    (''content'', JObject [
      (''application/json'', JObject [
        (''schema'', JObject [
          (''$ref'', JString ''#/components/schemas/ErrorResponse'')]),
        (''example'', error_example ''missing Authorization bearer token'')])])]"

definition response_403 :: "json" where
  "response_403 = JObject [
    (''description'', JString ''Forbidden''),
    (''content'', JObject [
      (''application/json'', JObject [
        (''schema'', JObject [
          (''$ref'', JString ''#/components/schemas/ErrorResponse'')]),
        (''example'', error_example ''insufficient permissions for requested scope'')])])]"

definition response_404 :: "json" where
  "response_404 = JObject [
    (''description'', JString ''Not found''),
    (''content'', JObject [
      (''application/json'', JObject [
        (''schema'', JObject [
          (''$ref'', JString ''#/components/schemas/ErrorResponse'')]),
        (''example'', error_example ''sandbox 9f9c... not found'')])])]"

definition response_409 :: "json" where
  "response_409 = JObject [
    (''description'', JString ''Conflict''),
    (''content'', JObject [
      (''application/json'', JObject [
        (''schema'', JObject [
          (''$ref'', JString ''#/components/schemas/ErrorResponse'')]),
        (''example'', error_example (''sandbox '' @ [CHR 0x27] @ ''runner'' @ [CHR 0x27] @ '' already exists in namespace '' @ [CHR 0x27] @ ''demo'' @ [CHR 0x27]))])])]"

definition response_500 :: "json" where
  "response_500 = JObject [
    (''description'', JString ''Internal server error''),
    (''content'', JObject [
      (''application/json'', JObject [
        (''schema'', JObject [
          (''$ref'', JString ''#/components/schemas/ErrorResponse'')]),
        (''example'', error_example ''unexpected internal error'')])])]"

definition responses :: "json" where
  "responses = JObject [
    (''400'', response_400),
    (''401'', response_401),
    (''403'', response_403),
    (''404'', response_404),
    (''409'', response_409),
    (''500'', response_500)]"

definition op_getHealthz :: "json" where
  "op_getHealthz = JObject [
    (''tags'', JArray [JString ''Operations'']),
    (''summary'', JString ''Health probe''),
    (''operationId'', JString ''getHealthz''),
    (''responses'', JObject [
      (''200'', JObject [
        (''description'', JString ''Service is healthy'')])])]"

definition op_getMetrics :: "json" where
  "op_getMetrics = JObject [
    (''tags'', JArray [JString ''Operations'']),
    (''summary'', JString ''Prometheus metrics''),
    (''operationId'', JString ''getMetrics''),
    (''responses'', JObject [
      (''200'', JObject [
        (''description'', JString ''Metrics payload''),
        (''content'', JObject [
          (''text/plain'', JObject [
            (''schema'', JObject [
              (''type'', JString ''string'')]),
            (''example'', JString ''# metrics\<newline>bkg_cave_daemon_up 1\<newline>'')])])])])]"

definition op_createSandbox :: "json" where
  "op_createSandbox = JObject [
    (''tags'', JArray [JString ''Sandboxes'']),
    (''summary'', JString ''Create a sandbox''),
    (''operationId'', JString ''createSandbox''),
    (''security'', JArray [
      JObject [
        (''bearerAuth'', JArray [])]]),
    (''requestBody'', JObject [
      (''required'', JBool True),
      (''content'', JObject [
        (''application/json'', JObject [
          (''schema'', JObject [
            (''$ref'', JString ''#/components/schemas/CreateSandboxRequest'')]),
          (''example'', subscript (subscript (subscript components ''schemas'') ''CreateSandboxRequest'') ''example'')])])]),
    (''responses'', JObject [
      (''200'', JObject [
        (''description'', JString ''Sandbox created''),
        (''content'', JObject [
          (''application/json'', JObject [
            (''schema'', JObject [
              (''$ref'', JString ''#/components/schemas/SandboxResponse'')]),
            (''example'', sandbox_response_example)])])]),
      (''400'', subscript responses ''400''),
      (''401'', subscript responses ''401''),
      (''403'', subscript responses ''403''),
      (''409'', subscript responses ''409''),
      (''500'', subscript responses ''500'')])]"

definition op_listSandboxes :: "json" where
  "op_listSandboxes = JObject [
    (''tags'', JArray [JString ''Sandboxes'']),
    (''summary'', JString ''List sandboxes in a namespace''),
    (''operationId'', JString ''listSandboxes''),
    (''security'', JArray [
      JObject [
        (''bearerAuth'', JArray [])]]),
    (''parameters'', JArray [
      JObject [
        (''name'', JString ''namespace''),
        (''in'', JString ''query''),
        (''required'', JBool True),
        (''schema'', JObject [
          (''type'', JString ''string'')]),
        (''description'', JString ''Namespace identifier to filter sandboxes.'')]]),
    (''responses'', JObject [
      (''200'', JObject [
        (''description'', JString ''Sandboxes''),
        (''content'', JObject [
          (''application/json'', JObject [
            (''schema'', JObject [
              (''type'', JString ''array''),
              (''items'', JObject [
                (''$ref'', JString ''#/components/schemas/SandboxResponse'')])]),
            (''example'', JArray [sandbox_response_example])])])]),
      (''400'', subscript responses ''400''),
      (''401'', subscript responses ''401''),
      (''403'', subscript responses ''403''),
      (''500'', subscript responses ''500'')])]"

definition op_getSandbox :: "json" where
  "op_getSandbox = JObject [
    (''tags'', JArray [JString ''Sandboxes'']),
    (''summary'', JString ''Inspect sandbox''),
    (''operationId'', JString ''getSandbox''),
    (''security'', JArray [
      JObject [
        (''bearerAuth'', JArray [])]]),
    (''parameters'', JArray [
      JObject [
        (''name'', JString ''id''),
        (''in'', JString ''path''),
        (''required'', JBool True),
        (''schema'', JObject [
          (''type'', JString ''string''),
          (''format'', JString ''uuid'')])]]),
    (''responses'', JObject [
      (''200'', JObject [
        (''description'', JString ''Sandbox details''),
        (''content'', JObject [
          (''application/json'', JObject [
            (''schema'', JObject [
              (''$ref'', JString ''#/components/schemas/SandboxResponse'')]),
            (''example'', sandbox_response_example)])])]),
      (''401'', subscript responses ''401''),
      (''403'', subscript responses ''403''),
      (''404'', subscript responses ''404''),
      (''500'', subscript responses ''500'')])]"

definition op_startSandbox :: "json" where
  "op_startSandbox = JObject [
    (''tags'', JArray [JString ''Sandboxes'']),
    (''summary'', JString ''Start a sandbox''),
    (''operationId'', JString ''startSandbox''),
    (''security'', JArray [
      JObject [
        (''bearerAuth'', JArray [])]]),
    (''parameters'', JArray [
      JObject [
        (''name'', JString ''id''),
        (''in'', JString ''path''),
        (''required'', JBool True),
        (''schema'', JObject [
          (''type'', JString ''string''),
          (''format'', JString ''uuid'')])]]),
    (''responses'', JObject [
      (''200'', JObject [
        (''description'', JString ''Sandbox started''),
        (''content'', JObject [
          (''application/json'', JObject [
            (''schema'', JObject [
              (''$ref'', JString ''#/components/schemas/SandboxResponse'')]),
            (''example'', dict_set (dict_set sandbox_response_example ''status'' (JString ''running'')) ''last_started_at'' (JString ''2025-10-18T12:35:05Z''))])])]),
      (''401'', subscript responses ''401''),
      (''403'', subscript responses ''403''),
      (''404'', subscript responses ''404''),
      (''409'', subscript responses ''409''),
      (''500'', subscript responses ''500'')])]"

definition op_execSandbox :: "json" where
  "op_execSandbox = JObject [
    (''tags'', JArray [JString ''Sandboxes'']),
    (''summary'', JString ''Execute a command inside a sandbox''),
    (''operationId'', JString ''execSandbox''),
    (''security'', JArray [
      JObject [
        (''bearerAuth'', JArray [])]]),
    (''parameters'', JArray [
      JObject [
        (''name'', JString ''id''),
        (''in'', JString ''path''),
        (''required'', JBool True),
        (''schema'', JObject [
          (''type'', JString ''string''),
          (''format'', JString ''uuid'')])]]),
    (''requestBody'', JObject [
      (''required'', JBool True),
      (''content'', JObject [
        (''application/json'', JObject [
          (''schema'', JObject [
            (''$ref'', JString ''#/components/schemas/ExecRequest'')]),
          (''example'', subscript (subscript (subscript components ''schemas'') ''ExecRequest'') ''example'')])])]),
    (''responses'', JObject [
      (''200'', JObject [
        (''description'', JString ''Execution result''),
        (''content'', JObject [
          (''application/json'', JObject [
            (''schema'', JObject [
              (''$ref'', JString ''#/components/schemas/ExecResponse'')]),
            (''example'', exec_response_example)])])]),
      (''401'', subscript responses ''401''),
      (''403'', subscript responses ''403''),
      (''404'', subscript responses ''404''),
      (''500'', subscript responses ''500'')])]"

definition op_stopSandbox :: "json" where
  "op_stopSandbox = JObject [
    (''tags'', JArray [JString ''Sandboxes'']),
    (''summary'', JString ''Stop a sandbox''),
    (''operationId'', JString ''stopSandbox''),
    (''security'', JArray [
      JObject [
        (''bearerAuth'', JArray [])]]),
    (''parameters'', JArray [
      JObject [
        (''name'', JString ''id''),
        (''in'', JString ''path''),
        (''required'', JBool True),
        (''schema'', JObject [
          (''type'', JString ''string''),
          (''format'', JString ''uuid'')])]]),
    (''responses'', JObject [
      (''204'', JObject [
        (''description'', JString ''Sandbox stopped'')]),
      (''401'', subscript responses ''401''),
      (''403'', subscript responses ''403''),
      (''404'', subscript responses ''404''),
      (''409'', subscript responses ''409''),
      (''500'', subscript responses ''500'')])]"

definition op_deleteSandbox :: "json" where
  "op_deleteSandbox = JObject [
    (''tags'', JArray [JString ''Sandboxes'']),
    (''summary'', JString ''Delete a sandbox''),
    (''operationId'', JString ''deleteSandbox''),
    (''security'', JArray [
      JObject [
        (''bearerAuth'', JArray [])]]),
    (''parameters'', JArray [
      JObject [
        (''name'', JString ''id''),
        (''in'', JString ''path''),
        (''required'', JBool True),
        (''schema'', JObject [
          (''type'', JString ''string''),
          (''format'', JString ''uuid'')])]]),
    (''responses'', JObject [
      (''204'', JObject [
        (''description'', JString ''Sandbox deleted'')]),
      (''401'', subscript responses ''401''),
      (''403'', subscript responses ''403''),
      (''404'', subscript responses ''404''),
      (''500'', subscript responses ''500'')])]"

definition op_listSandboxExecutions :: "json" where
  "op_listSandboxExecutions = JObject [
    (''tags'', JArray [JString ''Sandboxes'']),
    (''summary'', JString ''List recent executions''),
    (''operationId'', JString ''listSandboxExecutions''),
    (''security'', JArray [
      JObject [
        (''bearerAuth'', JArray [])]]),
    (''parameters'', JArray [
      JObject [
        (''name'', JString ''id''),
        (''in'', JString ''path''),
        (''required'', JBool True),
        (''schema'', JObject [
          (''type'', JString ''string''),
          (''format'', JString ''uuid'')])],
      JObject [
        (''name'', JString ''limit''),
        (''in'', JString ''query''),
        (''required'', JBool False),
        (''schema'', JObject [
          (''type'', JString ''integer''),
          (''format'', JString ''int32''),
          (''minimum'', JInt 1),
          (''maximum'', JInt 100)]),
        (''description'', JString ''Maximum number of execution records (default 20).'')]]),
    (''responses'', JObject [
      (''200'', JObject [
        (''description'', JString ''Execution history''),
        (''content'', JObject [
          (''application/json'', JObject [
            (''schema'', JObject [
              (''type'', JString ''array''),
              (''items'', JObject [
                (''$ref'', JString ''#/components/schemas/ExecutionRecord'')])]),
            (''example'', JArray [execution_record_example])])])]),
      (''401'', subscript responses ''401''),
      (''403'', subscript responses ''403''),
      (''404'', subscript responses ''404''),
      (''500'', subscript responses ''500'')])]"

definition op_issueKey :: "json" where
  "op_issueKey = JObject [
    (''tags'', JArray [JString ''Auth'']),
    (''summary'', JString ''Issue an API key''),
    (''operationId'', JString ''issueKey''),
    (''security'', JArray [
      JObject [
        (''bearerAuth'', JArray [])],
      JObject []]),
    (''requestBody'', JObject [
      (''required'', JBool True),
      (''content'', JObject [
        (''application/json'', JObject [
          (''schema'', JObject [
            (''$ref'', JString ''#/components/schemas/CreateKeyRequest'')]),
          (''example'', subscript (subscript (subscript components ''schemas'') ''CreateKeyRequest'') ''example'')])])]),
    (''responses'', JObject [
      (''201'', JObject [
        (''description'', JString ''API key issued''),
        (''content'', JObject [
          (''application/json'', JObject [
            (''schema'', JObject [
              (''$ref'', JString ''#/components/schemas/IssuedKeyResponse'')]),
            (''example'', issued_key_example)])])]),
      (''401'', subscript responses ''401''),
      (''403'', subscript responses ''403''),
      (''500'', subscript responses ''500'')])]"

definition op_listKeys :: "json" where
  "op_listKeys = JObject [
    (''tags'', JArray [JString ''Auth'']),
    (''summary'', JString ''List issued API keys''),
    (''operationId'', JString ''listKeys''),
    (''security'', JArray [
      JObject [
        (''bearerAuth'', JArray [])]]),
    (''responses'', JObject [
      (''200'', JObject [
        (''description'', JString ''Known API keys''),
        (''content'', JObject [
          (''application/json'', JObject [
            (''schema'', JObject [
              (''type'', JString ''array''),
              (''items'', JObject [
                (''$ref'', JString ''#/components/schemas/KeyInfo'')])]),
            (''example'', JArray [subscript issued_key_example ''info''])])])]),
      (''401'', subscript responses ''401''),
      (''403'', subscript responses ''403''),
      (''500'', subscript responses ''500'')])]"

definition op_rotateKey :: "json" where
  "op_rotateKey = JObject [
    (''tags'', JArray [JString ''Auth'']),
    (''summary'', JString ''Rotate an API key''),
    (''operationId'', JString ''rotateKey''),
    (''security'', JArray [
      JObject [
        (''bearerAuth'', JArray [])]]),
    (''requestBody'', JObject [
      (''required'', JBool True),
      (''content'', JObject [
        (''application/json'', JObject [
          (''schema'', JObject [
            (''$ref'', JString ''#/components/schemas/RotateKeyRequest'')]),
          (''example'', subscript (subscript (subscript components ''schemas'') ''RotateKeyRequest'') ''example'')])])]),
    (''responses'', JObject [
      (''200'', JObject [
        (''description'', JString ''API key rotated''),
        (''content'', JObject [
          (''application/json'', JObject [
            (''schema'', JObject [
              (''$ref'', JString ''#/components/schemas/RotatedKeyResponse'')]),
            (''example'', rotated_key_example)])])]),
      (''400'', subscript responses ''400''),
      (''401'', subscript responses ''401''),
      (''403'', subscript responses ''403''),
      (''404'', subscript responses ''404''),
      (''500'', subscript responses ''500'')])]"

definition op_verifyRotationWebhook :: "json" where
  "op_verifyRotationWebhook = JObject [
    (''tags'', JArray [JString ''Auth'']),
    (''summary'', JString ''Verify a rotation webhook payload''),
    (''operationId'', JString ''verifyRotationWebhook''),
    (''security'', JArray [
      JObject [
        (''bearerAuth'', JArray [])]]),
    (''parameters'', JArray [
      JObject [
        (''name'', JString ''X-Cave-Webhook-Signature''),
        (''in'', JString ''header''),
        (''required'', JBool True),
        (''schema'', JObject [
          (''type'', JString ''string'')]),
        (''description'', JString ''HMAC signature generated with CAVE_ROTATION_WEBHOOK_SECRET.'')]]),
    (''requestBody'', JObject [
      (''required'', JBool True),
      (''content'', JObject [
        (''application/json'', JObject [
          (''schema'', JObject [
            (''$ref'', JString ''#/components/schemas/RotationWebhookPayload'')]),
          (''example'', rotation_webhook_payload_example)])])]),
    (''responses'', JObject [
      (''204'', JObject [
        (''description'', JString ''Webhook accepted'')]),
      (''401'', subscript responses ''401''),
      (''403'', subscript responses ''403''),
      (''500'', subscript responses ''500'')])]"

definition op_revokeKey :: "json" where
  "op_revokeKey = JObject [
    (''tags'', JArray [JString ''Auth'']),
    (''summary'', JString ''Revoke an API key''),
    (''operationId'', JString ''revokeKey''),
    (''security'', JArray [
      JObject [
        (''bearerAuth'', JArray [])]]),
    (''parameters'', JArray [
      JObject [
        (''name'', JString ''id''),
        (''in'', JString ''path''),
        (''required'', JBool True),
        (''schema'', JObject [
          (''type'', JString ''string''),
          (''format'', JString ''uuid'')])]]),
    (''responses'', JObject [
      (''204'', JObject [
        (''description'', JString ''Key revoked'')]),
      (''401'', subscript responses ''401''),
      (''403'', subscript responses ''403''),
      (''404'', subscript responses ''404''),
      (''500'', subscript responses ''500'')])]"

definition paths :: "json" where
  "paths = JObject [
    (''/healthz'', JObject [
      (''get'', op_getHealthz)]),
    (''/metrics'', JObject [
      (''get'', op_getMetrics)]),
    (''/api/v1/sandboxes'', JObject [
      (''post'', op_createSandbox),
      (''get'', op_listSandboxes)]),
    (''/api/v1/sandboxes/{id}/status'', JObject [
      (''get'', op_getSandbox)]),
    (''/api/v1/sandboxes/{id}/start'', JObject [
      (''post'', op_startSandbox)]),
    (''/api/v1/sandboxes/{id}/exec'', JObject [
      (''post'', op_execSandbox)]),
    (''/api/v1/sandboxes/{id}/stop'', JObject [
      (''post'', op_stopSandbox)]),
    (''/api/v1/sandboxes/{id}'', JObject [
      (''delete'', op_deleteSandbox)]),
    (''/api/v1/sandboxes/{id}/executions'', JObject [
      (''get'', op_listSandboxExecutions)]),
    (''/api/v1/auth/keys'', JObject [
      (''post'', op_issueKey),
      (''get'', op_listKeys)]),
    (''/api/v1/auth/keys/rotate'', JObject [
      (''post'', op_rotateKey)]),
    (''/api/v1/auth/keys/rotated'', JObject [
      (''post'', op_verifyRotationWebhook)]),
    (''/api/v1/auth/keys/{id}'', JObject [
      (''delete'', op_revokeKey)])]"

definition build_spec :: "json" where
  "build_spec = JObject [
    (''openapi'', JString ''3.0.3''),
    (''info'', JObject [
      (''title'', JString ''Cave Daemon API''),
      (''version'', JString ''0.1.0''),
      (''description'', JString ''REST interface for managing sandboxes, executing workloads, and issuing API keys. See docs/api.md for narrative documentation.'')]),
    (''servers'', JArray [
      JObject [
        (''url'', JString ''http://localhost:8080''),
        (''description'', JString ''Local development'')]]),
    (''tags'', JArray [
      JObject [
        (''name'', JString ''Operations''),
        (''description'', JString ''Health and telemetry endpoints.'')],
      JObject [
        (''name'', JString ''Sandboxes''),
        (''description'', JString ''Sandbox lifecycle management.'')],
      JObject [
        (''name'', JString ''Auth''),
        (''description'', JString ''API key issuance and revocation.'')]]),
    (''paths'', paths),
    (''components'', components)]"

section \<open>Reading the OpenAPI document\<close>

text \<open>The operation object stored under a path and a (lower-case) HTTP method.\<close>

definition operation :: "json \<Rightarrow> string \<Rightarrow> string \<Rightarrow> json option" where
  "operation doc path method = jpath doc [''paths'', path, method]"


text \<open>The status codes an operation declares, in the order of its \<^verbatim>\<open>responses\<close> dict.\<close>

definition response_codes :: "json \<Rightarrow> string list" where
  "response_codes opn = (case lookup_key opn ''responses'' of Some r \<Rightarrow> dict_keys r | None \<Rightarrow> [])"

definition success_codes :: "json \<Rightarrow> string list" where
  "success_codes opn = filter (\<lambda>c. take 1 c = ''2'') (response_codes opn)"


text \<open>
  The \<^verbatim>\<open>security\<close> list of an operation is a list of alternatives. An alternative that names
  \<^verbatim>\<open>bearerAuth\<close> asks for a bearer token; the empty alternative \<^verbatim>\<open>{}\<close> admits a request with
  no credentials. (The document has no top-level \<^verbatim>\<open>security\<close> to fall back on.)
\<close>

definition security_requirements :: "json \<Rightarrow> json list" where
  "security_requirements opn =
    (case lookup_key opn ''security'' of Some s \<Rightarrow> array_items s | None \<Rightarrow> [])"

definition asks_bearer :: "json \<Rightarrow> bool" where
  "asks_bearer alt = (lookup_key alt ''bearerAuth'' \<noteq> None)"

datatype auth_requirement = BearerRequired | BearerOptional | Unauthenticated

definition auth_of :: "json \<Rightarrow> auth_requirement" where
  "auth_of opn =
    (let alts = security_requirements opn in
     if alts = [] then Unauthenticated
     else if list_all asks_bearer alts then BearerRequired
     else if list_ex asks_bearer alts \<and> list_ex (\<lambda>alt. alt = JObject []) alts then BearerOptional
     else Unauthenticated)"



text \<open>A named schema of \<^verbatim>\<open>components["schemas"]\<close>, its property names and its required names.\<close>

definition schema_named :: "json \<Rightarrow> string \<Rightarrow> json option" where
  "schema_named doc name = jpath doc [''components'', ''schemas'', name]"

definition schema_names :: "json \<Rightarrow> string list" where
  "schema_names doc =
    (case jpath doc [''components'', ''schemas''] of Some s \<Rightarrow> dict_keys s | None \<Rightarrow> [])"

definition property_names :: "json \<Rightarrow> string list" where
  "property_names s = (case lookup_key s ''properties'' of Some ps \<Rightarrow> dict_keys ps | None \<Rightarrow> [])"

definition required_names :: "json \<Rightarrow> json list" where
  "required_names s = (case lookup_key s ''required'' of Some r \<Rightarrow> array_items r | None \<Rightarrow> [])"

definition schema_property_names :: "json \<Rightarrow> string \<Rightarrow> string list" where
  "schema_property_names doc name =
    (case schema_named doc name of Some s \<Rightarrow> property_names s | None \<Rightarrow> [])"

definition schema_required_names :: "json \<Rightarrow> string \<Rightarrow> json list" where
  "schema_required_names doc name =
    (case schema_named doc name of Some s \<Rightarrow> required_names s | None \<Rightarrow> [])"

text \<open>
  One row of the HTTP-surface table of the specification: method, path, whether the bearer
  token is required or optional, the success status and the listed error statuses.
\<close>

record surface_row =
  row_method :: string
  row_path :: string
  row_auth :: auth_requirement
  row_success :: string
  row_errors :: "string list"

definition http_surface :: "surface_row list" where
  "http_surface = [
    \<lparr>row_method = ''post'', row_path = ''/api/v1/auth/keys'', row_auth = BearerOptional,
      row_success = ''201'', row_errors = [''401'', ''403'']\<rparr>,
    \<lparr>row_method = ''get'', row_path = ''/api/v1/auth/keys'', row_auth = BearerRequired,
      row_success = ''200'', row_errors = [''401'', ''403'']\<rparr>,
    \<lparr>row_method = ''post'', row_path = ''/api/v1/auth/keys/rotate'', row_auth = BearerRequired,
      row_success = ''200'', row_errors = [''400'', ''401'', ''403'', ''404'']\<rparr>,
    \<lparr>row_method = ''post'', row_path = ''/api/v1/auth/keys/rotated'', row_auth = BearerRequired,
      row_success = ''204'', row_errors = [''401'', ''403'']\<rparr>,
    \<lparr>row_method = ''delete'', row_path = ''/api/v1/auth/keys/{id}'', row_auth = BearerRequired,
      row_success = ''204'', row_errors = [''401'', ''403'', ''404'']\<rparr>]"

definition row_holds :: "json \<Rightarrow> surface_row \<Rightarrow> bool" where
  "row_holds doc r =
    (case operation doc (row_path r) (row_method r) of
       None \<Rightarrow> False
     | Some opn \<Rightarrow>
         auth_of opn = row_auth r \<and>
         success_codes opn = [row_success r] \<and>
         list_all (\<lambda>e. e \<in> set (response_codes opn)) (row_errors r))"

section \<open>Which values a schema of the document admits\<close>

text \<open>
  The schemas are OpenAPI 3.0 schema objects. The keywords the generator uses that
  constrain a value are \<^verbatim>\<open>type\<close>, \<^verbatim>\<open>nullable\<close>, \<^verbatim>\<open>enum\<close>, \<^verbatim>\<open>minimum\<close>, \<^verbatim>\<open>maximum\<close>,
  \<^verbatim>\<open>required\<close>, \<^verbatim>\<open>properties\<close>, \<^verbatim>\<open>items\<close>, \<^verbatim>\<open>oneOf\<close> and \<^verbatim>\<open>$ref\<close>; \<^verbatim>\<open>description\<close>, \<^verbatim>\<open>format\<close>,
  \<^verbatim>\<open>example\<close> and \<^verbatim>\<open>discriminator\<close> are read as annotations. A member of an object that
  \<^verbatim>\<open>properties\<close> does not name is unconstrained (no schema sets
  \<^verbatim>\<open>additionalProperties\<close>), and no schema sets \<^verbatim>\<open>minLength\<close> or \<^verbatim>\<open>pattern\<close>.
\<close>

fun type_matches :: "string \<Rightarrow> json \<Rightarrow> bool" where
  "type_matches t (JObject fs) = (t = ''object'')"
| "type_matches t (JArray xs) = (t = ''array'')"
| "type_matches t (JString s) = (t = ''string'')"
| "type_matches t (JInt i) = (t = ''integer'' \<or> t = ''number'')"
| "type_matches t (JBool b) = (t = ''boolean'')"
| "type_matches t JNull = False"

fun type_ok :: "json option \<Rightarrow> json \<Rightarrow> bool" where
  "type_ok (Some (JString t)) v = type_matches t v"
| "type_ok _ v = True"

fun enum_ok :: "json option \<Rightarrow> json \<Rightarrow> bool" where
  "enum_ok (Some (JArray es)) v = (v \<in> set es)"
| "enum_ok _ v = True"

fun minimum_ok :: "json option \<Rightarrow> json \<Rightarrow> bool" where
  "minimum_ok (Some (JInt m)) (JInt i) = (m \<le> i)"
| "minimum_ok _ v = True"

fun maximum_ok :: "json option \<Rightarrow> json \<Rightarrow> bool" where
  "maximum_ok (Some (JInt m)) (JInt i) = (i \<le> m)"
| "maximum_ok _ v = True"

fun has_member :: "(string \<times> json) list \<Rightarrow> json \<Rightarrow> bool" where
  "has_member fs (JString k) = (map_of fs k \<noteq> None)"
| "has_member fs _ = True"

fun required_ok :: "json option \<Rightarrow> json \<Rightarrow> bool" where
  "required_ok (Some (JArray rs)) (JObject fs) = list_all (has_member fs) rs"
| "required_ok _ v = True"

text \<open>
  The pairs (subschema, part of the value) that \<^verbatim>\<open>properties\<close> and \<^verbatim>\<open>items\<close> ask to check:
  each named property that the object has, and each element of the array.
\<close>

fun member_obligation :: "(string \<times> json) list \<Rightarrow> string \<times> json \<Rightarrow> (json \<times> json) list" where
  "member_obligation fs (k, sub) = (case map_of fs k of None \<Rightarrow> [] | Some fv \<Rightarrow> [(sub, fv)])"

fun property_obligations :: "json option \<Rightarrow> json \<Rightarrow> (json \<times> json) list" where
  "property_obligations (Some (JObject ps)) (JObject fs) = concat (map (member_obligation fs) ps)"
| "property_obligations _ v = []"

fun item_obligations :: "json option \<Rightarrow> json \<Rightarrow> (json \<times> json) list" where
  "item_obligations (Some sub) (JArray xs) = map (\<lambda>x. (sub, x)) xs"
| "item_obligations _ v = []"

fun alternatives :: "json option \<Rightarrow> json list option" where
  "alternatives (Some (JArray alts)) = Some alts"
| "alternatives _ = None"

text \<open>A \<^verbatim>\<open>$ref\<close> of the form \<^verbatim>\<open>#/a/b/c\<close> is followed from the root of the document.\<close>

fun split_on :: "char \<Rightarrow> string \<Rightarrow> string list" where
  "split_on c [] = [[]]"
| "split_on c (x # xs) =
    (if x = c then [] # split_on c xs
     else (case split_on c xs of [] \<Rightarrow> [[x]] | w # ws \<Rightarrow> (x # w) # ws))"

definition resolve_ref :: "json \<Rightarrow> string \<Rightarrow> json option" where
  "resolve_ref doc r =
    (case split_on CHR ''/'' r of
       [] \<Rightarrow> None
     | h # ks \<Rightarrow> if h = ''#'' then jpath doc ks else None)"

text \<open>Verdicts are combined; \<open>None\<close> (no verdict) is contagious.\<close>

fun all_verdicts :: "bool option list \<Rightarrow> bool option" where
  "all_verdicts [] = Some True"
| "all_verdicts (None # rs) = None"
| "all_verdicts (Some b # rs) = (case all_verdicts rs of None \<Rightarrow> None | Some c \<Rightarrow> Some (b \<and> c))"

fun count_admitting :: "bool option list \<Rightarrow> nat option" where
  "count_admitting [] = Some 0"
| "count_admitting (None # rs) = None"
| "count_admitting (Some b # rs) =
    (case count_admitting rs of None \<Rightarrow> None | Some k \<Rightarrow> Some (if b then Suc k else k))"

text \<open>
  \<open>admits n doc s v\<close>: does the schema \<open>s\<close> of the document \<open>doc\<close> admit the value \<open>v\<close>? The
  first argument bounds the nesting depth of subschemas and references that is followed
  (references may be cyclic); the result is \<open>None\<close> when the bound is reached or a
  reference does not resolve. \<^verbatim>\<open>oneOf\<close> asks for exactly one admitting alternative.
\<close>

fun admits :: "nat \<Rightarrow> json \<Rightarrow> json \<Rightarrow> json \<Rightarrow> bool option" where
  "admits 0 doc s v = None"
| "admits (Suc n) doc s v =
    (case lookup_key s ''$ref'' of
       Some (JString r) \<Rightarrow>
         (case resolve_ref doc r of None \<Rightarrow> None | Some s' \<Rightarrow> admits n doc s' v)
     | Some _ \<Rightarrow> None
     | None \<Rightarrow>
         if v = JNull \<and> lookup_key s ''nullable'' = Some (JBool True) then Some True
         else all_verdicts
           ([Some (type_ok (lookup_key s ''type'') v),
             Some (enum_ok (lookup_key s ''enum'') v),
             Some (minimum_ok (lookup_key s ''minimum'') v),
             Some (maximum_ok (lookup_key s ''maximum'') v),
             Some (required_ok (lookup_key s ''required'') v)] @
            map (\<lambda>p. admits n doc (fst p) (snd p))
              (property_obligations (lookup_key s ''properties'') v @
               item_obligations (lookup_key s ''items'') v) @
            [case alternatives (lookup_key s ''oneOf'') of
               None \<Rightarrow> Some True
             | Some alts \<Rightarrow>
                 (case count_admitting (map (\<lambda>alt. admits n doc alt v) alts) of
                    None \<Rightarrow> None
                  | Some k \<Rightarrow> Some (k = 1))]))"

text \<open>
  The two shapes of a key scope on the wire: an object tagged \<^verbatim>\<open>admin\<close>, and an object tagged
  \<^verbatim>\<open>namespace\<close> whose \<^verbatim>\<open>namespace\<close> member is a string.
\<close>

fun is_string :: "json \<Rightarrow> bool" where
  "is_string (JString s) = True"
| "is_string _ = False"

definition admin_shaped :: "json \<Rightarrow> bool" where
  "admin_shaped v = (lookup_key v ''type'' = Some (JString ''admin''))"

definition namespace_shaped :: "json \<Rightarrow> bool" where
  "namespace_shaped v =
    (lookup_key v ''type'' = Some (JString ''namespace'') \<and>
     (case lookup_key v ''namespace'' of None \<Rightarrow> False | Some ns \<Rightarrow> is_string ns))"

section \<open>The key manager and the webhook notifier, from the specification\<close>

text \<open>
  The daemon that serves the API is not among the sources; the generator only declares
  its interface. The definitions of this section follow the specification's words.
\<close>

unbundle bit_operations_syntax

datatype key_scope = Admin | Namespace string

record key_record =
  key_id :: string
  scope :: key_scope
  rate_limit :: nat
  lookup_hash :: string
  key_prefix :: string
  created_at :: nat
  last_used_at :: "nat option"
  expires_at :: "nat option"
  rotated_from :: "string option"
  rotated_at :: "nat option"
  revoked :: bool

datatype key_error = NotFound | Conflict | ValidationError | Unauthorized | InvalidState

text \<open>
  Modelled from the spec: the Key Store (section 4.2), which is not under src/. It is a keyed
  container of records; \<^verbatim>\<open>find_by_id\<close> looks a record up, \<^verbatim>\<open>insert\<close> fails with \<^verbatim>\<open>Conflict\<close> on an
  id that exists, and \<^verbatim>\<open>mark_revoked\<close> sets the \<^verbatim>\<open>revoked\<close> flag (a no-op on a record that is
  already revoked, and on an id that is absent).
\<close>

type_synonym key_store = "string \<rightharpoonup> key_record"

definition find_by_id :: "key_store \<Rightarrow> string \<Rightarrow> key_record option" where
  "find_by_id st i = st i"

definition insert_record :: "key_store \<Rightarrow> key_record \<Rightarrow> key_error + key_store" where
  "insert_record st r =
    (case st (key_id r) of None \<Rightarrow> Inr (st(key_id r \<mapsto> r)) | Some old \<Rightarrow> Inl Conflict)"

definition mark_revoked :: "key_store \<Rightarrow> string \<Rightarrow> key_store" where
  "mark_revoked st i =
    (case st i of None \<Rightarrow> st | Some r \<Rightarrow> st(i \<mapsto> r\<lparr>revoked := True\<rparr>))"

text \<open>
  Modelled from the spec: \<^verbatim>\<open>revoke(id)\<close> of the Key Manager (section 4.4), which is not under
  src/. It fails with \<^verbatim>\<open>NotFound\<close> if no record with that id exists and otherwise marks the
  record revoked, also when it is revoked already.
\<close>

definition revoke :: "key_store \<Rightarrow> string \<Rightarrow> key_error + key_store" where
  "revoke st i =
    (case find_by_id st i of
       None \<Rightarrow> Inl NotFound
     | Some r \<Rightarrow> Inr (mark_revoked st i))"

text \<open>
  Modelled from the spec: the Webhook Notifier (section 4.5), which is not under src/. The
  signature of a payload is the HMAC of its canonical bytes under the rotation secret;
  the hash function, its block size and the secret are parameters. \<^verbatim>\<open>verify\<close> recomputes the
  HMAC and compares it with the supplied signature in constant time: the lengths are
  compared, and the byte-wise differences are accumulated over the whole signature
  instead of stopping at the first one.
\<close>

type_synonym bytes = "8 word list"

definition hmac :: "(bytes \<Rightarrow> bytes) \<Rightarrow> nat \<Rightarrow> bytes \<Rightarrow> bytes \<Rightarrow> bytes" where
  "hmac h block secret msg =
    (let k0 = (if block < length secret then h secret else secret);
         k = k0 @ replicate (block - length k0) 0
     in h (map (\<lambda>b. b XOR 0x5C) k @ h (map (\<lambda>b. b XOR 0x36) k @ msg)))"

definition sign :: "(bytes \<Rightarrow> bytes) \<Rightarrow> nat \<Rightarrow> bytes \<Rightarrow> bytes \<Rightarrow> bytes" where
  "sign h block secret payload = hmac h block secret payload"

fun accumulate_diff :: "bytes \<Rightarrow> bytes \<Rightarrow> 8 word \<Rightarrow> 8 word" where
  "accumulate_diff (x # xs) (y # ys) acc = accumulate_diff xs ys (acc OR (x XOR y))"
| "accumulate_diff xs ys acc = acc"

definition constant_time_eq :: "bytes \<Rightarrow> bytes \<Rightarrow> bool" where
  "constant_time_eq a b = (length a = length b \<and> accumulate_diff a b 0 = 0)"

definition verify :: "(bytes \<Rightarrow> bytes) \<Rightarrow> nat \<Rightarrow> bytes \<Rightarrow> bytes \<Rightarrow> bytes \<Rightarrow> bool" where
  "verify h block secret payload signature =
    constant_time_eq (sign h block secret payload) signature"

text \<open>Flipping bit \<open>j\<close> of byte \<open>i\<close> of a signature.\<close>

definition flip_bit :: "nat \<Rightarrow> nat \<Rightarrow> bytes \<Rightarrow> bytes" where
  "flip_bit i j s = s[i := (s ! i) XOR push_bit j 1]"

section \<open>Serialising a document\<close>

text \<open>
  \<^verbatim>\<open>json.dumps(spec, indent=2)\<close> on the values the generator builds, as CPython's encoder
  writes them: \<^verbatim>\<open>null\<close>, \<^verbatim>\<open>true\<close>, \<^verbatim>\<open>false\<close>, integers in decimal, strings in double quotes
  with \<^verbatim>\<open>ensure_ascii\<close> escaping, \<^verbatim>\<open>[]\<close> and \<^verbatim>\<open>{}\<close> for the empty containers, and otherwise one
  item per line, items separated by a comma, a key and its value by a colon and a space,
  each nesting level indented by two more spaces. Characters are the 8-bit characters of
  HOL strings; every string of the generator is ASCII.
\<close>

definition dec_digit :: "nat \<Rightarrow> char" where
  "dec_digit d = ''0123456789'' ! (d mod 10)"

definition hex_digit :: "nat \<Rightarrow> char" where
  "hex_digit d = ''0123456789abcdef'' ! (d mod 16)"

fun string_of_nat :: "nat \<Rightarrow> string" where
  "string_of_nat n =
    (if n < 10 then [dec_digit n] else string_of_nat (n div 10) @ [dec_digit (n mod 10)])"

declare string_of_nat.simps [simp del]

definition string_of_int :: "int \<Rightarrow> string" where
  "string_of_int i = (if i < 0 then CHR ''-'' # string_of_nat (nat (- i)) else string_of_nat (nat i))"

definition escape_char :: "char \<Rightarrow> string" where
  "escape_char c =
    (if c = CHR 0x5C then [CHR 0x5C, CHR 0x5C]
     else if c = CHR 0x22 then [CHR 0x5C, CHR 0x22]
     else if c = CHR 0x08 then [CHR 0x5C, CHR ''b'']
     else if c = CHR 0x0C then [CHR 0x5C, CHR ''f'']
     else if c = CHR 0x0A then [CHR 0x5C, CHR ''n'']
     else if c = CHR 0x0D then [CHR 0x5C, CHR ''r'']
     else if c = CHR 0x09 then [CHR 0x5C, CHR ''t'']
     else if 0x20 \<le> (of_char c :: nat) \<and> (of_char c :: nat) \<le> 0x7E then [c]
     else [CHR 0x5C, CHR ''u'', CHR ''0'', CHR ''0'',
           hex_digit (of_char c div 16), hex_digit (of_char c mod 16)])"

definition encode_string :: "string \<Rightarrow> string" where
  "encode_string s = CHR 0x22 # concat (map escape_char s) @ [CHR 0x22]"

definition newline_indent :: "nat \<Rightarrow> string" where
  "newline_indent level = CHR 0x0A # replicate (2 * level) CHR '' ''"

fun join :: "string \<Rightarrow> string list \<Rightarrow> string" where
  "join sep [] = []"
| "join sep [x] = x"
| "join sep (x # y # ys) = x @ sep @ join sep (y # ys)"

fun iterencode :: "nat \<Rightarrow> json \<Rightarrow> string" where
  "iterencode level JNull = ''null''"
| "iterencode level (JBool b) = (if b then ''true'' else ''false'')"
| "iterencode level (JInt i) = string_of_int i"
| "iterencode level (JString s) = encode_string s"
| "iterencode level (JArray xs) =
    (if xs = [] then ''[]''
     else ''['' @ newline_indent (Suc level) @
          join (CHR '','' # newline_indent (Suc level)) (map (iterencode (Suc level)) xs) @
          newline_indent level @ '']'')"
| "iterencode level (JObject kvs) =
    (if kvs = [] then ''{}''
     else ''{'' @ newline_indent (Suc level) @
          join (CHR '','' # newline_indent (Suc level))
            (map (\<lambda>kv. encode_string (fst kv) @ '': '' @ iterencode (Suc level) (snd kv)) kvs) @
          newline_indent level @ ''}'')"

definition json_dumps :: "json \<Rightarrow> string" where
  "json_dumps v = iterencode 0 v"

section \<open>The generator as a program\<close>

text \<open>
  To say what \<^verbatim>\<open>generate_openapi.py\<close> reads when it runs, its functions are also given as
  syntax: the expressions and statements the script is written in, with a semantics in
  which an expression can read the process environment, the clock and a source of
  randomness. The expression forms are those the script uses (literals, dict and list
  displays, names, calls of the script's own functions, subscripts, \<^verbatim>\<open>{**d, k: v}\<close>,
  \<^verbatim>\<open>.copy()\<close>, \<^verbatim>\<open>len\<close>, \<^verbatim>\<open>>\<close>, the conditional expression, \<^verbatim>\<open>Path\<close>, \<^verbatim>\<open>+\<close> on strings and
  \<^verbatim>\<open>json.dumps(_, indent=2)\<close>) and three that read: \<^verbatim>\<open>os.environ.get(k, d)\<close>, \<^verbatim>\<open>time.time()\<close> and
  \<^verbatim>\<open>random.getrandbits\<close>.
\<close>

datatype expr =
    ENone
  | EBool bool
  | EInt int
  | EStr string
  | EList "expr list"
  | EDict "(string \<times> expr) list"
  | EName string
  | ECall string "expr list"
  | ESubscript expr string
  | EIndex expr nat
  | EDictMerge expr "(string \<times> expr) list"
  | ECopy expr
  | ELen expr
  | EGreater expr expr
  | EIfExp expr expr expr
  | EPath expr
  | EConcat expr expr
  | EJsonDumps expr
  | EEnvGet string string
  | ENow
  | ERandom

datatype stmt =
    Assign string expr
  | Return expr
  | WriteText expr expr

record fundef =
  fn_params :: "string list"
  fn_body :: "stmt list"

type_synonym program = "(string \<times> fundef) list"

text \<open>What a run can read and what it leaves behind: the files.\<close>

record runtime =
  rt_environ :: "string \<rightharpoonup> string"
  rt_clock :: int
  rt_entropy :: int
  rt_argv :: "string list"
  rt_files :: "string \<rightharpoonup> string"

text \<open>
  A dict display inserts its items from left to right: a repeated key keeps its first
  position and takes the last value.
\<close>

definition build_dict :: "(string \<times> json) list \<Rightarrow> (string \<times> json) list \<Rightarrow> (string \<times> json) list" where
  "build_dict base kvs = foldl (\<lambda>acc kv. AList.update (fst kv) (snd kv) acc) base kvs"

text \<open>All results, in order, or none if one is missing.\<close>

fun all_values :: "'a option list \<Rightarrow> 'a list option" where
  "all_values [] = Some []"
| "all_values (None # rs) = None"
| "all_values (Some v # rs) = (case all_values rs of None \<Rightarrow> None | Some vs \<Rightarrow> Some (v # vs))"

text \<open>
  The body of a function called inside an expression: assignments bind local names, and
  \<^verbatim>\<open>return\<close> gives the value (a body that ends without \<^verbatim>\<open>return\<close> gives \<^verbatim>\<open>None\<close>). A called
  function that writes a file is outside the fragment: its call has no result.
\<close>

fun exec_body ::
  "((string \<times> json) list \<Rightarrow> expr \<Rightarrow> json option) \<Rightarrow> (string \<times> json) list \<Rightarrow> stmt list \<Rightarrow> json option" where
  "exec_body ev loc [] = Some JNull"
| "exec_body ev loc (Assign x e # rest) =
    (case ev loc e of None \<Rightarrow> None | Some v \<Rightarrow> exec_body ev ((x, v) # loc) rest)"
| "exec_body ev loc (Return e # rest) = ev loc e"
| "exec_body ev loc (WriteText t c # rest) = None"

fun subscript_value :: "json option \<Rightarrow> string \<Rightarrow> json option" where
  "subscript_value (Some d) k = lookup_key d k"
| "subscript_value None k = None"

fun index_value :: "json option \<Rightarrow> nat \<Rightarrow> json option" where
  "index_value (Some (JArray xs)) i = (if i < length xs then Some (xs ! i) else None)"
| "index_value _ i = None"

fun copy_value :: "json option \<Rightarrow> json option" where
  "copy_value (Some (JObject kvs)) = Some (JObject kvs)"
| "copy_value (Some (JArray xs)) = Some (JArray xs)"
| "copy_value _ = None"

fun len_value :: "json option \<Rightarrow> json option" where
  "len_value (Some (JArray xs)) = Some (JInt (int (length xs)))"
| "len_value (Some (JObject kvs)) = Some (JInt (int (length kvs)))"
| "len_value (Some (JString s)) = Some (JInt (int (length s)))"
| "len_value _ = None"

fun greater_value :: "json option \<Rightarrow> json option \<Rightarrow> json option" where
  "greater_value (Some (JInt a)) (Some (JInt b)) = Some (JBool (b < a))"
| "greater_value _ _ = None"

fun path_value :: "json option \<Rightarrow> json option" where
  "path_value (Some (JString s)) = Some (JString s)"
| "path_value _ = None"

fun concat_value :: "json option \<Rightarrow> json option \<Rightarrow> json option" where
  "concat_value (Some (JString a)) (Some (JString b)) = Some (JString (a @ b))"
| "concat_value _ _ = None"

fun merge_value :: "json option \<Rightarrow> string list \<Rightarrow> json list option \<Rightarrow> json option" where
  "merge_value (Some (JObject base)) ks (Some vs) = Some (JObject (build_dict base (zip ks vs)))"
| "merge_value _ ks _ = None"

text \<open>
  \<open>eval_expr n prog w loc e\<close>: the value of \<open>e\<close> in the program \<open>prog\<close>, run in \<open>w\<close>, with local
  names \<open>loc\<close>. The first argument bounds the nesting depth of expressions and calls that
  is followed (a function may call itself); the result is \<open>None\<close> when the bound is
  reached or Python raises (an unknown name or key, an index out of range, an operand of
  the wrong type, a wrong number of arguments). A call binds the parameters and runs the body with no other locals.
\<close>

fun eval_expr :: "nat \<Rightarrow> program \<Rightarrow> runtime \<Rightarrow> (string \<times> json) list \<Rightarrow> expr \<Rightarrow> json option" where
  "eval_expr 0 prog w loc e = None"
| "eval_expr (Suc n) prog w loc ENone = Some JNull"
| "eval_expr (Suc n) prog w loc (EBool b) = Some (JBool b)"
| "eval_expr (Suc n) prog w loc (EInt i) = Some (JInt i)"
| "eval_expr (Suc n) prog w loc (EStr s) = Some (JString s)"
| "eval_expr (Suc n) prog w loc (EList es) =
    map_option JArray (all_values (map (\<lambda>e. eval_expr n prog w loc e) es))"
| "eval_expr (Suc n) prog w loc (EDict kvs) =
    merge_value (Some (JObject [])) (map fst kvs)
      (all_values (map (\<lambda>kv. eval_expr n prog w loc (snd kv)) kvs))"
| "eval_expr (Suc n) prog w loc (EName x) = map_of loc x"
| "eval_expr (Suc n) prog w loc (ECall f args) =
    (case map_of prog f of
       None \<Rightarrow> None
     | Some fd \<Rightarrow>
         (case all_values (map (\<lambda>e. eval_expr n prog w loc e) args) of
            None \<Rightarrow> None
          | Some vs \<Rightarrow>
              if length vs = length (fn_params fd)
              then exec_body (\<lambda>l e. eval_expr n prog w l e) (zip (fn_params fd) vs) (fn_body fd)
              else None))"
| "eval_expr (Suc n) prog w loc (ESubscript d k) = subscript_value (eval_expr n prog w loc d) k"
| "eval_expr (Suc n) prog w loc (EIndex d i) = index_value (eval_expr n prog w loc d) i"
| "eval_expr (Suc n) prog w loc (EDictMerge d kvs) =
    merge_value (eval_expr n prog w loc d) (map fst kvs)
      (all_values (map (\<lambda>kv. eval_expr n prog w loc (snd kv)) kvs))"
| "eval_expr (Suc n) prog w loc (ECopy d) = copy_value (eval_expr n prog w loc d)"
| "eval_expr (Suc n) prog w loc (ELen d) = len_value (eval_expr n prog w loc d)"
| "eval_expr (Suc n) prog w loc (EGreater a b) =
    greater_value (eval_expr n prog w loc a) (eval_expr n prog w loc b)"
| "eval_expr (Suc n) prog w loc (EIfExp c a b) =
    (case eval_expr n prog w loc c of
       Some (JBool t) \<Rightarrow> if t then eval_expr n prog w loc a else eval_expr n prog w loc b
     | _ \<Rightarrow> None)"
| "eval_expr (Suc n) prog w loc (EPath d) = path_value (eval_expr n prog w loc d)"
| "eval_expr (Suc n) prog w loc (EConcat a b) =
    concat_value (eval_expr n prog w loc a) (eval_expr n prog w loc b)"
| "eval_expr (Suc n) prog w loc (EJsonDumps d) =
    map_option (\<lambda>v. JString (json_dumps v)) (eval_expr n prog w loc d)"
| "eval_expr (Suc n) prog w loc (EEnvGet k d) =
    Some (JString (case rt_environ w k of None \<Rightarrow> d | Some v \<Rightarrow> v))"
| "eval_expr (Suc n) prog w loc ENow = Some (JInt (rt_clock w))"
| "eval_expr (Suc n) prog w loc ERandom = Some (JInt (rt_entropy w))"

text \<open>
  The body of the entry point: as \<open>exec_body\<close>, and \<^verbatim>\<open>target.write_text(content)\<close> replaces
  the content of a file. The result is the files at the end (\<open>None\<close> if Python raises).
\<close>

fun exec_proc ::
  "((string \<times> json) list \<Rightarrow> expr \<Rightarrow> json option) \<Rightarrow> (string \<rightharpoonup> string) \<Rightarrow>
     (string \<times> json) list \<Rightarrow> stmt list \<Rightarrow> (string \<rightharpoonup> string) option" where
  "exec_proc ev fs loc [] = Some fs"
| "exec_proc ev fs loc (Assign x e # rest) =
    (case ev loc e of None \<Rightarrow> None | Some v \<Rightarrow> exec_proc ev fs ((x, v) # loc) rest)"
| "exec_proc ev fs loc (Return e # rest) =
    (case ev loc e of None \<Rightarrow> None | Some v \<Rightarrow> Some fs)"
| "exec_proc ev fs loc (WriteText t c # rest) =
    (case ev loc t of
       Some (JString p) \<Rightarrow>
         (case ev loc c of
            Some (JString s) \<Rightarrow> exec_proc ev (fs(p \<mapsto> s)) loc rest
          | _ \<Rightarrow> None)
     | _ \<Rightarrow> None)"

text \<open>An expression, a statement, a function, a program that reads nothing.\<close>

fun reads_nothing :: "expr \<Rightarrow> bool" where
  "reads_nothing (EList es) = list_all reads_nothing es"
| "reads_nothing (EDict kvs) = list_all (\<lambda>kv. reads_nothing (snd kv)) kvs"
| "reads_nothing (ECall f args) = list_all reads_nothing args"
| "reads_nothing (ESubscript d k) = reads_nothing d"
| "reads_nothing (EIndex d i) = reads_nothing d"
| "reads_nothing (EDictMerge d kvs) =
    (reads_nothing d \<and> list_all (\<lambda>kv. reads_nothing (snd kv)) kvs)"
| "reads_nothing (ECopy d) = reads_nothing d"
| "reads_nothing (ELen d) = reads_nothing d"
| "reads_nothing (EGreater a b) = (reads_nothing a \<and> reads_nothing b)"
| "reads_nothing (EIfExp c a b) = (reads_nothing c \<and> reads_nothing a \<and> reads_nothing b)"
| "reads_nothing (EPath d) = reads_nothing d"
| "reads_nothing (EConcat a b) = (reads_nothing a \<and> reads_nothing b)"
| "reads_nothing (EJsonDumps d) = reads_nothing d"
| "reads_nothing (EEnvGet k d) = False"
| "reads_nothing ENow = False"
| "reads_nothing ERandom = False"
| "reads_nothing _ = True"

fun stmt_reads_nothing :: "stmt \<Rightarrow> bool" where
  "stmt_reads_nothing (Assign x e) = reads_nothing e"
| "stmt_reads_nothing (Return e) = reads_nothing e"
| "stmt_reads_nothing (WriteText t c) = (reads_nothing t \<and> reads_nothing c)"

definition program_reads_nothing :: "program \<Rightarrow> bool" where
  "program_reads_nothing prog = list_all (\<lambda>f. list_all stmt_reads_nothing (fn_body (snd f))) prog"

subsection \<open>The functions of \<^verbatim>\<open>generate_openapi.py\<close>\<close>

text \<open>
  Each function of the script, statement by statement. In \<^verbatim>\<open>build_spec\<close> the entries of
  \<^verbatim>\<open>components["schemas"]\<close>, of \<^verbatim>\<open>responses\<close> and the operation objects of \<^verbatim>\<open>paths\<close> are named
  \<open>src_schema_<name>\<close>, \<open>src_response_<code>\<close> and \<open>src_op_<operationId>\<close>, the three
  assigned expressions \<open>src_components\<close>, \<open>src_responses\<close> and \<open>src_paths\<close>, and the returned
  one \<open>src_document\<close>.
\<close>

definition src_sandbox_response_example :: "fundef" where
  "src_sandbox_response_example =
    \<lparr>fn_params = [],
     fn_body = [
      Return (EDict [
        (''id'', EStr ''9f9c9872-2d9c-4c25-9c36-4e45be927834''),
        (''namespace'', EStr ''demo''),
        (''name'', EStr ''runner''),
        (''runtime'', EStr ''process''),
        (''status'', EStr ''created''),
        (''limits'', EDict [
          (''cpu_millis'', EInt 750),
          (''memory_mib'', EInt 1024),
          (''disk_mib'', EInt 1024),
          (''timeout_seconds'', EInt 120)]),
        (''created_at'', EStr ''2025-10-18T12:34:56Z''),
        (''updated_at'', EStr ''2025-10-18T12:34:56Z''),
        (''last_started_at'', ENone),
        (''last_stopped_at'', ENone)])]\<rparr>"

definition src_exec_response_example :: "fundef" where
  "src_exec_response_example =
    \<lparr>fn_params = [],
     fn_body = [
      Return (EDict [
        (''exit_code'', EInt 0),
        (''stdout'', EStr ''hello\<newline>''),
        (''stderr'', EStr ''''),
        (''duration_ms'', EInt 42),
        (''timed_out'', EBool False)])]\<rparr>"

definition src_execution_record_example :: "fundef" where
  "src_execution_record_example =
    \<lparr>fn_params = [],
     fn_body = [
      Return (EDict [
        (''command'', EStr ''python''),
        (''args'', EList [EStr ''-c'', EStr (''print('' @ [CHR 0x27] @ ''hello'' @ [CHR 0x27] @ '')'')]),
        (''executed_at'', EStr ''2025-10-18T12:35:10Z''),
        (''exit_code'', EInt 0),
        (''stdout'', EStr ''hello\<newline>''),
        (''stderr'', EStr ''''),
        (''duration_ms'', EInt 55),
        (''timed_out'', EBool False)])]\<rparr>"

definition src_issued_key_example :: "fundef" where
  "src_issued_key_example =
    \<lparr>fn_params = [],
     fn_body = [
      Return (EDict [
        (''token'', EStr ''bkg_demo_abcdefghijklmno''),
        (''info'', EDict [
          (''id'', EStr ''4b2a4d3a-4cbe-4b05-87a3-9528cdf6a1ed''),
          (''scope'', EDict [
            (''type'', EStr ''namespace''),
            (''namespace'', EStr ''demo'')]),
          (''rate_limit'', EInt 100),
          (''created_at'', EStr ''2025-10-18T12:00:00Z''),
          (''last_used_at'', ENone),
          (''expires_at'', EStr ''2025-11-17T12:00:00Z''),
          (''key_prefix'', EStr ''bkg_demo_abcd'')])])]\<rparr>"

definition src_rotation_webhook_payload_example :: "fundef" where
  "src_rotation_webhook_payload_example =
    \<lparr>fn_params = [],
     fn_body = [
      Return (EDict [
        (''event'', EStr ''cave.auth.key.rotated''),
        (''key_id'', EStr ''a7d6b321-2c52-4e76-9af2-2f893d4856fc''),
        (''previous_key_id'', EStr ''4b2a4d3a-4cbe-4b05-87a3-9528cdf6a1ed''),
        (''rotated_at'', EStr ''2025-10-18T12:10:00Z''),
        (''scope'', EDict [
          (''type'', EStr ''admin'')]),
        (''owner'', EStr ''admin''),
        (''key_prefix'', EStr ''bkg_admin_new'')])]\<rparr>"

definition src_rotated_key_example :: "fundef" where
  "src_rotated_key_example =
    \<lparr>fn_params = [],
     fn_body = [
      Assign ''previous'' (ECopy (ESubscript (ECall ''issued_key_example'' []) ''info'')),
      Assign ''current'' (EDict [
        (''id'', EStr ''a7d6b321-2c52-4e76-9af2-2f893d4856fc''),
        (''scope'', EDict [
          (''type'', EStr ''admin'')]),
        (''rate_limit'', EInt 200),
        (''created_at'', EStr ''2025-10-18T12:10:00Z''),
        (''key_prefix'', EStr ''bkg_admin_new''),
        (''rotated_from'', EStr ''4b2a4d3a-4cbe-4b05-87a3-9528cdf6a1ed''),
        (''rotated_at'', EStr ''2025-10-18T12:10:00Z'')]),
      Return (EDict [
        (''token'', EStr ''bkg_admin_newtokenvalue''),
        (''info'', EName ''current''),
        (''previous'', EName ''previous''),
        (''webhook'', EDict [
          (''event_id'', EStr ''5b0c33d4-a1d8-4a1c-9844-3d955b1b4c6e''),
          (''signature'', EStr ''sha256=abc123...''),
          (''payload'', ECall ''rotation_webhook_payload_example'' [])])])]\<rparr>"

definition src_error_example :: "fundef" where
  "src_error_example =
    \<lparr>fn_params = [''message''],
     fn_body = [
      Return (EDict [
        (''error'', EName ''message'')])]\<rparr>"

definition src_schema_ErrorResponse :: "expr" where
  "src_schema_ErrorResponse = EDict [
    (''type'', EStr ''object''),
    (''required'', EList [EStr ''error'']),
    (''properties'', EDict [
      (''error'', EDict [
        (''type'', EStr ''string''),
        (''description'', EStr ''Human readable error message.'')])]),
    (''example'', ECall ''error_example'' [EStr ''sandbox 123 not found''])]"

definition src_schema_SandboxLimits :: "expr" where
  "src_schema_SandboxLimits = EDict [
    (''type'', EStr ''object''),
    (''required'', EList [
      EStr ''cpu_millis'',
      EStr ''memory_mib'',
      EStr ''disk_mib'',
      EStr ''timeout_seconds'']),
    (''properties'', EDict [
      (''cpu_millis'', EDict [
        (''type'', EStr ''integer''),
        (''format'', EStr ''int32''),
        (''description'', EStr ''CPU time slice in milli-CPUs.'')]),
      (''memory_mib'', EDict [
        (''type'', EStr ''integer''),
        (''format'', EStr ''int64''),
        (''description'', EStr ''Memory limit in MiB.'')]),
      (''disk_mib'', EDict [
        (''type'', EStr ''integer''),
        (''format'', EStr ''int64''),
        (''description'', EStr ''Ephemeral disk limit in MiB.'')]),
      (''timeout_seconds'', EDict [
        (''type'', EStr ''integer''),
        (''format'', EStr ''int32''),
        (''description'', EStr ''Execution timeout in seconds.'')])])]"

definition src_schema_SandboxResponse :: "expr" where
  "src_schema_SandboxResponse = EDict [
    (''type'', EStr ''object''),
    (''required'', EList [
      EStr ''id'',
      EStr ''namespace'',
      EStr ''name'',
      EStr ''runtime'',
      EStr ''status'',
      EStr ''limits'',
      EStr ''created_at'',
      EStr ''updated_at'']),
    (''properties'', EDict [
      (''id'', EDict [
        (''type'', EStr ''string''),
        (''format'', EStr ''uuid'')]),
      (''namespace'', EDict [
        (''type'', EStr ''string'')]),
      (''name'', EDict [
        (''type'', EStr ''string'')]),
      (''runtime'', EDict [
        (''type'', EStr ''string'')]),
      (''status'', EDict [
        (''type'', EStr ''string''),
        (''description'', EStr ''Current sandbox lifecycle state.'')]),
      (''limits'', EDict [
        (''$ref'', EStr ''#/components/schemas/SandboxLimits'')]),
      (''created_at'', EDict [
        (''type'', EStr ''string''),
        (''format'', EStr ''date-time'')]),
      (''updated_at'', EDict [
        (''type'', EStr ''string''),
        (''format'', EStr ''date-time'')]),
      (''last_started_at'', EDict [
        (''type'', EStr ''string''),
        (''format'', EStr ''date-time''),
        (''nullable'', EBool True)]),
      (''last_stopped_at'', EDict [
        (''type'', EStr ''string''),
        (''format'', EStr ''date-time''),
        (''nullable'', EBool True)])]),
    (''example'', ECall ''sandbox_response_example'' [])]"

definition src_schema_CreateSandboxLimits :: "expr" where
  "src_schema_CreateSandboxLimits = EDict [
    (''type'', EStr ''object''),
    (''properties'', EDict [
      (''cpu_millis'', EDict [
        (''type'', EStr ''integer''),
        (''format'', EStr ''int32'')]),
      (''memory_mib'', EDict [
        (''type'', EStr ''integer''),
        (''format'', EStr ''int64'')]),
      (''disk_mib'', EDict [
        (''type'', EStr ''integer''),
        (''format'', EStr ''int64'')]),
      (''timeout_seconds'', EDict [
        (''type'', EStr ''integer''),
        (''format'', EStr ''int32'')])]),
    (''description'', EStr ''Optional overrides for namespace defaults.'')]"

definition src_schema_CreateSandboxRequest :: "expr" where
  "src_schema_CreateSandboxRequest = EDict [
    (''type'', EStr ''object''),
    (''required'', EList [EStr ''namespace'', EStr ''name'']),
    (''properties'', EDict [
      (''namespace'', EDict [
        (''type'', EStr ''string'')]),
      (''name'', EDict [
        (''type'', EStr ''string'')]),
      (''runtime'', EDict [
        (''type'', EStr ''string''),
        (''description'', EStr ''Sandbox runtime identifier (defaults to process).'')]),
      (''limits'', EDict [
        (''$ref'', EStr ''#/components/schemas/CreateSandboxLimits'')])]),
    (''example'', EDict [
      (''namespace'', EStr ''demo''),
      (''name'', EStr ''runner''),
      (''runtime'', EStr ''process''),
      (''limits'', EDict [
        (''cpu_millis'', EInt 750),
        (''memory_mib'', EInt 1024),
        (''disk_mib'', EInt 1024),
        (''timeout_seconds'', EInt 120)])])]"

definition src_schema_ExecRequest :: "expr" where
  "src_schema_ExecRequest = EDict [
    (''type'', EStr ''object''),
    (''required'', EList [EStr ''command'']),
    (''properties'', EDict [
      (''command'', EDict [
        (''type'', EStr ''string'')]),
      (''args'', EDict [
        (''type'', EStr ''array''),
        (''items'', EDict [
          (''type'', EStr ''string'')]),
        (''description'', EStr ''Command arguments.'')]),
      (''stdin'', EDict [
        (''type'', EStr ''string''),
        (''description'', EStr ''Optional STDIN payload.'')]),
      (''timeout_ms'', EDict [
        (''type'', EStr ''integer''),
        (''format'', EStr ''int64''),
        (''description'', EStr ''Optional execution timeout in milliseconds.'')])]),
    (''example'', EDict [
      (''command'', EStr ''python''),
      (''args'', EList [EStr ''-c'', EStr (''print('' @ [CHR 0x27] @ ''hello'' @ [CHR 0x27] @ '')'')]),
      (''stdin'', ENone),
      (''timeout_ms'', EInt 2000)])]"

definition src_schema_ExecResponse :: "expr" where
  "src_schema_ExecResponse = EDict [
    (''type'', EStr ''object''),
    (''required'', EList [EStr ''duration_ms'', EStr ''timed_out'']),
    (''properties'', EDict [
      (''exit_code'', EDict [
        (''type'', EStr ''integer''),
        (''format'', EStr ''int32''),
        (''nullable'', EBool True)]),
      (''stdout'', EDict [
        (''type'', EStr ''string''),
        (''nullable'', EBool True)]),
      (''stderr'', EDict [
        (''type'', EStr ''string''),
        (''nullable'', EBool True)]),
      (''duration_ms'', EDict [
        (''type'', EStr ''integer''),
        (''format'', EStr ''int64'')]),
      (''timed_out'', EDict [
        (''type'', EStr ''boolean'')])]),
    (''example'', ECall ''exec_response_example'' [])]"

definition src_schema_ExecutionRecord :: "expr" where
  "src_schema_ExecutionRecord = EDict [
    (''type'', EStr ''object''),
    (''required'', EList [
      EStr ''command'',
      EStr ''args'',
      EStr ''executed_at'',
      EStr ''duration_ms'',
      EStr ''timed_out'']),
    (''properties'', EDict [
      (''command'', EDict [
        (''type'', EStr ''string'')]),
      (''args'', EDict [
        (''type'', EStr ''array''),
        (''items'', EDict [
          (''type'', EStr ''string'')])]),
      (''executed_at'', EDict [
        (''type'', EStr ''string''),
        (''format'', EStr ''date-time'')]),
      (''exit_code'', EDict [
        (''type'', EStr ''integer''),
        (''format'', EStr ''int32''),
        (''nullable'', EBool True)]),
      (''stdout'', EDict [
        (''type'', EStr ''string''),
        (''nullable'', EBool True)]),
      (''stderr'', EDict [
        (''type'', EStr ''string''),
        (''nullable'', EBool True)]),
      (''duration_ms'', EDict [
        (''type'', EStr ''integer''),
        (''format'', EStr ''int64'')]),
      (''timed_out'', EDict [
        (''type'', EStr ''boolean'')])]),
    (''example'', ECall ''execution_record_example'' [])]"

definition src_schema_CreateKeyScope :: "expr" where
  "src_schema_CreateKeyScope = EDict [
    (''oneOf'', EList [
      EDict [
        (''type'', EStr ''object''),
        (''required'', EList [EStr ''type'']),
        (''properties'', EDict [
          (''type'', EDict [
            (''type'', EStr ''string''),
            (''enum'', EList [EStr ''admin''])])])],
      EDict [
        (''type'', EStr ''object''),
        (''required'', EList [EStr ''type'', EStr ''namespace'']),
        (''properties'', EDict [
          (''type'', EDict [
            (''type'', EStr ''string''),
            (''enum'', EList [EStr ''namespace''])]),
          (''namespace'', EDict [
            (''type'', EStr ''string'')])])]]),
    (''discriminator'', EDict [
      (''propertyName'', EStr ''type'')])]"

definition src_schema_CreateKeyRequest :: "expr" where
  "src_schema_CreateKeyRequest = EDict [
    (''type'', EStr ''object''),
    (''required'', EList [EStr ''scope'']),
    (''properties'', EDict [
      (''scope'', EDict [
        (''$ref'', EStr ''#/components/schemas/CreateKeyScope'')]),
      (''rate_limit'', EDict [
        (''type'', EStr ''integer''),
        (''format'', EStr ''int32''),
        (''description'', EStr ''Requests per minute (defaults to 100).'')]),
      (''ttl_seconds'', EDict [
        (''type'', EStr ''integer''),
        (''format'', EStr ''int64''),
        (''description'', EStr ''Optional time-to-live for the key.'')])]),
    (''example'', EDict [
      (''scope'', EDict [
        (''type'', EStr ''namespace''),
        (''namespace'', EStr ''demo'')]),
      (''rate_limit'', EInt 100),
      (''ttl_seconds'', EInt 2592000)])]"

definition src_schema_KeyScope :: "expr" where
  "src_schema_KeyScope = EDict [
    (''oneOf'', EList [
      EDict [
        (''type'', EStr ''object''),
        (''required'', EList [EStr ''type'']),
        (''properties'', EDict [
          (''type'', EDict [
            (''type'', EStr ''string''),
            (''enum'', EList [EStr ''admin''])])])],
      EDict [
        (''type'', EStr ''object''),
        (''required'', EList [EStr ''type'', EStr ''namespace'']),
        (''properties'', EDict [
          (''type'', EDict [
            (''type'', EStr ''string''),
            (''enum'', EList [EStr ''namespace''])]),
          (''namespace'', EDict [
            (''type'', EStr ''string'')])])]]),
    (''discriminator'', EDict [
      (''propertyName'', EStr ''type'')])]"

definition src_schema_KeyInfo :: "expr" where
  "src_schema_KeyInfo = EDict [
    (''type'', EStr ''object''),
    (''required'', EList [
      EStr ''id'',
      EStr ''scope'',
      EStr ''rate_limit'',
      EStr ''created_at'',
      EStr ''key_prefix'']),
    (''properties'', EDict [
      (''id'', EDict [
        (''type'', EStr ''string''),
        (''format'', EStr ''uuid'')]),
      (''scope'', EDict [
        (''$ref'', EStr ''#/components/schemas/KeyScope'')]),
      (''rate_limit'', EDict [
        (''type'', EStr ''integer''),
        (''format'', EStr ''int32'')]),
      (''created_at'', EDict [
        (''type'', EStr ''string''),
        (''format'', EStr ''date-time'')]),
      (''last_used_at'', EDict [
        (''type'', EStr ''string''),
        (''format'', EStr ''date-time''),
        (''nullable'', EBool True)]),
      (''expires_at'', EDict [
        (''type'', EStr ''string''),
        (''format'', EStr ''date-time''),
        (''nullable'', EBool True)]),
      (''key_prefix'', EDict [
        (''type'', EStr ''string''),
        (''description'', EStr ''Truncated token prefix for audit displays.'')]),
      (''rotated_from'', EDict [
        (''type'', EStr ''string''),
        (''format'', EStr ''uuid''),
        (''nullable'', EBool True)]),
      (''rotated_at'', EDict [
        (''type'', EStr ''string''),
        (''format'', EStr ''date-time''),
        (''nullable'', EBool True)])])]"

definition src_schema_IssuedKeyResponse :: "expr" where
  "src_schema_IssuedKeyResponse = EDict [
    (''type'', EStr ''object''),
    (''required'', EList [EStr ''token'', EStr ''info'']),
    (''properties'', EDict [
      (''token'', EDict [
        (''type'', EStr ''string''),
        (''description'', EStr ''Full bearer token. Shown once.'')]),
      (''info'', EDict [
        (''$ref'', EStr ''#/components/schemas/KeyInfo'')])]),
    (''example'', ECall ''issued_key_example'' [])]"

definition src_schema_RotateKeyRequest :: "expr" where
  "src_schema_RotateKeyRequest = EDict [
    (''type'', EStr ''object''),
    (''required'', EList [EStr ''key_id'']),
    (''properties'', EDict [
      (''key_id'', EDict [
        (''type'', EStr ''string''),
        (''format'', EStr ''uuid'')]),
      (''rate_limit'', EDict [
        (''type'', EStr ''integer''),
        (''format'', EStr ''int32''),
        (''description'', EStr ''Override rate limit for the rotated key (requests per minute).'')]),
      (''ttl_seconds'', EDict [
        (''type'', EStr ''integer''),
        (''format'', EStr ''int64''),
        (''description'', EStr ''Optional TTL for the rotated key in seconds.'')])]),
    (''example'', EDict [
      (''key_id'', EStr ''4b2a4d3a-4cbe-4b05-87a3-9528cdf6a1ed''),
      (''rate_limit'', EInt 200)])]"

definition src_schema_RotationWebhookPayload :: "expr" where
  "src_schema_RotationWebhookPayload = EDict [
    (''type'', EStr ''object''),
    (''required'', EList [
      EStr ''event'',
      EStr ''key_id'',
      EStr ''previous_key_id'',
      EStr ''rotated_at'',
      EStr ''scope'',
      EStr ''owner'',
      EStr ''key_prefix'']),
    (''properties'', EDict [
      (''event'', EDict [
        (''type'', EStr ''string'')]),
      (''key_id'', EDict [
        (''type'', EStr ''string''),
        (''format'', EStr ''uuid'')]),
      (''previous_key_id'', EDict [
        (''type'', EStr ''string''),
        (''format'', EStr ''uuid'')]),
      (''rotated_at'', EDict [
        (''type'', EStr ''string''),
        (''format'', EStr ''date-time'')]),
      (''scope'', EDict [
        (''$ref'', EStr ''#/components/schemas/KeyScope'')]),
      (''owner'', EDict [
        (''type'', EStr ''string'')]),
      (''key_prefix'', EDict [
        (''type'', EStr ''string'')])]),
    (''example'', ECall ''rotation_webhook_payload_example'' [])]"

definition src_schema_RotationWebhookResponse :: "expr" where
  "src_schema_RotationWebhookResponse = EDict [
    (''type'', EStr ''object''),
    (''required'', EList [EStr ''event_id'', EStr ''signature'', EStr ''payload'']),
    (''properties'', EDict [
      (''event_id'', EDict [
        (''type'', EStr ''string''),
        (''format'', EStr ''uuid'')]),
      (''signature'', EDict [
        (''type'', EStr ''string'')]),
      (''payload'', EDict [
        (''$ref'', EStr ''#/components/schemas/RotationWebhookPayload'')])])]"

definition src_schema_RotatedKeyResponse :: "expr" where
  "src_schema_RotatedKeyResponse = EDict [
    (''type'', EStr ''object''),
    (''required'', EList [EStr ''token'', EStr ''info'', EStr ''previous'', EStr ''webhook'']),
    (''properties'', EDict [
      (''token'', EDict [
        (''type'', EStr ''string'')]),
      (''info'', EDict [
        (''$ref'', EStr ''#/components/schemas/KeyInfo'')]),
      (''previous'', EDict [
        (''$ref'', EStr ''#/components/schemas/KeyInfo'')]),
      (''webhook'', EDict [
        (''$ref'', EStr ''#/components/schemas/RotationWebhookResponse'')])]),
    (''example'', ECall ''rotated_key_example'' [])]"

definition src_components :: "expr" where
  "src_components = EDict [
    (''securitySchemes'', EDict [
      (''bearerAuth'', EDict [
        (''type'', EStr ''http''),
        (''scheme'', EStr ''bearer''),
        (''bearerFormat'', EStr ''API Token'')])]),
    (''schemas'', EDict [
      (''ErrorResponse'', src_schema_ErrorResponse),
      (''SandboxLimits'', src_schema_SandboxLimits),
      (''SandboxResponse'', src_schema_SandboxResponse),
      (''CreateSandboxLimits'', src_schema_CreateSandboxLimits),
      (''CreateSandboxRequest'', src_schema_CreateSandboxRequest),
      (''ExecRequest'', src_schema_ExecRequest),
      (''ExecResponse'', src_schema_ExecResponse),
      (''ExecutionRecord'', src_schema_ExecutionRecord),
      (''CreateKeyScope'', src_schema_CreateKeyScope),
      (''CreateKeyRequest'', src_schema_CreateKeyRequest),
      (''KeyScope'', src_schema_KeyScope),
      (''KeyInfo'', src_schema_KeyInfo),
      (''IssuedKeyResponse'', src_schema_IssuedKeyResponse),
      (''RotateKeyRequest'', src_schema_RotateKeyRequest),
      (''RotationWebhookPayload'', src_schema_RotationWebhookPayload),
      (''RotationWebhookResponse'', src_schema_RotationWebhookResponse),
      (''RotatedKeyResponse'', src_schema_RotatedKeyResponse)])]"

definition src_response_400 :: "expr" where
  "src_response_400 = EDict [
    (''description'', EStr ''Bad request''),
    (''content'', EDict [
      (''application/json'', EDict [
        (''schema'', EDict [
          (''$ref'', EStr ''#/components/schemas/ErrorResponse'')]),
        (''example'', ECall ''error_example'' [EStr ''namespace query parameter is required''])])])]"

definition src_response_401 :: "expr" where
  "src_response_401 = EDict [
    (''description'', EStr ''Unauthorized''),
    (''content'', EDict [
      (''application/json'', EDict [
        (''schema'', EDict [
          (''$ref'', EStr ''#/components/schemas/ErrorResponse'')]),
        (''example'', ECall ''error_example'' [EStr ''missing Authorization bearer token''])])])]"

definition src_response_403 :: "expr" where
  "src_response_403 = EDict [
    (''description'', EStr ''Forbidden''),
    (''content'', EDict [
      (''application/json'', EDict [
        (''schema'', EDict [
          (''$ref'', EStr ''#/components/schemas/ErrorResponse'')]),
        (''example'', ECall ''error_example'' [EStr ''insufficient permissions for requested scope''])])])]"

definition src_response_404 :: "expr" where
  "src_response_404 = EDict [
    (''description'', EStr ''Not found''),
    (''content'', EDict [
      (''application/json'', EDict [
        (''schema'', EDict [
          (''$ref'', EStr ''#/components/schemas/ErrorResponse'')]),
        (''example'', ECall ''error_example'' [EStr ''sandbox 9f9c... not found''])])])]"

definition src_response_409 :: "expr" where
  "src_response_409 = EDict [
    (''description'', EStr ''Conflict''),
    (''content'', EDict [
      (''application/json'', EDict [
        (''schema'', EDict [
          (''$ref'', EStr ''#/components/schemas/ErrorResponse'')]),
        (''example'', ECall ''error_example'' [EStr (''sandbox '' @ [CHR 0x27] @ ''runner'' @ [CHR 0x27] @ '' already exists in namespace '' @ [CHR 0x27] @ ''demo'' @ [CHR 0x27])])])])]"

definition src_response_500 :: "expr" where
  "src_response_500 = EDict [
    (''description'', EStr ''Internal server error''),
    (''content'', EDict [
      (''application/json'', EDict [
        (''schema'', EDict [
          (''$ref'', EStr ''#/components/schemas/ErrorResponse'')]),
        (''example'', ECall ''error_example'' [EStr ''unexpected internal error''])])])]"

definition src_responses :: "expr" where
  "src_responses = EDict [
    (''400'', src_response_400),
    (''401'', src_response_401),
    (''403'', src_response_403),
    (''404'', src_response_404),
    (''409'', src_response_409),
    (''500'', src_response_500)]"

definition src_op_getHealthz :: "expr" where
  "src_op_getHealthz = EDict [
    (''tags'', EList [EStr ''Operations'']),
    (''summary'', EStr ''Health probe''),
    (''operationId'', EStr ''getHealthz''),
    (''responses'', EDict [
      (''200'', EDict [
        (''description'', EStr ''Service is healthy'')])])]"

definition src_op_getMetrics :: "expr" where
  "src_op_getMetrics = EDict [
    (''tags'', EList [EStr ''Operations'']),
    (''summary'', EStr ''Prometheus metrics''),
    (''operationId'', EStr ''getMetrics''),
    (''responses'', EDict [
      (''200'', EDict [
        (''description'', EStr ''Metrics payload''),
        (''content'', EDict [
          (''text/plain'', EDict [
            (''schema'', EDict [
              (''type'', EStr ''string'')]),
            (''example'', EStr ''# metrics\<newline>bkg_cave_daemon_up 1\<newline>'')])])])])]"

definition src_op_createSandbox :: "expr" where
  "src_op_createSandbox = EDict [
    (''tags'', EList [EStr ''Sandboxes'']),
    (''summary'', EStr ''Create a sandbox''),
    (''operationId'', EStr ''createSandbox''),
    (''security'', EList [
      EDict [
        (''bearerAuth'', EList [])]]),
    (''requestBody'', EDict [
      (''required'', EBool True),
      (''content'', EDict [
        (''application/json'', EDict [
          (''schema'', EDict [
            (''$ref'', EStr ''#/components/schemas/CreateSandboxRequest'')]),
          (''example'', ESubscript (ESubscript (ESubscript (EName ''components'') ''schemas'') ''CreateSandboxRequest'') ''example'')])])]),
    (''responses'', EDict [
      (''200'', EDict [
        (''description'', EStr ''Sandbox created''),
        (''content'', EDict [
          (''application/json'', EDict [
            (''schema'', EDict [
              (''$ref'', EStr ''#/components/schemas/SandboxResponse'')]),
            (''example'', ECall ''sandbox_response_example'' [])])])]),
      (''400'', ESubscript (EName ''responses'') ''400''),
      (''401'', ESubscript (EName ''responses'') ''401''),
      (''403'', ESubscript (EName ''responses'') ''403''),
      (''409'', ESubscript (EName ''responses'') ''409''),
      (''500'', ESubscript (EName ''responses'') ''500'')])]"

definition src_op_listSandboxes :: "expr" where
  "src_op_listSandboxes = EDict [
    (''tags'', EList [EStr ''Sandboxes'']),
    (''summary'', EStr ''List sandboxes in a namespace''),
    (''operationId'', EStr ''listSandboxes''),
    (''security'', EList [
      EDict [
        (''bearerAuth'', EList [])]]),
    (''parameters'', EList [
      EDict [
        (''name'', EStr ''namespace''),
        (''in'', EStr ''query''),
        (''required'', EBool True),
        (''schema'', EDict [
          (''type'', EStr ''string'')]),
        (''description'', EStr ''Namespace identifier to filter sandboxes.'')]]),
    (''responses'', EDict [
      (''200'', EDict [
        (''description'', EStr ''Sandboxes''),
        (''content'', EDict [
          (''application/json'', EDict [
            (''schema'', EDict [
              (''type'', EStr ''array''),
              (''items'', EDict [
                (''$ref'', EStr ''#/components/schemas/SandboxResponse'')])]),
            (''example'', EList [ECall ''sandbox_response_example'' []])])])]),
      (''400'', ESubscript (EName ''responses'') ''400''),
      (''401'', ESubscript (EName ''responses'') ''401''),
      (''403'', ESubscript (EName ''responses'') ''403''),
      (''500'', ESubscript (EName ''responses'') ''500'')])]"

definition src_op_getSandbox :: "expr" where
  "src_op_getSandbox = EDict [
    (''tags'', EList [EStr ''Sandboxes'']),
    (''summary'', EStr ''Inspect sandbox''),
    (''operationId'', EStr ''getSandbox''),
    (''security'', EList [
      EDict [
        (''bearerAuth'', EList [])]]),
    (''parameters'', EList [
      EDict [
        (''name'', EStr ''id''),
        (''in'', EStr ''path''),
        (''required'', EBool True),
        (''schema'', EDict [
          (''type'', EStr ''string''),
          (''format'', EStr ''uuid'')])]]),
    (''responses'', EDict [
      (''200'', EDict [
        (''description'', EStr ''Sandbox details''),
        (''content'', EDict [
          (''application/json'', EDict [
            (''schema'', EDict [
              (''$ref'', EStr ''#/components/schemas/SandboxResponse'')]),
            (''example'', ECall ''sandbox_response_example'' [])])])]),
      (''401'', ESubscript (EName ''responses'') ''401''),
      (''403'', ESubscript (EName ''responses'') ''403''),
      (''404'', ESubscript (EName ''responses'') ''404''),
      (''500'', ESubscript (EName ''responses'') ''500'')])]"

definition src_op_startSandbox :: "expr" where
  "src_op_startSandbox = EDict [
    (''tags'', EList [EStr ''Sandboxes'']),
    (''summary'', EStr ''Start a sandbox''),
    (''operationId'', EStr ''startSandbox''),
    (''security'', EList [
      EDict [
        (''bearerAuth'', EList [])]]),
    (''parameters'', EList [
      EDict [
        (''name'', EStr ''id''),
        (''in'', EStr ''path''),
        (''required'', EBool True),
        (''schema'', EDict [
          (''type'', EStr ''string''),
          (''format'', EStr ''uuid'')])]]),
    (''responses'', EDict [
      (''200'', EDict [
        (''description'', EStr ''Sandbox started''),
        (''content'', EDict [
          (''application/json'', EDict [
            (''schema'', EDict [
              (''$ref'', EStr ''#/components/schemas/SandboxResponse'')]),
            (''example'', EDictMerge (ECall ''sandbox_response_example'' []) [(''status'', EStr ''running''), (''last_started_at'', EStr ''2025-10-18T12:35:05Z'')])])])]),
      (''401'', ESubscript (EName ''responses'') ''401''),
      (''403'', ESubscript (EName ''responses'') ''403''),
      (''404'', ESubscript (EName ''responses'') ''404''),
      (''409'', ESubscript (EName ''responses'') ''409''),
      (''500'', ESubscript (EName ''responses'') ''500'')])]"

definition src_op_execSandbox :: "expr" where
  "src_op_execSandbox = EDict [
    (''tags'', EList [EStr ''Sandboxes'']),
    (''summary'', EStr ''Execute a command inside a sandbox''),
    (''operationId'', EStr ''execSandbox''),
    (''security'', EList [
      EDict [
        (''bearerAuth'', EList [])]]),
    (''parameters'', EList [
      EDict [
        (''name'', EStr ''id''),
        (''in'', EStr ''path''),
        (''required'', EBool True),
        (''schema'', EDict [
          (''type'', EStr ''string''),
          (''format'', EStr ''uuid'')])]]),
    (''requestBody'', EDict [
      (''required'', EBool True),
      (''content'', EDict [
        (''application/json'', EDict [
          (''schema'', EDict [
            (''$ref'', EStr ''#/components/schemas/ExecRequest'')]),
          (''example'', ESubscript (ESubscript (ESubscript (EName ''components'') ''schemas'') ''ExecRequest'') ''example'')])])]),
    (''responses'', EDict [
      (''200'', EDict [
        (''description'', EStr ''Execution result''),
        (''content'', EDict [
          (''application/json'', EDict [
            (''schema'', EDict [
              (''$ref'', EStr ''#/components/schemas/ExecResponse'')]),
            (''example'', ECall ''exec_response_example'' [])])])]),
      (''401'', ESubscript (EName ''responses'') ''401''),
      (''403'', ESubscript (EName ''responses'') ''403''),
      (''404'', ESubscript (EName ''responses'') ''404''),
      (''500'', ESubscript (EName ''responses'') ''500'')])]"

definition src_op_stopSandbox :: "expr" where
  "src_op_stopSandbox = EDict [
    (''tags'', EList [EStr ''Sandboxes'']),
    (''summary'', EStr ''Stop a sandbox''),
    (''operationId'', EStr ''stopSandbox''),
    (''security'', EList [
      EDict [
        (''bearerAuth'', EList [])]]),
    (''parameters'', EList [
      EDict [
        (''name'', EStr ''id''),
        (''in'', EStr ''path''),
        (''required'', EBool True),
        (''schema'', EDict [
          (''type'', EStr ''string''),
          (''format'', EStr ''uuid'')])]]),
    (''responses'', EDict [
      (''204'', EDict [
        (''description'', EStr ''Sandbox stopped'')]),
      (''401'', ESubscript (EName ''responses'') ''401''),
      (''403'', ESubscript (EName ''responses'') ''403''),
      (''404'', ESubscript (EName ''responses'') ''404''),
      (''409'', ESubscript (EName ''responses'') ''409''),
      (''500'', ESubscript (EName ''responses'') ''500'')])]"

definition src_op_deleteSandbox :: "expr" where
  "src_op_deleteSandbox = EDict [
    (''tags'', EList [EStr ''Sandboxes'']),
    (''summary'', EStr ''Delete a sandbox''),
    (''operationId'', EStr ''deleteSandbox''),
    (''security'', EList [
      EDict [
        (''bearerAuth'', EList [])]]),
    (''parameters'', EList [
      EDict [
        (''name'', EStr ''id''),
        (''in'', EStr ''path''),
        (''required'', EBool True),
        (''schema'', EDict [
          (''type'', EStr ''string''),
          (''format'', EStr ''uuid'')])]]),
    (''responses'', EDict [
      (''204'', EDict [
        (''description'', EStr ''Sandbox deleted'')]),
      (''401'', ESubscript (EName ''responses'') ''401''),
      (''403'', ESubscript (EName ''responses'') ''403''),
      (''404'', ESubscript (EName ''responses'') ''404''),
      (''500'', ESubscript (EName ''responses'') ''500'')])]"

definition src_op_listSandboxExecutions :: "expr" where
  "src_op_listSandboxExecutions = EDict [
    (''tags'', EList [EStr ''Sandboxes'']),
    (''summary'', EStr ''List recent executions''),
    (''operationId'', EStr ''listSandboxExecutions''),
    (''security'', EList [
      EDict [
        (''bearerAuth'', EList [])]]),
    (''parameters'', EList [
      EDict [
        (''name'', EStr ''id''),
        (''in'', EStr ''path''),
        (''required'', EBool True),
        (''schema'', EDict [
          (''type'', EStr ''string''),
          (''format'', EStr ''uuid'')])],
      EDict [
        (''name'', EStr ''limit''),
        (''in'', EStr ''query''),
        (''required'', EBool False),
        (''schema'', EDict [
          (''type'', EStr ''integer''),
          (''format'', EStr ''int32''),
          (''minimum'', EInt 1),
          (''maximum'', EInt 100)]),
        (''description'', EStr ''Maximum number of execution records (default 20).'')]]),
    (''responses'', EDict [
      (''200'', EDict [
        (''description'', EStr ''Execution history''),
        (''content'', EDict [
          (''application/json'', EDict [
            (''schema'', EDict [
              (''type'', EStr ''array''),
              (''items'', EDict [
                (''$ref'', EStr ''#/components/schemas/ExecutionRecord'')])]),
            (''example'', EList [ECall ''execution_record_example'' []])])])]),
      (''401'', ESubscript (EName ''responses'') ''401''),
      (''403'', ESubscript (EName ''responses'') ''403''),
      (''404'', ESubscript (EName ''responses'') ''404''),
      (''500'', ESubscript (EName ''responses'') ''500'')])]"

definition src_op_issueKey :: "expr" where
  "src_op_issueKey = EDict [
    (''tags'', EList [EStr ''Auth'']),
    (''summary'', EStr ''Issue an API key''),
    (''operationId'', EStr ''issueKey''),
    (''security'', EList [
      EDict [
        (''bearerAuth'', EList [])],
      EDict []]),
    (''requestBody'', EDict [
      (''required'', EBool True),
      (''content'', EDict [
        (''application/json'', EDict [
          (''schema'', EDict [
            (''$ref'', EStr ''#/components/schemas/CreateKeyRequest'')]),
          (''example'', ESubscript (ESubscript (ESubscript (EName ''components'') ''schemas'') ''CreateKeyRequest'') ''example'')])])]),
    (''responses'', EDict [
      (''201'', EDict [
        (''description'', EStr ''API key issued''),
        (''content'', EDict [
          (''application/json'', EDict [
            (''schema'', EDict [
              (''$ref'', EStr ''#/components/schemas/IssuedKeyResponse'')]),
            (''example'', ECall ''issued_key_example'' [])])])]),
      (''401'', ESubscript (EName ''responses'') ''401''),
      (''403'', ESubscript (EName ''responses'') ''403''),
      (''500'', ESubscript (EName ''responses'') ''500'')])]"

definition src_op_listKeys :: "expr" where
  "src_op_listKeys = EDict [
    (''tags'', EList [EStr ''Auth'']),
    (''summary'', EStr ''List issued API keys''),
    (''operationId'', EStr ''listKeys''),
    (''security'', EList [
      EDict [
        (''bearerAuth'', EList [])]]),
    (''responses'', EDict [
      (''200'', EDict [
        (''description'', EStr ''Known API keys''),
        (''content'', EDict [
          (''application/json'', EDict [
            (''schema'', EDict [
              (''type'', EStr ''array''),
              (''items'', EDict [
                (''$ref'', EStr ''#/components/schemas/KeyInfo'')])]),
            (''example'', EList [ESubscript (ECall ''issued_key_example'' []) ''info''])])])]),
      (''401'', ESubscript (EName ''responses'') ''401''),
      (''403'', ESubscript (EName ''responses'') ''403''),
      (''500'', ESubscript (EName ''responses'') ''500'')])]"

definition src_op_rotateKey :: "expr" where
  "src_op_rotateKey = EDict [
    (''tags'', EList [EStr ''Auth'']),
    (''summary'', EStr ''Rotate an API key''),
    (''operationId'', EStr ''rotateKey''),
    (''security'', EList [
      EDict [
        (''bearerAuth'', EList [])]]),
    (''requestBody'', EDict [
      (''required'', EBool True),
      (''content'', EDict [
        (''application/json'', EDict [
          (''schema'', EDict [
            (''$ref'', EStr ''#/components/schemas/RotateKeyRequest'')]),
          (''example'', ESubscript (ESubscript (ESubscript (EName ''components'') ''schemas'') ''RotateKeyRequest'') ''example'')])])]),
    (''responses'', EDict [
      (''200'', EDict [
        (''description'', EStr ''API key rotated''),
        (''content'', EDict [
          (''application/json'', EDict [
            (''schema'', EDict [
              (''$ref'', EStr ''#/components/schemas/RotatedKeyResponse'')]),
            (''example'', ECall ''rotated_key_example'' [])])])]),
      (''400'', ESubscript (EName ''responses'') ''400''),
      (''401'', ESubscript (EName ''responses'') ''401''),
      (''403'', ESubscript (EName ''responses'') ''403''),
      (''404'', ESubscript (EName ''responses'') ''404''),
      (''500'', ESubscript (EName ''responses'') ''500'')])]"

definition src_op_verifyRotationWebhook :: "expr" where
  "src_op_verifyRotationWebhook = EDict [
    (''tags'', EList [EStr ''Auth'']),
    (''summary'', EStr ''Verify a rotation webhook payload''),
    (''operationId'', EStr ''verifyRotationWebhook''),
    (''security'', EList [
      EDict [
        (''bearerAuth'', EList [])]]),
    (''parameters'', EList [
      EDict [
        (''name'', EStr ''X-Cave-Webhook-Signature''),
        (''in'', EStr ''header''),
        (''required'', EBool True),
        (''schema'', EDict [
          (''type'', EStr ''string'')]),
        (''description'', EStr ''HMAC signature generated with CAVE_ROTATION_WEBHOOK_SECRET.'')]]),
    (''requestBody'', EDict [
      (''required'', EBool True),
      (''content'', EDict [
        (''application/json'', EDict [
          (''schema'', EDict [
            (''$ref'', EStr ''#/components/schemas/RotationWebhookPayload'')]),
          (''example'', ECall ''rotation_webhook_payload_example'' [])])])]),
    (''responses'', EDict [
      (''204'', EDict [
        (''description'', EStr ''Webhook accepted'')]),
      (''401'', ESubscript (EName ''responses'') ''401''),
      (''403'', ESubscript (EName ''responses'') ''403''),
      (''500'', ESubscript (EName ''responses'') ''500'')])]"

definition src_op_revokeKey :: "expr" where
  "src_op_revokeKey = EDict [
    (''tags'', EList [EStr ''Auth'']),
    (''summary'', EStr ''Revoke an API key''),
    (''operationId'', EStr ''revokeKey''),
    (''security'', EList [
      EDict [
        (''bearerAuth'', EList [])]]),
    (''parameters'', EList [
      EDict [
        (''name'', EStr ''id''),
        (''in'', EStr ''path''),
        (''required'', EBool True),
        (''schema'', EDict [
          (''type'', EStr ''string''),
          (''format'', EStr ''uuid'')])]]),
    (''responses'', EDict [
      (''204'', EDict [
        (''description'', EStr ''Key revoked'')]),
      (''401'', ESubscript (EName ''responses'') ''401''),
      (''403'', ESubscript (EName ''responses'') ''403''),
      (''404'', ESubscript (EName ''responses'') ''404''),
      (''500'', ESubscript (EName ''responses'') ''500'')])]"

definition src_paths :: "expr" where
  "src_paths = EDict [
    (''/healthz'', EDict [
      (''get'', src_op_getHealthz)]),
    (''/metrics'', EDict [
      (''get'', src_op_getMetrics)]),
    (''/api/v1/sandboxes'', EDict [
      (''post'', src_op_createSandbox),
      (''get'', src_op_listSandboxes)]),
    (''/api/v1/sandboxes/{id}/status'', EDict [
      (''get'', src_op_getSandbox)]),
    (''/api/v1/sandboxes/{id}/start'', EDict [
      (''post'', src_op_startSandbox)]),
    (''/api/v1/sandboxes/{id}/exec'', EDict [
      (''post'', src_op_execSandbox)]),
    (''/api/v1/sandboxes/{id}/stop'', EDict [
      (''post'', src_op_stopSandbox)]),
    (''/api/v1/sandboxes/{id}'', EDict [
      (''delete'', src_op_deleteSandbox)]),
    (''/api/v1/sandboxes/{id}/executions'', EDict [
      (''get'', src_op_listSandboxExecutions)]),
    (''/api/v1/auth/keys'', EDict [
      (''post'', src_op_issueKey),
      (''get'', src_op_listKeys)]),
    (''/api/v1/auth/keys/rotate'', EDict [
      (''post'', src_op_rotateKey)]),
    (''/api/v1/auth/keys/rotated'', EDict [
      (''post'', src_op_verifyRotationWebhook)]),
    (''/api/v1/auth/keys/{id}'', EDict [
      (''delete'', src_op_revokeKey)])]"

definition src_document :: "expr" where
  "src_document = EDict [
    (''openapi'', EStr ''3.0.3''),
    (''info'', EDict [
      (''title'', EStr ''Cave Daemon API''),
      (''version'', EStr ''0.1.0''),
      (''description'', EStr ''REST interface for managing sandboxes, executing workloads, and issuing API keys. See docs/api.md for narrative documentation.'')]),
    (''servers'', EList [
      EDict [
        (''url'', EStr ''http://localhost:8080''),
        (''description'', EStr ''Local development'')]]),
    (''tags'', EList [
      EDict [
        (''name'', EStr ''Operations''),
        (''description'', EStr ''Health and telemetry endpoints.'')],
      EDict [
        (''name'', EStr ''Sandboxes''),
        (''description'', EStr ''Sandbox lifecycle management.'')],
      EDict [
        (''name'', EStr ''Auth''),
        (''description'', EStr ''API key issuance and revocation.'')]]),
    (''paths'', EName ''paths''),
    (''components'', EName ''components'')]"

definition src_build_spec :: "fundef" where
  "src_build_spec =
    \<lparr>fn_params = [],
     fn_body = [
      Assign ''components'' src_components,
      Assign ''responses'' src_responses,
      Assign ''paths'' src_paths,
      Return src_document]\<rparr>"

definition src_main :: "fundef" where
  "src_main =
    \<lparr>fn_params = [''argv''],
     fn_body = [
      Assign ''output'' (EIfExp (EGreater (ELen (EName ''argv'')) (EInt 1)) (EPath (EIndex (EName ''argv'') 1)) (EPath (EStr ''openapi.yaml''))),
      Assign ''spec'' (ECall ''build_spec'' []),
      WriteText (EName ''output'') (EConcat (EJsonDumps (EName ''spec'')) (EStr ''\<newline>''))]\<rparr>"

definition generator_program :: "program" where
  "generator_program = [
    (''sandbox_response_example'', src_sandbox_response_example),
    (''exec_response_example'', src_exec_response_example),
    (''execution_record_example'', src_execution_record_example),
    (''issued_key_example'', src_issued_key_example),
    (''rotation_webhook_payload_example'', src_rotation_webhook_payload_example),
    (''rotated_key_example'', src_rotated_key_example),
    (''error_example'', src_error_example),
    (''build_spec'', src_build_spec),
    (''main'', src_main)]"

text \<open>
  The script ends with \<^verbatim>\<open>main(sys.argv)\<close>: the body of \<^verbatim>\<open>main\<close> runs with \<^verbatim>\<open>argv\<close> bound to the
  command line, on the files of the run.
\<close>

definition generate_openapi_main :: "nat \<Rightarrow> runtime \<Rightarrow> (string \<rightharpoonup> string) option" where
  "generate_openapi_main n w =
    (case map_of generator_program ''main'' of
       None \<Rightarrow> None
     | Some fd \<Rightarrow>
         exec_proc (\<lambda>l e. eval_expr n generator_program w l e) (rt_files w)
           [(''argv'', JArray (map JString (rt_argv w)))] (fn_body fd))"

text \<open>The output path \<^verbatim>\<open>main\<close> computes: \<^verbatim>\<open>argv[1]\<close> when there is one, else \<^verbatim>\<open>openapi.yaml\<close>.\<close>

definition openapi_output :: "string list \<Rightarrow> string" where
  "openapi_output argv = (if length argv > 1 then argv ! 1 else ''openapi.yaml'')"

section \<open>\<^verbatim>\<open>generate_sbom.py\<close>\<close>

text \<open>
  \<^verbatim>\<open>subprocess.run(args, check=True, capture_output=True, text=True)\<close> either raises
  \<^verbatim>\<open>FileNotFoundError\<close> (no such binary), raises \<^verbatim>\<open>CalledProcessError\<close> (non-zero exit; the
  exception carries the captured stdout and stderr, and \<^verbatim>\<open>str(exc)\<close>), or returns the
  completed process with its stdout. What the process does is a parameter of the model.
\<close>

datatype run_result =
    FileNotFoundError
  | CalledProcessError (exc_stdout: string) (exc_stderr: string) (exc_str: string)
  | CompletedProcess (completed_stdout: string)

datatype failure = SystemExit string | JSONDecodeError

text \<open>\<^verbatim>\<open>str.strip()\<close>: whitespace is removed at both ends (the whitespace characters below 256).\<close>

definition is_space :: "char \<Rightarrow> bool" where
  "is_space c =
    (let n = (of_char c :: nat) in
     (0x09 \<le> n \<and> n \<le> 0x0D) \<or> (0x1C \<le> n \<and> n \<le> 0x20) \<or> n = 0x85 \<or> n = 0xA0)"

definition strip :: "string \<Rightarrow> string" where
  "strip s = rev (dropWhile is_space (rev (dropWhile is_space s)))"

definition syft_args :: "(string \<rightharpoonup> string) \<Rightarrow> string list" where
  "syft_args environ =
    (let command = (case environ ''SYFT_CMD'' of None \<Rightarrow> ''syft'' | Some c \<Rightarrow> c);
         target = (case environ ''SYFT_TARGET'' of None \<Rightarrow> ''dir:.'' | Some t \<Rightarrow> t)
     in [command, target, ''-o'', ''json''])"

definition run_syft :: "(string \<rightharpoonup> string) \<Rightarrow> (string list \<Rightarrow> run_result) \<Rightarrow> failure + string" where
  "run_syft environ run =
    (case run (syft_args environ) of
       FileNotFoundError \<Rightarrow>
         Inl (SystemExit
           ''syft CLI not found. Install syft or set SYFT_CMD to an alternative binary.'')
     | CalledProcessError out err str_exc \<Rightarrow>
         Inl (SystemExit (''syft command failed: '' @
           (if strip err \<noteq> [] then strip err
            else if strip out \<noteq> [] then strip out
            else str_exc)))
     | CompletedProcess out \<Rightarrow> Inr out)"

text \<open>
  The part of the world \<^verbatim>\<open>main\<close> acts on: the files, and the lines printed to stdout.
  \<open>loads_ok\<close> says whether \<^verbatim>\<open>json.loads\<close> accepts a text (it raises otherwise); it is a
  parameter. The result is the exception that ends \<^verbatim>\<open>main\<close>, or its return value.
\<close>

record world =
  files :: "string \<rightharpoonup> string"
  printed :: "string list"

definition sbom_output :: "string list \<Rightarrow> string" where
  "sbom_output argv = (if length argv > 1 then argv ! 1 else ''sbom.json'')"

definition generate_sbom_main ::
  "string list \<Rightarrow> (string \<rightharpoonup> string) \<Rightarrow> (string list \<Rightarrow> run_result) \<Rightarrow> (string \<Rightarrow> bool) \<Rightarrow>
     world \<Rightarrow> (failure + int) \<times> world" where
  "generate_sbom_main argv environ run loads_ok w =
    (let output = sbom_output argv in
     case run_syft environ run of
       Inl e \<Rightarrow> (Inl e, w)
     | Inr sbom_content \<Rightarrow>
         if \<not> loads_ok sbom_content then (Inl JSONDecodeError, w)
         else (Inr 0,
               w\<lparr>files := (files w)(output \<mapsto> sbom_content @ [CHR 0x0A]),
                 printed := printed w @ [''SBOM written to '' @ output]\<rparr>))"

section \<open>Facts about the generated document\<close>

subsection \<open>Subscripts of the generator are defined\<close>

lemma subscripts_defined:
  "lookup_key issued_key_example ''info'' \<noteq> None"
  "jpath components [''schemas'', ''CreateSandboxRequest'', ''example''] \<noteq> None"
  "jpath components [''schemas'', ''ExecRequest'', ''example''] \<noteq> None"
  "jpath components [''schemas'', ''CreateKeyRequest'', ''example''] \<noteq> None"
  "jpath components [''schemas'', ''RotateKeyRequest'', ''example''] \<noteq> None"
  "list_all (\<lambda>c. lookup_key responses c \<noteq> None) [''400'', ''401'', ''403'', ''404'', ''409'', ''500'']"
  by (simp_all add: issued_key_example_def components_def responses_def
      schema_CreateSandboxRequest_def schema_ExecRequest_def schema_CreateKeyRequest_def
      schema_RotateKeyRequest_def)


subsection \<open>The auth operations\<close>

lemma operation_issueKey:
  "operation build_spec ''/api/v1/auth/keys'' ''post'' = Some op_issueKey"
  by (simp add: operation_def build_spec_def paths_def)

lemma operation_listKeys:
  "operation build_spec ''/api/v1/auth/keys'' ''get'' = Some op_listKeys"
  by (simp add: operation_def build_spec_def paths_def)

lemma operation_rotateKey:
  "operation build_spec ''/api/v1/auth/keys/rotate'' ''post'' = Some op_rotateKey"
  by (simp add: operation_def build_spec_def paths_def)

lemma operation_verifyRotationWebhook:
  "operation build_spec ''/api/v1/auth/keys/rotated'' ''post'' = Some op_verifyRotationWebhook"
  by (simp add: operation_def build_spec_def paths_def)

lemma operation_revokeKey:
  "operation build_spec ''/api/v1/auth/keys/{id}'' ''delete'' = Some op_revokeKey"
  by (simp add: operation_def build_spec_def paths_def)

lemma response_codes_auth:
  "response_codes op_issueKey = [''201'', ''401'', ''403'', ''500'']"
  "response_codes op_listKeys = [''200'', ''401'', ''403'', ''500'']"
  "response_codes op_rotateKey = [''200'', ''400'', ''401'', ''403'', ''404'', ''500'']"
  "response_codes op_verifyRotationWebhook = [''204'', ''401'', ''403'', ''500'']"
  "response_codes op_revokeKey = [''204'', ''401'', ''403'', ''404'', ''500'']"
  by (simp_all add: response_codes_def op_issueKey_def op_listKeys_def op_rotateKey_def
      op_verifyRotationWebhook_def op_revokeKey_def)

lemma auth_of_auth:
  "auth_of op_issueKey = BearerOptional"
  "auth_of op_listKeys = BearerRequired"
  "auth_of op_rotateKey = BearerRequired"
  "auth_of op_verifyRotationWebhook = BearerRequired"
  "auth_of op_revokeKey = BearerRequired"
  by (simp_all add: auth_of_def security_requirements_def asks_bearer_def op_issueKey_def
      op_listKeys_def op_rotateKey_def op_verifyRotationWebhook_def op_revokeKey_def)

text \<open>
  Claim C1. Every row of the HTTP-surface table for the auth endpoints is present in the
  document returned by \<^verbatim>\<open>build_spec()\<close>: the path and method exist, the operation asks
  for the bearer token as the row says (optional for \<^verbatim>\<open>POST /api/v1/auth/keys\<close>, required for
  the other four), the row's success status is the operation's one 2xx response, and every
  error status of the row is declared.
\<close>

theorem http_surface_rows_present: "list_all (row_holds build_spec) http_surface"
  by (simp add: http_surface_def row_holds_def success_codes_def operation_issueKey
      operation_listKeys operation_rotateKey operation_verifyRotationWebhook operation_revokeKey
      response_codes_auth auth_of_auth)

subsection \<open>The key schemas\<close>

lemma schema_names_build_spec:
  "schema_names build_spec =
    [''ErrorResponse'', ''SandboxLimits'', ''SandboxResponse'', ''CreateSandboxLimits'',
     ''CreateSandboxRequest'', ''ExecRequest'', ''ExecResponse'', ''ExecutionRecord'',
     ''CreateKeyScope'', ''CreateKeyRequest'', ''KeyScope'', ''KeyInfo'', ''IssuedKeyResponse'',
     ''RotateKeyRequest'', ''RotationWebhookPayload'', ''RotationWebhookResponse'',
     ''RotatedKeyResponse'']"
  by (simp add: schema_names_def build_spec_def components_def)

lemma schema_named_build_spec:
  "schema_named build_spec ''ErrorResponse'' = Some schema_ErrorResponse"
  "schema_named build_spec ''SandboxLimits'' = Some schema_SandboxLimits"
  "schema_named build_spec ''SandboxResponse'' = Some schema_SandboxResponse"
  "schema_named build_spec ''CreateSandboxLimits'' = Some schema_CreateSandboxLimits"
  "schema_named build_spec ''CreateSandboxRequest'' = Some schema_CreateSandboxRequest"
  "schema_named build_spec ''ExecRequest'' = Some schema_ExecRequest"
  "schema_named build_spec ''ExecResponse'' = Some schema_ExecResponse"
  "schema_named build_spec ''ExecutionRecord'' = Some schema_ExecutionRecord"
  "schema_named build_spec ''CreateKeyScope'' = Some schema_CreateKeyScope"
  "schema_named build_spec ''CreateKeyRequest'' = Some schema_CreateKeyRequest"
  "schema_named build_spec ''KeyScope'' = Some schema_KeyScope"
  "schema_named build_spec ''KeyInfo'' = Some schema_KeyInfo"
  "schema_named build_spec ''IssuedKeyResponse'' = Some schema_IssuedKeyResponse"
  "schema_named build_spec ''RotateKeyRequest'' = Some schema_RotateKeyRequest"
  "schema_named build_spec ''RotationWebhookPayload'' = Some schema_RotationWebhookPayload"
  "schema_named build_spec ''RotationWebhookResponse'' = Some schema_RotationWebhookResponse"
  "schema_named build_spec ''RotatedKeyResponse'' = Some schema_RotatedKeyResponse"
  by (simp_all add: schema_named_def build_spec_def components_def)

lemma property_names_schemas:
  "property_names schema_ErrorResponse = [''error'']"
  "property_names schema_SandboxLimits =
     [''cpu_millis'', ''memory_mib'', ''disk_mib'', ''timeout_seconds'']"
  "property_names schema_SandboxResponse =
     [''id'', ''namespace'', ''name'', ''runtime'', ''status'', ''limits'', ''created_at'',
      ''updated_at'', ''last_started_at'', ''last_stopped_at'']"
  "property_names schema_CreateSandboxLimits =
     [''cpu_millis'', ''memory_mib'', ''disk_mib'', ''timeout_seconds'']"
  "property_names schema_CreateSandboxRequest = [''namespace'', ''name'', ''runtime'', ''limits'']"
  "property_names schema_ExecRequest = [''command'', ''args'', ''stdin'', ''timeout_ms'']"
  "property_names schema_ExecResponse =
     [''exit_code'', ''stdout'', ''stderr'', ''duration_ms'', ''timed_out'']"
  "property_names schema_ExecutionRecord =
     [''command'', ''args'', ''executed_at'', ''exit_code'', ''stdout'', ''stderr'',
      ''duration_ms'', ''timed_out'']"
  "property_names schema_CreateKeyScope = []"
  "property_names schema_CreateKeyRequest = [''scope'', ''rate_limit'', ''ttl_seconds'']"
  "property_names schema_KeyScope = []"
  "property_names schema_KeyInfo =
     [''id'', ''scope'', ''rate_limit'', ''created_at'', ''last_used_at'', ''expires_at'',
      ''key_prefix'', ''rotated_from'', ''rotated_at'']"
  "property_names schema_IssuedKeyResponse = [''token'', ''info'']"
  "property_names schema_RotateKeyRequest = [''key_id'', ''rate_limit'', ''ttl_seconds'']"
  "property_names schema_RotationWebhookPayload =
     [''event'', ''key_id'', ''previous_key_id'', ''rotated_at'', ''scope'', ''owner'',
      ''key_prefix'']"
  "property_names schema_RotationWebhookResponse = [''event_id'', ''signature'', ''payload'']"
  "property_names schema_RotatedKeyResponse = [''token'', ''info'', ''previous'', ''webhook'']"
  by (simp_all add: property_names_def schema_ErrorResponse_def schema_SandboxLimits_def
      schema_SandboxResponse_def schema_CreateSandboxLimits_def schema_CreateSandboxRequest_def
      schema_ExecRequest_def schema_ExecResponse_def schema_ExecutionRecord_def
      schema_CreateKeyScope_def schema_CreateKeyRequest_def schema_KeyScope_def
      schema_KeyInfo_def schema_IssuedKeyResponse_def schema_RotateKeyRequest_def
      schema_RotationWebhookPayload_def schema_RotationWebhookResponse_def
      schema_RotatedKeyResponse_def)

lemma required_names_key_schemas:
  "required_names schema_IssuedKeyResponse = [JString ''token'', JString ''info'']"
  "required_names schema_RotatedKeyResponse =
     [JString ''token'', JString ''info'', JString ''previous'', JString ''webhook'']"
  "required_names schema_RotationWebhookPayload =
     [JString ''event'', JString ''key_id'', JString ''previous_key_id'', JString ''rotated_at'',
      JString ''scope'', JString ''owner'', JString ''key_prefix'']"
  by (simp_all add: required_names_def schema_IssuedKeyResponse_def
      schema_RotatedKeyResponse_def schema_RotationWebhookPayload_def)

lemma response_schemas_auth:
  "jpath op_listKeys [''responses'', ''200'', ''content'', ''application/json'', ''schema''] =
     Some (JObject [(''type'', JString ''array''),
       (''items'', JObject [(''$ref'', JString ''#/components/schemas/KeyInfo'')])])"
  "jpath op_issueKey [''responses'', ''201'', ''content'', ''application/json'', ''schema''] =
     Some (JObject [(''$ref'', JString ''#/components/schemas/IssuedKeyResponse'')])"
  "jpath op_rotateKey [''responses'', ''200'', ''content'', ''application/json'', ''schema''] =
     Some (JObject [(''$ref'', JString ''#/components/schemas/RotatedKeyResponse'')])"
  by (simp_all add: op_listKeys_def op_issueKey_def op_rotateKey_def)

text \<open>
  Claim C2. In the document returned by \<^verbatim>\<open>build_spec()\<close> the \<^verbatim>\<open>KeyInfo\<close> schema has no
  \<^verbatim>\<open>token\<close> property, and the 200 response of \<^verbatim>\<open>GET /api/v1/auth/keys\<close> is an array of
  \<^verbatim>\<open>KeyInfo\<close>; \<^verbatim>\<open>IssuedKeyResponse\<close> and \<^verbatim>\<open>RotatedKeyResponse\<close> both list \<^verbatim>\<open>token\<close> among their
  required properties, each has the property exactly once, they are the schemas of the
  creation and the rotation response, and no other schema of the document has a
  \<^verbatim>\<open>token\<close> property.
\<close>

theorem raw_token_only_in_issue_and_rotate:
  "''token'' \<notin> set (schema_property_names build_spec ''KeyInfo'') \<and>
   map_option (\<lambda>opn. jpath opn [''responses'', ''200'', ''content'', ''application/json'', ''schema''])
       (operation build_spec ''/api/v1/auth/keys'' ''get'') =
     Some (Some (JObject [(''type'', JString ''array''),
       (''items'', JObject [(''$ref'', JString ''#/components/schemas/KeyInfo'')])])) \<and>
   JString ''token'' \<in> set (schema_required_names build_spec ''IssuedKeyResponse'') \<and>
   JString ''token'' \<in> set (schema_required_names build_spec ''RotatedKeyResponse'') \<and>
   count_list (schema_property_names build_spec ''IssuedKeyResponse'') ''token'' = 1 \<and>
   count_list (schema_property_names build_spec ''RotatedKeyResponse'') ''token'' = 1 \<and>
   map_option (\<lambda>opn. jpath opn [''responses'', ''201'', ''content'', ''application/json'', ''schema''])
       (operation build_spec ''/api/v1/auth/keys'' ''post'') =
     Some (Some (JObject [(''$ref'', JString ''#/components/schemas/IssuedKeyResponse'')])) \<and>
   map_option (\<lambda>opn. jpath opn [''responses'', ''200'', ''content'', ''application/json'', ''schema''])
       (operation build_spec ''/api/v1/auth/keys/rotate'' ''post'') =
     Some (Some (JObject [(''$ref'', JString ''#/components/schemas/RotatedKeyResponse'')])) \<and>
   filter (\<lambda>n. ''token'' \<in> set (schema_property_names build_spec n)) (schema_names build_spec) =
     [''IssuedKeyResponse'', ''RotatedKeyResponse'']"
  by (simp del: jpath.simps add: schema_property_names_def schema_required_names_def
      schema_names_build_spec schema_named_build_spec property_names_schemas
      required_names_key_schemas operation_issueKey operation_listKeys operation_rotateKey
      response_schemas_auth)

subsection \<open>The rotation examples\<close>

lemma rotated_key_example_parts:
  "jpath rotated_key_example [''info'', ''scope''] = Some (JObject [(''type'', JString ''admin'')])"
  "jpath rotated_key_example [''previous'', ''scope''] =
     Some (JObject [(''type'', JString ''namespace''), (''namespace'', JString ''demo'')])"
  "jpath rotated_key_example [''info'', ''rotated_from''] =
     Some (JString ''4b2a4d3a-4cbe-4b05-87a3-9528cdf6a1ed'')"
  "jpath rotated_key_example [''previous'', ''id''] =
     Some (JString ''4b2a4d3a-4cbe-4b05-87a3-9528cdf6a1ed'')"
  by (simp_all add: rotated_key_example_def Let_def dict_copy_def subscript_def
      issued_key_example_def)

lemma rotated_key_example_used:
  "lookup_key schema_RotatedKeyResponse ''example'' = Some rotated_key_example"
  "jpath op_rotateKey [''responses'', ''200'', ''content'', ''application/json'', ''example''] =
     Some rotated_key_example"
  "jpath build_spec [''components'', ''schemas'', ''RotatedKeyResponse'', ''example''] =
     Some rotated_key_example"
  by (simp_all add: schema_RotatedKeyResponse_def op_rotateKey_def build_spec_def
      components_def)

text \<open>
  Claim C3 (the code departs from it). The claim says that the canonical
  \<^verbatim>\<open>RotatedKeyResponse\<close> of the generator, \<^verbatim>\<open>rotated_key_example()\<close>, has \<^verbatim>\<open>info.scope\<close> equal
  to \<^verbatim>\<open>previous.scope\<close> and \<^verbatim>\<open>info.rotated_from\<close> equal to \<^verbatim>\<open>previous.id\<close>. The second half
  holds; the first does not: the predecessor (the \<^verbatim>\<open>info\<close> of \<^verbatim>\<open>issued_key_example()\<close>) is
  scoped to the namespace \<^verbatim>\<open>demo\<close>, while the successor is an admin key. The example is
  the one \<^verbatim>\<open>build_spec()\<close> publishes for the schema and for the rotate operation.
\<close>

theorem rotated_key_example_scope_differs:
  "jpath rotated_key_example [''info'', ''scope''] = Some (JObject [(''type'', JString ''admin'')]) \<and>
   jpath rotated_key_example [''previous'', ''scope''] =
     Some (JObject [(''type'', JString ''namespace''), (''namespace'', JString ''demo'')]) \<and>
   jpath rotated_key_example [''info'', ''scope''] \<noteq> jpath rotated_key_example [''previous'', ''scope''] \<and>
   jpath rotated_key_example [''info'', ''rotated_from''] = jpath rotated_key_example [''previous'', ''id''] \<and>
   jpath build_spec [''components'', ''schemas'', ''RotatedKeyResponse'', ''example''] =
     Some rotated_key_example"
  by (simp del: jpath.simps add: rotated_key_example_parts rotated_key_example_used)

subsection \<open>The rotation webhook\<close>










lemma RotationWebhookPayload_example:
  "lookup_key schema_RotationWebhookPayload ''example'' = Some rotation_webhook_payload_example"
  by (simp add: schema_RotationWebhookPayload_def)

lemma rotation_webhook_payload_example_keys:
  "dict_keys rotation_webhook_payload_example =
    [''event'', ''key_id'', ''previous_key_id'', ''rotated_at'', ''scope'', ''owner'', ''key_prefix'']"
  by (simp add: rotation_webhook_payload_example_def)

text \<open>
  Claim C5. The \<^verbatim>\<open>RotationWebhookPayload\<close> schema of the document requires exactly the
  seven fields \<^verbatim>\<open>event\<close>, \<^verbatim>\<open>key_id\<close>, \<^verbatim>\<open>previous_key_id\<close>, \<^verbatim>\<open>rotated_at\<close>, \<^verbatim>\<open>scope\<close>, \<^verbatim>\<open>owner\<close>
  and \<^verbatim>\<open>key_prefix\<close>; these are also all its properties, and its example,
  \<^verbatim>\<open>rotation_webhook_payload_example()\<close>, has exactly these seven keys.
\<close>

theorem RotationWebhookPayload_seven_fields:
  "schema_required_names build_spec ''RotationWebhookPayload'' =
     map JString [''event'', ''key_id'', ''previous_key_id'', ''rotated_at'', ''scope'', ''owner'',
       ''key_prefix''] \<and>
   schema_property_names build_spec ''RotationWebhookPayload'' =
     [''event'', ''key_id'', ''previous_key_id'', ''rotated_at'', ''scope'', ''owner'', ''key_prefix''] \<and>
   map_option (\<lambda>s. lookup_key s ''example'') (schema_named build_spec ''RotationWebhookPayload'') =
     Some (Some rotation_webhook_payload_example) \<and>
   dict_keys rotation_webhook_payload_example =
     [''event'', ''key_id'', ''previous_key_id'', ''rotated_at'', ''scope'', ''owner'', ''key_prefix''] \<and>
   distinct (dict_keys rotation_webhook_payload_example) \<and>
   length (dict_keys rotation_webhook_payload_example) = 7"
  by (simp add: schema_required_names_def schema_property_names_def schema_named_build_spec
      required_names_key_schemas property_names_schemas RotationWebhookPayload_example
      rotation_webhook_payload_example_keys)

subsection \<open>What the key-scope schemas admit\<close>

lemma tag_schema_admits:
  "admits (Suc n) doc (JObject [(''type'', JString ''string''), (''enum'', JArray [JString t])]) v
     = Some (v = JString t)"
  by (cases v) auto

lemma string_schema_admits:
  "admits (Suc n) doc (JObject [(''type'', JString ''string'')]) v = Some (is_string v)"
  by (cases v) auto

lemma admin_branch_admits:
  "admits (Suc (Suc n)) doc
     (JObject [
        (''type'', JString ''object''),
        (''required'', JArray [JString ''type'']),
        (''properties'', JObject [
          (''type'', JObject [
            (''type'', JString ''string''),
            (''enum'', JArray [JString ''admin''])])])]) v
   = Some (admin_shaped v)"
proof (cases v)
  case (JObject fs)
  then show ?thesis
    by (cases "map_of fs ''type''")
      (simp_all add: admin_shaped_def tag_schema_admits del: admits.simps(2)
        add: admits.simps(2)[of "Suc n"])
qed (simp_all add: admin_shaped_def)

lemma namespace_branch_admits:
  "admits (Suc (Suc n)) doc
     (JObject [
        (''type'', JString ''object''),
        (''required'', JArray [JString ''type'', JString ''namespace'']),
        (''properties'', JObject [
          (''type'', JObject [
            (''type'', JString ''string''),
            (''enum'', JArray [JString ''namespace''])]),
          (''namespace'', JObject [
            (''type'', JString ''string'')])])]) v
   = Some (namespace_shaped v)"
proof (cases v)
  case (JObject fs)
  then show ?thesis
    by (cases "map_of fs ''type''"; cases "map_of fs ''namespace''")
      (simp_all add: namespace_shaped_def tag_schema_admits string_schema_admits
        del: admits.simps(2) add: admits.simps(2)[of "Suc n"])
qed (simp_all add: namespace_shaped_def)

lemma shapes_exclusive: "\<not> (admin_shaped v \<and> namespace_shaped v)"
  by (simp add: admin_shaped_def namespace_shaped_def)

lemma scope_schema_admits:
  "admits (Suc (Suc (Suc n))) doc
     (JObject [
        (''oneOf'', JArray [
          JObject [
            (''type'', JString ''object''),
            (''required'', JArray [JString ''type'']),
            (''properties'', JObject [
              (''type'', JObject [
                (''type'', JString ''string''),
                (''enum'', JArray [JString ''admin''])])])],
          JObject [
            (''type'', JString ''object''),
            (''required'', JArray [JString ''type'', JString ''namespace'']),
            (''properties'', JObject [
              (''type'', JObject [
                (''type'', JString ''string''),
                (''enum'', JArray [JString ''namespace''])]),
              (''namespace'', JObject [
                (''type'', JString ''string'')])])]]),
        (''discriminator'', JObject [(''propertyName'', JString ''type'')])]) v
   = Some (admin_shaped v \<or> namespace_shaped v)"
  using shapes_exclusive [of v]
  by (simp add: admin_branch_admits namespace_branch_admits del: admits.simps(2)
      add: admits.simps(2)[of "Suc (Suc n)"])

lemma empty_namespace_shaped:
  "namespace_shaped (JObject [(''type'', JString ''namespace''), (''namespace'', JString '''')])"
  by (simp add: namespace_shaped_def)

text \<open>
  Claim C6, as stated, fails on the schemas: the value
  \<^verbatim>\<open>{"type": "namespace", "namespace": ""}\<close>, a namespace scope with an empty namespace, is
  admitted as a \<^verbatim>\<open>KeyScope\<close> and as a \<^verbatim>\<open>CreateKeyScope\<close>.
\<close>

theorem empty_namespace_admitted:
  "schema_named build_spec ''KeyScope'' = Some schema_KeyScope \<and>
   schema_named build_spec ''CreateKeyScope'' = Some schema_CreateKeyScope \<and>
   admits 3 build_spec schema_KeyScope
     (JObject [(''type'', JString ''namespace''), (''namespace'', JString '''')]) = Some True \<and>
   admits 3 build_spec schema_CreateKeyScope
     (JObject [(''type'', JString ''namespace''), (''namespace'', JString '''')]) = Some True \<and>
   lookup_key (JObject [(''type'', JString ''namespace''), (''namespace'', JString '''')])
     ''namespace'' = Some (JString [])"
proof -
  have three: "(3::nat) = Suc (Suc (Suc 0))"
    by simp
  show ?thesis
    unfolding three schema_KeyScope_def schema_CreateKeyScope_def scope_schema_admits
    by (simp add: schema_named_build_spec empty_namespace_shaped
        schema_KeyScope_def schema_CreateKeyScope_def)
qed

text \<open>
  Claim C6, amended. With any depth bound of at least three, the \<^verbatim>\<open>KeyScope\<close> and the
  \<^verbatim>\<open>CreateKeyScope\<close> schema of the document give a verdict on every value, and the values
  they admit are exactly the objects whose \<^verbatim>\<open>type\<close> is \<^verbatim>\<open>"admin"\<close> (other members
  unconstrained) and the objects whose \<^verbatim>\<open>type\<close> is \<^verbatim>\<open>"namespace"\<close> and whose \<^verbatim>\<open>namespace\<close> is a
  string, the empty string included.
\<close>

theorem key_scope_schemas_admit:
  "schema_named build_spec ''KeyScope'' = Some schema_KeyScope \<and>
   schema_named build_spec ''CreateKeyScope'' = Some schema_CreateKeyScope \<and>
   admits (Suc (Suc (Suc n))) build_spec schema_KeyScope v =
     Some (admin_shaped v \<or> namespace_shaped v) \<and>
   admits (Suc (Suc (Suc n))) build_spec schema_CreateKeyScope v =
     Some (admin_shaped v \<or> namespace_shaped v)"
  unfolding schema_KeyScope_def schema_CreateKeyScope_def scope_schema_admits
  by (simp add: schema_named_build_spec schema_KeyScope_def schema_CreateKeyScope_def)

text \<open>
  The validator follows references: the rotation example is admitted by the
  \<^verbatim>\<open>RotatedKeyResponse\<close> schema (through \<^verbatim>\<open>KeyInfo\<close>, \<^verbatim>\<open>RotationWebhookResponse\<close>,
  \<^verbatim>\<open>RotationWebhookPayload\<close> and \<^verbatim>\<open>KeyScope\<close>).
\<close>

lemma rotated_key_example_admitted:
  "admits 9 build_spec schema_RotatedKeyResponse rotated_key_example = Some True"
  by code_simp

subsection \<open>The serialiser\<close>

lemma json_dumps_error_example:
  "json_dumps (error_example ''no'') =
     ''{'' @ [CHR 0x0A] @ ''  '' @ [CHR 0x22] @ ''error'' @ [CHR 0x22] @ '': '' @
     [CHR 0x22] @ ''no'' @ [CHR 0x22, CHR 0x0A] @ ''}''"
  by (simp add: json_dumps_def error_example_def encode_string_def escape_char_def
      newline_indent_def numeral_2_eq_2)

lemma string_of_int_examples:
  "string_of_int 1024 = ''1024''"
  "string_of_int (- 7) = ''-7''"
  "string_of_int 0 = ''0''"
  by code_simp+

subsection \<open>Running the generator\<close>

text \<open>
  The functions of the script, looked up by name, and the evaluation of each part of the
  program: with enough depth, in every run, each function and each named part of
  \<^verbatim>\<open>build_spec\<close> has the value that the definitions of the first sections give it.
\<close>

lemma fuel_numeral: "numeral k + n = Suc (pred_numeral k + n)"
  by (simp add: numeral_eq_Suc)

lemmas fuel_simps = fuel_numeral plus_1_eq_Suc

lemma generator_functions:
  "map_of generator_program ''build_spec'' = Some src_build_spec"
  "map_of generator_program ''main'' = Some src_main"
  by (simp_all add: generator_program_def)

lemma eval_call_sandbox_response_example:
  assumes "8 \<le> m"
  shows "eval_expr m generator_program w loc (ECall ''sandbox_response_example'' []) = Some sandbox_response_example"
proof -
  from assms obtain k where "m = 8 + k"
    by (auto dest: le_Suc_ex)
  then show ?thesis
    by (simp add: fuel_simps generator_program_def src_sandbox_response_example_def sandbox_response_example_def
        build_dict_def)
qed

lemma eval_call_exec_response_example:
  assumes "8 \<le> m"
  shows "eval_expr m generator_program w loc (ECall ''exec_response_example'' []) = Some exec_response_example"
proof -
  from assms obtain k where "m = 8 + k"
    by (auto dest: le_Suc_ex)
  then show ?thesis
    by (simp add: fuel_simps generator_program_def src_exec_response_example_def exec_response_example_def
        build_dict_def)
qed

lemma eval_call_execution_record_example:
  assumes "8 \<le> m"
  shows "eval_expr m generator_program w loc (ECall ''execution_record_example'' []) = Some execution_record_example"
proof -
  from assms obtain k where "m = 8 + k"
    by (auto dest: le_Suc_ex)
  then show ?thesis
    by (simp add: fuel_simps generator_program_def src_execution_record_example_def execution_record_example_def
        build_dict_def)
qed

lemma eval_call_issued_key_example:
  assumes "8 \<le> m"
  shows "eval_expr m generator_program w loc (ECall ''issued_key_example'' []) = Some issued_key_example"
proof -
  from assms obtain k where "m = 8 + k"
    by (auto dest: le_Suc_ex)
  then show ?thesis
    by (simp add: fuel_simps generator_program_def src_issued_key_example_def issued_key_example_def
        build_dict_def)
qed

lemma eval_call_rotation_webhook_payload_example:
  assumes "8 \<le> m"
  shows "eval_expr m generator_program w loc (ECall ''rotation_webhook_payload_example'' []) = Some rotation_webhook_payload_example"
proof -
  from assms obtain k where "m = 8 + k"
    by (auto dest: le_Suc_ex)
  then show ?thesis
    by (simp add: fuel_simps generator_program_def src_rotation_webhook_payload_example_def rotation_webhook_payload_example_def
        build_dict_def)
qed

lemma eval_call_error_example:
  assumes "4 \<le> m"
  shows "eval_expr m generator_program w loc (ECall ''error_example'' [EStr s]) = Some (error_example s)"
proof -
  from assms obtain k where "m = 4 + k"
    by (auto dest: le_Suc_ex)
  then show ?thesis
    by (simp add: fuel_simps generator_program_def src_error_example_def error_example_def
        build_dict_def)
qed

lemma eval_call_rotated_key_example:
  assumes "12 \<le> m"
  shows "eval_expr m generator_program w loc (ECall ''rotated_key_example'' []) = Some rotated_key_example"
proof -
  from assms obtain k where "m = 12 + k"
    by (auto dest: le_Suc_ex)
  then show ?thesis
    by (simp add: fuel_simps generator_program_def src_rotated_key_example_def
        src_issued_key_example_def src_rotation_webhook_payload_example_def
        rotated_key_example_def issued_key_example_def rotation_webhook_payload_example_def
        Let_def dict_copy_def subscript_def build_dict_def)
qed

lemmas eval_calls =
  eval_call_sandbox_response_example eval_call_exec_response_example
  eval_call_execution_record_example eval_call_issued_key_example
  eval_call_rotation_webhook_payload_example eval_call_error_example
  eval_call_rotated_key_example

lemma eval_src_schema_ErrorResponse:
  assumes "20 \<le> m"
  shows "eval_expr m generator_program w loc src_schema_ErrorResponse = Some schema_ErrorResponse"
proof -
  from assms obtain k where "m = 20 + k"
    by (auto dest: le_Suc_ex)
  then show ?thesis
    by (simp del: eval_expr.simps(9) add: fuel_simps src_schema_ErrorResponse_def
        schema_ErrorResponse_def build_dict_def eval_calls)
qed

lemma eval_src_schema_SandboxLimits:
  assumes "20 \<le> m"
  shows "eval_expr m generator_program w loc src_schema_SandboxLimits = Some schema_SandboxLimits"
proof -
  from assms obtain k where "m = 20 + k"
    by (auto dest: le_Suc_ex)
  then show ?thesis
    by (simp del: eval_expr.simps(9) add: fuel_simps src_schema_SandboxLimits_def
        schema_SandboxLimits_def build_dict_def eval_calls)
qed

lemma eval_src_schema_SandboxResponse:
  assumes "20 \<le> m"
  shows "eval_expr m generator_program w loc src_schema_SandboxResponse = Some schema_SandboxResponse"
proof -
  from assms obtain k where "m = 20 + k"
    by (auto dest: le_Suc_ex)
  then show ?thesis
    by (simp del: eval_expr.simps(9) add: fuel_simps src_schema_SandboxResponse_def
        schema_SandboxResponse_def build_dict_def eval_calls)
qed

lemma eval_src_schema_CreateSandboxLimits:
  assumes "20 \<le> m"
  shows "eval_expr m generator_program w loc src_schema_CreateSandboxLimits = Some schema_CreateSandboxLimits"
proof -
  from assms obtain k where "m = 20 + k"
    by (auto dest: le_Suc_ex)
  then show ?thesis
    by (simp del: eval_expr.simps(9) add: fuel_simps src_schema_CreateSandboxLimits_def
        schema_CreateSandboxLimits_def build_dict_def eval_calls)
qed

lemma eval_src_schema_CreateSandboxRequest:
  assumes "20 \<le> m"
  shows "eval_expr m generator_program w loc src_schema_CreateSandboxRequest = Some schema_CreateSandboxRequest"
proof -
  from assms obtain k where "m = 20 + k"
    by (auto dest: le_Suc_ex)
  then show ?thesis
    by (simp del: eval_expr.simps(9) add: fuel_simps src_schema_CreateSandboxRequest_def
        schema_CreateSandboxRequest_def build_dict_def eval_calls)
qed

lemma eval_src_schema_ExecRequest:
  assumes "20 \<le> m"
  shows "eval_expr m generator_program w loc src_schema_ExecRequest = Some schema_ExecRequest"
proof -
  from assms obtain k where "m = 20 + k"
    by (auto dest: le_Suc_ex)
  then show ?thesis
    by (simp del: eval_expr.simps(9) add: fuel_simps src_schema_ExecRequest_def
        schema_ExecRequest_def build_dict_def eval_calls)
qed

lemma eval_src_schema_ExecResponse:
  assumes "20 \<le> m"
  shows "eval_expr m generator_program w loc src_schema_ExecResponse = Some schema_ExecResponse"
proof -
  from assms obtain k where "m = 20 + k"
    by (auto dest: le_Suc_ex)
  then show ?thesis
    by (simp del: eval_expr.simps(9) add: fuel_simps src_schema_ExecResponse_def
        schema_ExecResponse_def build_dict_def eval_calls)
qed

lemma eval_src_schema_ExecutionRecord:
  assumes "20 \<le> m"
  shows "eval_expr m generator_program w loc src_schema_ExecutionRecord = Some schema_ExecutionRecord"
proof -
  from assms obtain k where "m = 20 + k"
    by (auto dest: le_Suc_ex)
  then show ?thesis
    by (simp del: eval_expr.simps(9) add: fuel_simps src_schema_ExecutionRecord_def
        schema_ExecutionRecord_def build_dict_def eval_calls)
qed

lemma eval_src_schema_CreateKeyScope:
  assumes "20 \<le> m"
  shows "eval_expr m generator_program w loc src_schema_CreateKeyScope = Some schema_CreateKeyScope"
proof -
  from assms obtain k where "m = 20 + k"
    by (auto dest: le_Suc_ex)
  then show ?thesis
    by (simp del: eval_expr.simps(9) add: fuel_simps src_schema_CreateKeyScope_def
        schema_CreateKeyScope_def build_dict_def eval_calls)
qed

lemma eval_src_schema_CreateKeyRequest:
  assumes "20 \<le> m"
  shows "eval_expr m generator_program w loc src_schema_CreateKeyRequest = Some schema_CreateKeyRequest"
proof -
  from assms obtain k where "m = 20 + k"
    by (auto dest: le_Suc_ex)
  then show ?thesis
    by (simp del: eval_expr.simps(9) add: fuel_simps src_schema_CreateKeyRequest_def
        schema_CreateKeyRequest_def build_dict_def eval_calls)
qed

lemma eval_src_schema_KeyScope:
  assumes "20 \<le> m"
  shows "eval_expr m generator_program w loc src_schema_KeyScope = Some schema_KeyScope"
proof -
  from assms obtain k where "m = 20 + k"
    by (auto dest: le_Suc_ex)
  then show ?thesis
    by (simp del: eval_expr.simps(9) add: fuel_simps src_schema_KeyScope_def
        schema_KeyScope_def build_dict_def eval_calls)
qed

lemma eval_src_schema_KeyInfo:
  assumes "20 \<le> m"
  shows "eval_expr m generator_program w loc src_schema_KeyInfo = Some schema_KeyInfo"
proof -
  from assms obtain k where "m = 20 + k"
    by (auto dest: le_Suc_ex)
  then show ?thesis
    by (simp del: eval_expr.simps(9) add: fuel_simps src_schema_KeyInfo_def
        schema_KeyInfo_def build_dict_def eval_calls)
qed

lemma eval_src_schema_IssuedKeyResponse:
  assumes "20 \<le> m"
  shows "eval_expr m generator_program w loc src_schema_IssuedKeyResponse = Some schema_IssuedKeyResponse"
proof -
  from assms obtain k where "m = 20 + k"
    by (auto dest: le_Suc_ex)
  then show ?thesis
    by (simp del: eval_expr.simps(9) add: fuel_simps src_schema_IssuedKeyResponse_def
        schema_IssuedKeyResponse_def build_dict_def eval_calls)
qed

lemma eval_src_schema_RotateKeyRequest:
  assumes "20 \<le> m"
  shows "eval_expr m generator_program w loc src_schema_RotateKeyRequest = Some schema_RotateKeyRequest"
proof -
  from assms obtain k where "m = 20 + k"
    by (auto dest: le_Suc_ex)
  then show ?thesis
    by (simp del: eval_expr.simps(9) add: fuel_simps src_schema_RotateKeyRequest_def
        schema_RotateKeyRequest_def build_dict_def eval_calls)
qed

lemma eval_src_schema_RotationWebhookPayload:
  assumes "20 \<le> m"
  shows "eval_expr m generator_program w loc src_schema_RotationWebhookPayload = Some schema_RotationWebhookPayload"
proof -
  from assms obtain k where "m = 20 + k"
    by (auto dest: le_Suc_ex)
  then show ?thesis
    by (simp del: eval_expr.simps(9) add: fuel_simps src_schema_RotationWebhookPayload_def
        schema_RotationWebhookPayload_def build_dict_def eval_calls)
qed

lemma eval_src_schema_RotationWebhookResponse:
  assumes "20 \<le> m"
  shows "eval_expr m generator_program w loc src_schema_RotationWebhookResponse = Some schema_RotationWebhookResponse"
proof -
  from assms obtain k where "m = 20 + k"
    by (auto dest: le_Suc_ex)
  then show ?thesis
    by (simp del: eval_expr.simps(9) add: fuel_simps src_schema_RotationWebhookResponse_def
        schema_RotationWebhookResponse_def build_dict_def eval_calls)
qed

lemma eval_src_schema_RotatedKeyResponse:
  assumes "20 \<le> m"
  shows "eval_expr m generator_program w loc src_schema_RotatedKeyResponse = Some schema_RotatedKeyResponse"
proof -
  from assms obtain k where "m = 20 + k"
    by (auto dest: le_Suc_ex)
  then show ?thesis
    by (simp del: eval_expr.simps(9) add: fuel_simps src_schema_RotatedKeyResponse_def
        schema_RotatedKeyResponse_def build_dict_def eval_calls)
qed

lemma eval_src_response_400:
  assumes "20 \<le> m"
  shows "eval_expr m generator_program w loc src_response_400 = Some response_400"
proof -
  from assms obtain k where "m = 20 + k"
    by (auto dest: le_Suc_ex)
  then show ?thesis
    by (simp del: eval_expr.simps(9) add: fuel_simps src_response_400_def
        response_400_def build_dict_def eval_calls)
qed

lemma eval_src_response_401:
  assumes "20 \<le> m"
  shows "eval_expr m generator_program w loc src_response_401 = Some response_401"
proof -
  from assms obtain k where "m = 20 + k"
    by (auto dest: le_Suc_ex)
  then show ?thesis
    by (simp del: eval_expr.simps(9) add: fuel_simps src_response_401_def
        response_401_def build_dict_def eval_calls)
qed

lemma eval_src_response_403:
  assumes "20 \<le> m"
  shows "eval_expr m generator_program w loc src_response_403 = Some response_403"
proof -
  from assms obtain k where "m = 20 + k"
    by (auto dest: le_Suc_ex)
  then show ?thesis
    by (simp del: eval_expr.simps(9) add: fuel_simps src_response_403_def
        response_403_def build_dict_def eval_calls)
qed

lemma eval_src_response_404:
  assumes "20 \<le> m"
  shows "eval_expr m generator_program w loc src_response_404 = Some response_404"
proof -
  from assms obtain k where "m = 20 + k"
    by (auto dest: le_Suc_ex)
  then show ?thesis
    by (simp del: eval_expr.simps(9) add: fuel_simps src_response_404_def
        response_404_def build_dict_def eval_calls)
qed

lemma eval_src_response_409:
  assumes "20 \<le> m"
  shows "eval_expr m generator_program w loc src_response_409 = Some response_409"
proof -
  from assms obtain k where "m = 20 + k"
    by (auto dest: le_Suc_ex)
  then show ?thesis
    by (simp del: eval_expr.simps(9) add: fuel_simps src_response_409_def
        response_409_def build_dict_def eval_calls)
qed

lemma eval_src_response_500:
  assumes "20 \<le> m"
  shows "eval_expr m generator_program w loc src_response_500 = Some response_500"
proof -
  from assms obtain k where "m = 20 + k"
    by (auto dest: le_Suc_ex)
  then show ?thesis
    by (simp del: eval_expr.simps(9) add: fuel_simps src_response_500_def
        response_500_def build_dict_def eval_calls)
qed

lemmas eval_schemas =
  eval_src_schema_ErrorResponse eval_src_schema_SandboxLimits
  eval_src_schema_SandboxResponse eval_src_schema_CreateSandboxLimits
  eval_src_schema_CreateSandboxRequest eval_src_schema_ExecRequest
  eval_src_schema_ExecResponse eval_src_schema_ExecutionRecord
  eval_src_schema_CreateKeyScope eval_src_schema_CreateKeyRequest eval_src_schema_KeyScope
  eval_src_schema_KeyInfo eval_src_schema_IssuedKeyResponse eval_src_schema_RotateKeyRequest
  eval_src_schema_RotationWebhookPayload eval_src_schema_RotationWebhookResponse
  eval_src_schema_RotatedKeyResponse

lemmas eval_responses =
  eval_src_response_400 eval_src_response_401 eval_src_response_403 eval_src_response_404
  eval_src_response_409 eval_src_response_500

lemma eval_src_components:
  assumes "24 \<le> m"
  shows "eval_expr m generator_program w loc src_components = Some components"
proof -
  from assms obtain k where "m = 24 + k"
    by (auto dest: le_Suc_ex)
  then show ?thesis
    by (simp del: eval_expr.simps(9) add: fuel_simps src_components_def components_def
        build_dict_def eval_schemas)
qed

lemma eval_src_responses:
  assumes "24 \<le> m"
  shows "eval_expr m generator_program w loc src_responses = Some responses"
proof -
  from assms obtain k where "m = 24 + k"
    by (auto dest: le_Suc_ex)
  then show ?thesis
    by (simp del: eval_expr.simps(9) add: fuel_simps src_responses_def responses_def
        build_dict_def eval_responses)
qed

lemma eval_src_op_getHealthz:
  assumes "20 \<le> m"
  shows "eval_expr m generator_program w [(''responses'', responses), (''components'', components)]
       src_op_getHealthz = Some op_getHealthz"
proof -
  from assms obtain k where "m = 20 + k"
    by (auto dest: le_Suc_ex)
  then show ?thesis
    by (simp del: eval_expr.simps(9) add: fuel_simps src_op_getHealthz_def op_getHealthz_def
        build_dict_def eval_calls subscript_def responses_def components_def
        schema_CreateSandboxRequest_def schema_ExecRequest_def schema_CreateKeyRequest_def
        schema_RotateKeyRequest_def sandbox_response_example_def issued_key_example_def)
qed

lemma eval_src_op_getMetrics:
  assumes "20 \<le> m"
  shows "eval_expr m generator_program w [(''responses'', responses), (''components'', components)]
       src_op_getMetrics = Some op_getMetrics"
proof -
  from assms obtain k where "m = 20 + k"
    by (auto dest: le_Suc_ex)
  then show ?thesis
    by (simp del: eval_expr.simps(9) add: fuel_simps src_op_getMetrics_def op_getMetrics_def
        build_dict_def eval_calls subscript_def responses_def components_def
        schema_CreateSandboxRequest_def schema_ExecRequest_def schema_CreateKeyRequest_def
        schema_RotateKeyRequest_def sandbox_response_example_def issued_key_example_def)
qed

lemma eval_src_op_createSandbox:
  assumes "20 \<le> m"
  shows "eval_expr m generator_program w [(''responses'', responses), (''components'', components)]
       src_op_createSandbox = Some op_createSandbox"
proof -
  from assms obtain k where "m = 20 + k"
    by (auto dest: le_Suc_ex)
  then show ?thesis
    by (simp del: eval_expr.simps(9) add: fuel_simps src_op_createSandbox_def op_createSandbox_def
        build_dict_def eval_calls subscript_def responses_def components_def
        schema_CreateSandboxRequest_def schema_ExecRequest_def schema_CreateKeyRequest_def
        schema_RotateKeyRequest_def sandbox_response_example_def issued_key_example_def)
qed

lemma eval_src_op_listSandboxes:
  assumes "20 \<le> m"
  shows "eval_expr m generator_program w [(''responses'', responses), (''components'', components)]
       src_op_listSandboxes = Some op_listSandboxes"
proof -
  from assms obtain k where "m = 20 + k"
    by (auto dest: le_Suc_ex)
  then show ?thesis
    by (simp del: eval_expr.simps(9) add: fuel_simps src_op_listSandboxes_def op_listSandboxes_def
        build_dict_def eval_calls subscript_def responses_def components_def
        schema_CreateSandboxRequest_def schema_ExecRequest_def schema_CreateKeyRequest_def
        schema_RotateKeyRequest_def sandbox_response_example_def issued_key_example_def)
qed

lemma eval_src_op_getSandbox:
  assumes "20 \<le> m"
  shows "eval_expr m generator_program w [(''responses'', responses), (''components'', components)]
       src_op_getSandbox = Some op_getSandbox"
proof -
  from assms obtain k where "m = 20 + k"
    by (auto dest: le_Suc_ex)
  then show ?thesis
    by (simp del: eval_expr.simps(9) add: fuel_simps src_op_getSandbox_def op_getSandbox_def
        build_dict_def eval_calls subscript_def responses_def components_def
        schema_CreateSandboxRequest_def schema_ExecRequest_def schema_CreateKeyRequest_def
        schema_RotateKeyRequest_def sandbox_response_example_def issued_key_example_def)
qed

lemma eval_src_op_startSandbox:
  assumes "20 \<le> m"
  shows "eval_expr m generator_program w [(''responses'', responses), (''components'', components)]
       src_op_startSandbox = Some op_startSandbox"
proof -
  from assms obtain k where "m = 20 + k"
    by (auto dest: le_Suc_ex)
  then show ?thesis
    by (simp del: eval_expr.simps(9) add: fuel_simps src_op_startSandbox_def op_startSandbox_def
        build_dict_def eval_calls subscript_def responses_def components_def
        schema_CreateSandboxRequest_def schema_ExecRequest_def schema_CreateKeyRequest_def
        schema_RotateKeyRequest_def sandbox_response_example_def issued_key_example_def)
qed

lemma eval_src_op_execSandbox:
  assumes "20 \<le> m"
  shows "eval_expr m generator_program w [(''responses'', responses), (''components'', components)]
       src_op_execSandbox = Some op_execSandbox"
proof -
  from assms obtain k where "m = 20 + k"
    by (auto dest: le_Suc_ex)
  then show ?thesis
    by (simp del: eval_expr.simps(9) add: fuel_simps src_op_execSandbox_def op_execSandbox_def
        build_dict_def eval_calls subscript_def responses_def components_def
        schema_CreateSandboxRequest_def schema_ExecRequest_def schema_CreateKeyRequest_def
        schema_RotateKeyRequest_def sandbox_response_example_def issued_key_example_def)
qed

lemma eval_src_op_stopSandbox:
  assumes "20 \<le> m"
  shows "eval_expr m generator_program w [(''responses'', responses), (''components'', components)]
       src_op_stopSandbox = Some op_stopSandbox"
proof -
  from assms obtain k where "m = 20 + k"
    by (auto dest: le_Suc_ex)
  then show ?thesis
    by (simp del: eval_expr.simps(9) add: fuel_simps src_op_stopSandbox_def op_stopSandbox_def
        build_dict_def eval_calls subscript_def responses_def components_def
        schema_CreateSandboxRequest_def schema_ExecRequest_def schema_CreateKeyRequest_def
        schema_RotateKeyRequest_def sandbox_response_example_def issued_key_example_def)
qed

lemma eval_src_op_deleteSandbox:
  assumes "20 \<le> m"
  shows "eval_expr m generator_program w [(''responses'', responses), (''components'', components)]
       src_op_deleteSandbox = Some op_deleteSandbox"
proof -
  from assms obtain k where "m = 20 + k"
    by (auto dest: le_Suc_ex)
  then show ?thesis
    by (simp del: eval_expr.simps(9) add: fuel_simps src_op_deleteSandbox_def op_deleteSandbox_def
        build_dict_def eval_calls subscript_def responses_def components_def
        schema_CreateSandboxRequest_def schema_ExecRequest_def schema_CreateKeyRequest_def
        schema_RotateKeyRequest_def sandbox_response_example_def issued_key_example_def)
qed

lemma eval_src_op_listSandboxExecutions:
  assumes "20 \<le> m"
  shows "eval_expr m generator_program w [(''responses'', responses), (''components'', components)]
       src_op_listSandboxExecutions = Some op_listSandboxExecutions"
proof -
  from assms obtain k where "m = 20 + k"
    by (auto dest: le_Suc_ex)
  then show ?thesis
    by (simp del: eval_expr.simps(9) add: fuel_simps src_op_listSandboxExecutions_def op_listSandboxExecutions_def
        build_dict_def eval_calls subscript_def responses_def components_def
        schema_CreateSandboxRequest_def schema_ExecRequest_def schema_CreateKeyRequest_def
        schema_RotateKeyRequest_def sandbox_response_example_def issued_key_example_def)
qed

lemma eval_src_op_issueKey:
  assumes "20 \<le> m"
  shows "eval_expr m generator_program w [(''responses'', responses), (''components'', components)]
       src_op_issueKey = Some op_issueKey"
proof -
  from assms obtain k where "m = 20 + k"
    by (auto dest: le_Suc_ex)
  then show ?thesis
    by (simp del: eval_expr.simps(9) add: fuel_simps src_op_issueKey_def op_issueKey_def
        build_dict_def eval_calls subscript_def responses_def components_def
        schema_CreateSandboxRequest_def schema_ExecRequest_def schema_CreateKeyRequest_def
        schema_RotateKeyRequest_def sandbox_response_example_def issued_key_example_def)
qed

lemma eval_src_op_listKeys:
  assumes "20 \<le> m"
  shows "eval_expr m generator_program w [(''responses'', responses), (''components'', components)]
       src_op_listKeys = Some op_listKeys"
proof -
  from assms obtain k where "m = 20 + k"
    by (auto dest: le_Suc_ex)
  then show ?thesis
    by (simp del: eval_expr.simps(9) add: fuel_simps src_op_listKeys_def op_listKeys_def
        build_dict_def eval_calls subscript_def responses_def components_def
        schema_CreateSandboxRequest_def schema_ExecRequest_def schema_CreateKeyRequest_def
        schema_RotateKeyRequest_def sandbox_response_example_def issued_key_example_def)
qed

lemma eval_src_op_rotateKey:
  assumes "20 \<le> m"
  shows "eval_expr m generator_program w [(''responses'', responses), (''components'', components)]
       src_op_rotateKey = Some op_rotateKey"
proof -
  from assms obtain k where "m = 20 + k"
    by (auto dest: le_Suc_ex)
  then show ?thesis
    by (simp del: eval_expr.simps(9) add: fuel_simps src_op_rotateKey_def op_rotateKey_def
        build_dict_def eval_calls subscript_def responses_def components_def
        schema_CreateSandboxRequest_def schema_ExecRequest_def schema_CreateKeyRequest_def
        schema_RotateKeyRequest_def sandbox_response_example_def issued_key_example_def)
qed

lemma eval_src_op_verifyRotationWebhook:
  assumes "20 \<le> m"
  shows "eval_expr m generator_program w [(''responses'', responses), (''components'', components)]
       src_op_verifyRotationWebhook = Some op_verifyRotationWebhook"
proof -
  from assms obtain k where "m = 20 + k"
    by (auto dest: le_Suc_ex)
  then show ?thesis
    by (simp del: eval_expr.simps(9) add: fuel_simps src_op_verifyRotationWebhook_def op_verifyRotationWebhook_def
        build_dict_def eval_calls subscript_def responses_def components_def
        schema_CreateSandboxRequest_def schema_ExecRequest_def schema_CreateKeyRequest_def
        schema_RotateKeyRequest_def sandbox_response_example_def issued_key_example_def)
qed

lemma eval_src_op_revokeKey:
  assumes "20 \<le> m"
  shows "eval_expr m generator_program w [(''responses'', responses), (''components'', components)]
       src_op_revokeKey = Some op_revokeKey"
proof -
  from assms obtain k where "m = 20 + k"
    by (auto dest: le_Suc_ex)
  then show ?thesis
    by (simp del: eval_expr.simps(9) add: fuel_simps src_op_revokeKey_def op_revokeKey_def
        build_dict_def eval_calls subscript_def responses_def components_def
        schema_CreateSandboxRequest_def schema_ExecRequest_def schema_CreateKeyRequest_def
        schema_RotateKeyRequest_def sandbox_response_example_def issued_key_example_def)
qed

lemmas eval_operations =
  eval_src_op_getHealthz eval_src_op_getMetrics eval_src_op_createSandbox
  eval_src_op_listSandboxes eval_src_op_getSandbox eval_src_op_startSandbox
  eval_src_op_execSandbox eval_src_op_stopSandbox eval_src_op_deleteSandbox
  eval_src_op_listSandboxExecutions eval_src_op_issueKey eval_src_op_listKeys
  eval_src_op_rotateKey eval_src_op_verifyRotationWebhook eval_src_op_revokeKey

lemma eval_src_paths:
  assumes "24 \<le> m"
  shows "eval_expr m generator_program w [(''responses'', responses), (''components'', components)]
       src_paths = Some paths"
proof -
  from assms obtain k where "m = 24 + k"
    by (auto dest: le_Suc_ex)
  then show ?thesis
    by (simp del: eval_expr.simps(9) add: fuel_simps src_paths_def paths_def build_dict_def
        eval_operations)
qed

lemma eval_src_document:
  assumes "8 \<le> m"
  shows "eval_expr m generator_program w [(''paths'', paths), (''responses'', responses), (''components'', components)]
       src_document = Some build_spec"
proof -
  from assms obtain k where "m = 8 + k"
    by (auto dest: le_Suc_ex)
  then show ?thesis
    by (simp del: eval_expr.simps(9) add: fuel_simps src_document_def build_spec_def
        build_dict_def)
qed

lemma eval_call_build_spec:
  assumes "26 \<le> m"
  shows "eval_expr m generator_program w loc (ECall ''build_spec'' []) = Some build_spec"
proof -
  from assms obtain k where "m = 26 + k"
    by (auto dest: le_Suc_ex)
  then show ?thesis
    by (simp add: fuel_simps generator_functions src_build_spec_def eval_src_components
        eval_src_responses eval_src_paths eval_src_document)
qed

lemmas src_defs =
  src_sandbox_response_example_def src_exec_response_example_def
  src_execution_record_example_def src_issued_key_example_def
  src_rotation_webhook_payload_example_def src_rotated_key_example_def src_error_example_def
  src_schema_ErrorResponse_def src_schema_SandboxLimits_def src_schema_SandboxResponse_def
  src_schema_CreateSandboxLimits_def src_schema_CreateSandboxRequest_def
  src_schema_ExecRequest_def src_schema_ExecResponse_def src_schema_ExecutionRecord_def
  src_schema_CreateKeyScope_def src_schema_CreateKeyRequest_def src_schema_KeyScope_def
  src_schema_KeyInfo_def src_schema_IssuedKeyResponse_def src_schema_RotateKeyRequest_def
  src_schema_RotationWebhookPayload_def src_schema_RotationWebhookResponse_def
  src_schema_RotatedKeyResponse_def src_components_def src_response_400_def
  src_response_401_def src_response_403_def src_response_404_def src_response_409_def
  src_response_500_def src_responses_def src_op_getHealthz_def src_op_getMetrics_def
  src_op_createSandbox_def src_op_listSandboxes_def src_op_getSandbox_def
  src_op_startSandbox_def src_op_execSandbox_def src_op_stopSandbox_def
  src_op_deleteSandbox_def src_op_listSandboxExecutions_def src_op_issueKey_def
  src_op_listKeys_def src_op_rotateKey_def src_op_verifyRotationWebhook_def
  src_op_revokeKey_def src_paths_def src_document_def src_build_spec_def src_main_def

lemma main_writes:
  assumes "30 \<le> n"
  shows "generate_openapi_main n w =
    Some ((rt_files w)(openapi_output (rt_argv w) \<mapsto> json_dumps build_spec @ [CHR 0x0A]))"
proof -
  from assms obtain k where "n = 30 + k"
    by (auto dest: le_Suc_ex)
  then show ?thesis
    by (cases "1 < length (rt_argv w)")
      (simp_all del: eval_expr.simps(9) add: generate_openapi_main_def generator_functions
        src_main_def fuel_simps eval_call_build_spec openapi_output_def)
qed

text \<open>
  No function of the script contains a reading expression; and in a program without
  reading expressions, no value depends on the run it is computed in. An expression that
  reads does depend on it.
\<close>

lemma generator_reads_nothing: "program_reads_nothing generator_program"
  by (simp add: program_reads_nothing_def generator_program_def src_defs)

lemma exec_body_same:
  "list_all stmt_reads_nothing b \<Longrightarrow> (\<And>l e. reads_nothing e \<Longrightarrow> ev1 l e = ev2 l e) \<Longrightarrow>
   exec_body ev1 loc b = exec_body ev2 loc b"
proof (induction b arbitrary: loc)
  case Nil
  then show ?case by simp
next
  case (Cons st b)
  then show ?case
    by (cases st) (auto split: option.splits)
qed

lemma called_body_reads_nothing:
  "program_reads_nothing prog \<Longrightarrow> map_of prog f = Some fd \<Longrightarrow>
   list_all stmt_reads_nothing (fn_body fd)"
  by (auto simp add: program_reads_nothing_def list_all_iff dest!: map_of_SomeD)

lemma eval_expr_same:
  assumes prog: "program_reads_nothing prog"
  shows "reads_nothing e \<Longrightarrow> eval_expr n prog w1 loc e = eval_expr n prog w2 loc e"
proof (induction n arbitrary: loc e)
  case 0
  then show ?case by simp
next
  case (Suc n)
  show ?case
  proof (cases e)
    case (EList es)
    with Suc have eq: "map (\<lambda>e. eval_expr n prog w1 loc e) es = map (\<lambda>e. eval_expr n prog w2 loc e) es"
      by (auto simp add: list_all_iff)
    show ?thesis
      by (simp only: EList eval_expr.simps eq)
  next
    case (EDict kvs)
    with Suc have eq: "map (\<lambda>kv. eval_expr n prog w1 loc (snd kv)) kvs =
        map (\<lambda>kv. eval_expr n prog w2 loc (snd kv)) kvs"
      by (auto simp add: list_all_iff)
    show ?thesis
      by (simp only: EDict eval_expr.simps eq)
  next
    case (ECall f args)
    with Suc have args: "map (\<lambda>e. eval_expr n prog w1 loc e) args =
        map (\<lambda>e. eval_expr n prog w2 loc e) args"
      by (auto simp add: list_all_iff)
    show ?thesis
    proof (cases "map_of prog f")
      case None
      then show ?thesis
        by (simp only: ECall eval_expr.simps option.case)
    next
      case (Some fd)
      have "exec_body (\<lambda>l e. eval_expr n prog w1 l e) l0 (fn_body fd) =
          exec_body (\<lambda>l e. eval_expr n prog w2 l e) l0 (fn_body fd)" for l0
        using called_body_reads_nothing [OF prog Some] Suc.IH by (rule exec_body_same)
      then show ?thesis
        by (simp only: ECall eval_expr.simps args Some option.case)
    qed
  next
    case (EDictMerge d kvs)
    with Suc have eq: "map (\<lambda>kv. eval_expr n prog w1 loc (snd kv)) kvs =
        map (\<lambda>kv. eval_expr n prog w2 loc (snd kv)) kvs"
      and base: "eval_expr n prog w1 loc d = eval_expr n prog w2 loc d"
      by (auto simp add: list_all_iff)
    show ?thesis
      by (simp only: EDictMerge eval_expr.simps eq base)
  next
    case (EIfExp c a b)
    with Suc have eq: "eval_expr n prog w1 loc c = eval_expr n prog w2 loc c"
      "eval_expr n prog w1 loc a = eval_expr n prog w2 loc a"
      "eval_expr n prog w1 loc b = eval_expr n prog w2 loc b"
      by auto
    show ?thesis
      by (simp only: EIfExp eval_expr.simps eq)
  qed (use Suc in auto)
qed

lemma reading_depends_on_the_run:
  "eval_expr 1 generator_program
     \<lparr>rt_environ = [''SYFT_CMD'' \<mapsto> ''grype''], rt_clock = 0, rt_entropy = 0, rt_argv = [],
       rt_files = Map.empty\<rparr> [] (EEnvGet ''SYFT_CMD'' ''syft'') \<noteq>
   eval_expr 1 generator_program
     \<lparr>rt_environ = Map.empty, rt_clock = 0, rt_entropy = 0, rt_argv = [],
       rt_files = Map.empty\<rparr> [] (EEnvGet ''SYFT_CMD'' ''syft'')"
  by simp

text \<open>
  Claim C9. No function of \<^verbatim>\<open>generate_openapi.py\<close> contains an expression that reads the
  environment, the clock or randomness, so the result of \<^verbatim>\<open>build_spec()\<close> is the same in any
  two runs; it returns (with any depth bound of at least 26) the document of the first
  sections. And
  \<^verbatim>\<open>main\<close> returns (with any depth bound of at least 30): in two runs whose command lines
  give the same output path, whatever their environment, clock, randomness and files, the
  file at that path ends up with the same bytes, \<^verbatim>\<open>json.dumps(build_spec(), indent=2)\<close> and
  a newline; and running \<^verbatim>\<open>main\<close> again on the files it left changes nothing.
\<close>

theorem generate_openapi_deterministic:
  "program_reads_nothing generator_program \<and>
   eval_expr n generator_program w2 [] (ECall ''build_spec'' []) =
     eval_expr n generator_program w1 [] (ECall ''build_spec'' []) \<and>
   (26 \<le> n \<longrightarrow>
      eval_expr n generator_program w1 [] (ECall ''build_spec'' []) = Some build_spec) \<and>
   (30 \<le> n \<and> openapi_output (rt_argv w1) = openapi_output (rt_argv w2) \<longrightarrow>
      (\<exists>fs1 fs2.
         generate_openapi_main n w1 = Some fs1 \<and>
         generate_openapi_main n w2 = Some fs2 \<and>
         fs1 (openapi_output (rt_argv w1)) = Some (json_dumps build_spec @ [CHR 0x0A]) \<and>
         fs2 (openapi_output (rt_argv w2)) = fs1 (openapi_output (rt_argv w1)) \<and>
         generate_openapi_main n (w1\<lparr>rt_files := fs1\<rparr>) = Some fs1))"
proof (intro conjI impI)
  show "program_reads_nothing generator_program"
    by (rule generator_reads_nothing)
next
  show "eval_expr n generator_program w2 [] (ECall ''build_spec'' []) =
      eval_expr n generator_program w1 [] (ECall ''build_spec'' [])"
    by (rule eval_expr_same [OF generator_reads_nothing]) simp
next
  assume "26 \<le> n"
  then show "eval_expr n generator_program w1 [] (ECall ''build_spec'' []) = Some build_spec"
    by (rule eval_call_build_spec)
next
  assume a: "30 \<le> n \<and> openapi_output (rt_argv w1) = openapi_output (rt_argv w2)"
  then have n: "30 \<le> n" and same: "openapi_output (rt_argv w1) = openapi_output (rt_argv w2)"
    by simp_all
  show "\<exists>fs1 fs2.
      generate_openapi_main n w1 = Some fs1 \<and>
      generate_openapi_main n w2 = Some fs2 \<and>
      fs1 (openapi_output (rt_argv w1)) = Some (json_dumps build_spec @ [CHR 0x0A]) \<and>
      fs2 (openapi_output (rt_argv w2)) = fs1 (openapi_output (rt_argv w1)) \<and>
      generate_openapi_main n (w1\<lparr>rt_files := fs1\<rparr>) = Some fs1"
    using same by (simp add: main_writes [OF n])
qed

theorem generate_openapi_deterministic_witness:
  "(30::nat) \<le> 30 \<and>
   openapi_output [''generate_openapi.py'', ''out.json''] =
     openapi_output [''scripts/generate_openapi.py'', ''out.json'', ''extra''] \<and>
   eval_expr 30 generator_program
     \<lparr>rt_environ = Map.empty, rt_clock = 0, rt_entropy = 1,
       rt_argv = [''generate_openapi.py'', ''out.json''], rt_files = Map.empty\<rparr>
     [] (ECall ''build_spec'' []) = Some build_spec \<and>
   (\<exists>fs1 fs2.
      generate_openapi_main 30
        \<lparr>rt_environ = Map.empty, rt_clock = 0, rt_entropy = 1,
          rt_argv = [''generate_openapi.py'', ''out.json''], rt_files = Map.empty\<rparr> = Some fs1 \<and>
      generate_openapi_main 30
        \<lparr>rt_environ = [''SYFT_CMD'' \<mapsto> ''grype''], rt_clock = 1760789696, rt_entropy = 7,
          rt_argv = [''scripts/generate_openapi.py'', ''out.json'', ''extra''],
          rt_files = [''out.json'' \<mapsto> ''stale'']\<rparr> = Some fs2 \<and>
      fs1 ''out.json'' = Some (json_dumps build_spec @ [CHR 0x0A]) \<and>
      fs2 ''out.json'' = fs1 ''out.json'' \<and>
      generate_openapi_main 30
        \<lparr>rt_environ = Map.empty, rt_clock = 0, rt_entropy = 1,
          rt_argv = [''generate_openapi.py'', ''out.json''], rt_files = fs1\<rparr> = Some fs1)"
proof -
  let ?w1 = "\<lparr>rt_environ = Map.empty, rt_clock = 0, rt_entropy = 1,
      rt_argv = [''generate_openapi.py'', ''out.json''], rt_files = Map.empty\<rparr>"
  let ?w2 = "\<lparr>rt_environ = [''SYFT_CMD'' \<mapsto> ''grype''], rt_clock = 1760789696, rt_entropy = 7,
      rt_argv = [''scripts/generate_openapi.py'', ''out.json'', ''extra''],
      rt_files = [''out.json'' \<mapsto> ''stale'']\<rparr>"
  have out: "openapi_output [''generate_openapi.py'', ''out.json''] = ''out.json''"
    "openapi_output [''scripts/generate_openapi.py'', ''out.json'', ''extra''] = ''out.json''"
    by (simp_all add: openapi_output_def)
  note claim = generate_openapi_deterministic [of 30 ?w2 ?w1]
  from claim have doc: "eval_expr 30 generator_program ?w1 [] (ECall ''build_spec'' []) =
      Some build_spec"
    by simp
  from claim have "30 \<le> (30::nat) \<and> openapi_output (rt_argv ?w1) = openapi_output (rt_argv ?w2) \<longrightarrow>
      (\<exists>fs1 fs2.
         generate_openapi_main 30 ?w1 = Some fs1 \<and>
         generate_openapi_main 30 ?w2 = Some fs2 \<and>
         fs1 (openapi_output (rt_argv ?w1)) = Some (json_dumps build_spec @ [CHR 0x0A]) \<and>
         fs2 (openapi_output (rt_argv ?w2)) = fs1 (openapi_output (rt_argv ?w1)) \<and>
         generate_openapi_main 30 (?w1\<lparr>rt_files := fs1\<rparr>) = Some fs1)"
    by (elim conjE)
  then have runs: "\<exists>fs1 fs2.
      generate_openapi_main 30 ?w1 = Some fs1 \<and>
      generate_openapi_main 30 ?w2 = Some fs2 \<and>
      fs1 ''out.json'' = Some (json_dumps build_spec @ [CHR 0x0A]) \<and>
      fs2 ''out.json'' = fs1 ''out.json'' \<and>
      generate_openapi_main 30
        \<lparr>rt_environ = Map.empty, rt_clock = 0, rt_entropy = 1,
          rt_argv = [''generate_openapi.py'', ''out.json''], rt_files = fs1\<rparr> = Some fs1"
    by (simp add: out)
  from doc runs show ?thesis
    by (simp only: out simp_thms)
qed

subsection \<open>The SBOM wrapper\<close>

lemma run_syft_FileNotFoundError:
  "run (syft_args environ) = FileNotFoundError \<Longrightarrow>
   run_syft environ run =
     Inl (SystemExit ''syft CLI not found. Install syft or set SYFT_CMD to an alternative binary.'')"
  by (simp add: run_syft_def)

lemma run_syft_CalledProcessError:
  "run (syft_args environ) = CalledProcessError out err s \<Longrightarrow>
   \<exists>msg. run_syft environ run = Inl (SystemExit (''syft command failed: '' @ msg))"
  by (simp add: run_syft_def)

lemma run_syft_CompletedProcess:
  "run (syft_args environ) = CompletedProcess out \<Longrightarrow> run_syft environ run = Inr out"
  by (simp add: run_syft_def)

text \<open>
  Claim C10. \<^verbatim>\<open>generate_sbom.main\<close> writes the output file only when syft succeeded and its
  stdout parses as JSON. If the binary is missing, or syft exits non-zero, \<^verbatim>\<open>main\<close> ends with
  \<^verbatim>\<open>SystemExit\<close>; if the stdout is not JSON it ends with the decode error; in all three cases
  nothing is written or printed. Whenever the files differ after \<^verbatim>\<open>main\<close>, syft completed
  and its stdout parsed.
\<close>

theorem sbom_written_only_on_valid_json:
  "(run (syft_args environ) = FileNotFoundError \<longrightarrow>
      generate_sbom_main argv environ run loads_ok w =
        (Inl (SystemExit
          ''syft CLI not found. Install syft or set SYFT_CMD to an alternative binary.''), w)) \<and>
   (run (syft_args environ) = CalledProcessError out err s \<longrightarrow>
      (\<exists>msg. generate_sbom_main argv environ run loads_ok w =
        (Inl (SystemExit (''syft command failed: '' @ msg)), w))) \<and>
   (run (syft_args environ) = CompletedProcess out \<and> \<not> loads_ok out \<longrightarrow>
      generate_sbom_main argv environ run loads_ok w = (Inl JSONDecodeError, w)) \<and>
   (files (snd (generate_sbom_main argv environ run loads_ok w)) \<noteq> files w \<longrightarrow>
      (\<exists>content. run (syft_args environ) = CompletedProcess content \<and> loads_ok content \<and>
         generate_sbom_main argv environ run loads_ok w =
           (Inr 0, w\<lparr>files := (files w)(sbom_output argv \<mapsto> content @ [CHR 0x0A]),
                     printed := printed w @ [''SBOM written to '' @ sbom_output argv]\<rparr>)))"
proof (intro conjI impI)
  assume "run (syft_args environ) = FileNotFoundError"
  then show "generate_sbom_main argv environ run loads_ok w =
      (Inl (SystemExit
        ''syft CLI not found. Install syft or set SYFT_CMD to an alternative binary.''), w)"
    by (simp add: generate_sbom_main_def run_syft_FileNotFoundError Let_def)
next
  assume "run (syft_args environ) = CalledProcessError out err s"
  then obtain msg where "run_syft environ run = Inl (SystemExit (''syft command failed: '' @ msg))"
    using run_syft_CalledProcessError by blast
  then show "\<exists>msg. generate_sbom_main argv environ run loads_ok w =
      (Inl (SystemExit (''syft command failed: '' @ msg)), w)"
    by (simp add: generate_sbom_main_def Let_def)
next
  assume "run (syft_args environ) = CompletedProcess out \<and> \<not> loads_ok out"
  then show "generate_sbom_main argv environ run loads_ok w = (Inl JSONDecodeError, w)"
    by (simp add: generate_sbom_main_def run_syft_CompletedProcess Let_def)
next
  assume changed: "files (snd (generate_sbom_main argv environ run loads_ok w)) \<noteq> files w"
  show "\<exists>content. run (syft_args environ) = CompletedProcess content \<and> loads_ok content \<and>
      generate_sbom_main argv environ run loads_ok w =
        (Inr 0, w\<lparr>files := (files w)(sbom_output argv \<mapsto> content @ [CHR 0x0A]),
                  printed := printed w @ [''SBOM written to '' @ sbom_output argv]\<rparr>)"
  proof (cases "run (syft_args environ)")
    case FileNotFoundError
    with changed show ?thesis
      by (simp add: generate_sbom_main_def run_syft_def Let_def)
  next
    case (CalledProcessError o1 e1 s1)
    with changed show ?thesis
      by (simp add: generate_sbom_main_def run_syft_def Let_def)
  next
    case (CompletedProcess content)
    with changed show ?thesis
      by (cases "loads_ok content") (simp_all add: generate_sbom_main_def run_syft_def Let_def)
  qed
qed

theorem sbom_written_only_on_valid_json_witness:
  "generate_sbom_main [''generate_sbom.py''] Map.empty (\<lambda>args. FileNotFoundError) (\<lambda>t. True)
       \<lparr>files = Map.empty, printed = []\<rparr> =
     (Inl (SystemExit
        ''syft CLI not found. Install syft or set SYFT_CMD to an alternative binary.''),
      \<lparr>files = Map.empty, printed = []\<rparr>) \<and>
   (\<exists>msg. generate_sbom_main [''generate_sbom.py''] Map.empty
       (\<lambda>args. CalledProcessError '''' ''boom'' ''exit status 1'') (\<lambda>t. True)
       \<lparr>files = Map.empty, printed = []\<rparr> =
     (Inl (SystemExit (''syft command failed: '' @ msg)), \<lparr>files = Map.empty, printed = []\<rparr>)) \<and>
   generate_sbom_main [''generate_sbom.py''] Map.empty (\<lambda>args. CompletedProcess ''warning'')
       (\<lambda>t. t = ''{}'') \<lparr>files = Map.empty, printed = []\<rparr> =
     (Inl JSONDecodeError, \<lparr>files = Map.empty, printed = []\<rparr>) \<and>
   generate_sbom_main [''generate_sbom.py''] Map.empty (\<lambda>args. CompletedProcess ''{}'')
       (\<lambda>t. t = ''{}'') \<lparr>files = Map.empty, printed = []\<rparr> =
     (Inr 0, \<lparr>files = [''sbom.json'' \<mapsto> ''{}'' @ [CHR 0x0A]],
              printed = [''SBOM written to sbom.json'']\<rparr>)"
proof -
  let ?w = "\<lparr>files = Map.empty, printed = []\<rparr>"
  let ?argv = "[''generate_sbom.py'']"
  have a: "generate_sbom_main ?argv Map.empty (\<lambda>args. FileNotFoundError) (\<lambda>t. True) ?w =
      (Inl (SystemExit
        ''syft CLI not found. Install syft or set SYFT_CMD to an alternative binary.''), ?w)"
    using sbom_written_only_on_valid_json
      [of "\<lambda>args. FileNotFoundError" Map.empty ?argv "\<lambda>t. True" ?w]
    by simp
  have b: "\<exists>msg. generate_sbom_main ?argv Map.empty
      (\<lambda>args. CalledProcessError '''' ''boom'' ''exit status 1'') (\<lambda>t. True) ?w =
      (Inl (SystemExit (''syft command failed: '' @ msg)), ?w)"
    using sbom_written_only_on_valid_json
      [of "\<lambda>args. CalledProcessError '''' ''boom'' ''exit status 1''" Map.empty ?argv
          "\<lambda>t. True" ?w "''''" "''boom''" "''exit status 1''"]
    by simp
  have c: "generate_sbom_main ?argv Map.empty (\<lambda>args. CompletedProcess ''warning'')
      (\<lambda>t. t = ''{}'') ?w = (Inl JSONDecodeError, ?w)"
    using sbom_written_only_on_valid_json
      [of "\<lambda>args. CompletedProcess ''warning''" Map.empty ?argv "\<lambda>t. t = ''{}''" ?w
          "''warning''"]
    by simp
  have changed: "files (snd (generate_sbom_main ?argv Map.empty (\<lambda>args. CompletedProcess ''{}'')
      (\<lambda>t. t = ''{}'') ?w)) \<noteq> files ?w"
    by (simp add: generate_sbom_main_def run_syft_def sbom_output_def Let_def)
  have d: "generate_sbom_main ?argv Map.empty (\<lambda>args. CompletedProcess ''{}'')
      (\<lambda>t. t = ''{}'') ?w =
      (Inr 0, \<lparr>files = [''sbom.json'' \<mapsto> ''{}'' @ [CHR 0x0A]],
               printed = [''SBOM written to sbom.json'']\<rparr>)"
    using sbom_written_only_on_valid_json
      [of "\<lambda>args. CompletedProcess ''{}''" Map.empty ?argv "\<lambda>t. t = ''{}''" ?w] changed
    by (auto simp add: sbom_output_def)
  from a b c d show ?thesis
    by blast
qed

subsection \<open>The webhook signature and revocation\<close>

lemma xor_zero_iff: "((x :: 8 word) XOR y = 0) = (x = y)"
proof
  assume h: "x XOR y = 0"
  have "x = (x XOR y) XOR y"
    by (simp add: xor.assoc)
  with h show "x = y"
    by simp
qed simp

lemma accumulate_diff_zero:
  "length a = length b \<Longrightarrow> (accumulate_diff a b acc = 0) = (acc = 0 \<and> a = b)"
proof (induction a b arbitrary: acc rule: list_induct2)
  case Nil
  then show ?case by simp
next
  case (Cons x xs y ys)
  have "(acc OR (x XOR y) = 0) = (acc = 0 \<and> x = y)"
    by (simp add: or_eq_0_iff xor_zero_iff)
  with Cons.IH [of "acc OR (x XOR y)"] show ?case
    by auto
qed

lemma constant_time_eq_iff: "constant_time_eq a b = (a = b)"
  by (auto simp add: constant_time_eq_def accumulate_diff_zero)

lemma flipped_byte_differs: "j < 8 \<Longrightarrow> (x :: 8 word) XOR push_bit j 1 \<noteq> x"
proof
  assume j: "j < 8" and eq: "x XOR push_bit j 1 = x"
  have "bit (x XOR push_bit j 1) j = (\<not> bit x j)"
    using j by (simp add: bit_simps)
  with eq show False
    by simp
qed

lemma flip_bit_differs: "i < length s \<Longrightarrow> j < 8 \<Longrightarrow> flip_bit i j s \<noteq> s"
proof
  assume i: "i < length s" and j: "j < 8" and eq: "flip_bit i j s = s"
  from eq have "flip_bit i j s ! i = s ! i"
    by simp
  with i have "(s ! i) XOR push_bit j 1 = s ! i"
    by (simp add: flip_bit_def)
  with flipped_byte_differs [OF j] show False
    by blast
qed

text \<open>
  Claim C7. For every payload, \<^verbatim>\<open>verify(payload, sign(payload))\<close> is true; flipping any one
  bit of the signature makes \<^verbatim>\<open>verify\<close> false; and on every supplied signature, of whatever
  length or content, \<^verbatim>\<open>verify\<close> returns a truth value, which is true exactly when the
  signature is the one \<^verbatim>\<open>sign\<close> computes.
\<close>

theorem webhook_signature_verifies:
  "verify h block secret payload (sign h block secret payload) \<and>
   (i < length (sign h block secret payload) \<and> j < 8 \<longrightarrow>
      \<not> verify h block secret payload (flip_bit i j (sign h block secret payload))) \<and>
   verify h block secret payload signature = (signature = sign h block secret payload)"
proof (intro conjI impI)
  show "verify h block secret payload (sign h block secret payload)"
    by (simp add: verify_def constant_time_eq_iff)
next
  assume "i < length (sign h block secret payload) \<and> j < 8"
  then have "flip_bit i j (sign h block secret payload) \<noteq> sign h block secret payload"
    using flip_bit_differs by blast
  then show "\<not> verify h block secret payload (flip_bit i j (sign h block secret payload))"
    by (simp add: verify_def constant_time_eq_iff eq_commute)
next
  show "verify h block secret payload signature = (signature = sign h block secret payload)"
    by (auto simp add: verify_def constant_time_eq_iff)
qed

theorem webhook_signature_verifies_witness:
  "(0::nat) < length (sign (\<lambda>bs. [of_nat (length bs)]) 4 [1, 2] [3]) \<and> (0::nat) < 8 \<and>
   verify (\<lambda>bs. [of_nat (length bs)]) 4 [1, 2] [3] (sign (\<lambda>bs. [of_nat (length bs)]) 4 [1, 2] [3]) \<and>
   \<not> verify (\<lambda>bs. [of_nat (length bs)]) 4 [1, 2] [3]
       (flip_bit 0 0 (sign (\<lambda>bs. [of_nat (length bs)]) 4 [1, 2] [3])) \<and>
   \<not> verify (\<lambda>bs. [of_nat (length bs)]) 4 [1, 2] [3] []"
proof -
  let ?h = "\<lambda>bs :: bytes. [of_nat (length bs) :: 8 word]"
  have len: "(0::nat) < length (sign ?h 4 [1, 2] [3])"
    by (simp add: sign_def hmac_def Let_def)
  have ne: "[] \<noteq> sign ?h 4 [1, 2] [3]"
    using len by auto
  show ?thesis
    using webhook_signature_verifies [of ?h 4 "[1, 2]" "[3]" 0 0 "[]"] len ne
    by simp
qed

text \<open>
  Claim C8. For every existing key id, \<^verbatim>\<open>revoke(id)\<close> succeeds, a second \<^verbatim>\<open>revoke(id)\<close> on the
  resulting store succeeds as well and returns that same store, in which the record is
  revoked.
\<close>

theorem revoke_idempotent:
  "find_by_id st i = Some r \<Longrightarrow>
   \<exists>st1. revoke st i = Inr st1 \<and> revoke st1 i = Inr st1 \<and>
     find_by_id st1 i = Some (r\<lparr>revoked := True\<rparr>)"
  by (simp add: revoke_def find_by_id_def mark_revoked_def)

theorem revoke_idempotent_witness:
  "find_by_id
     [''k1'' \<mapsto> \<lparr>key_id = ''k1'', scope = Namespace ''demo'', rate_limit = 100,
        lookup_hash = ''h1'', key_prefix = ''bkg_demo_abcd'', created_at = 0,
        last_used_at = None, expires_at = None, rotated_from = None, rotated_at = None,
        revoked = False\<rparr>] ''k1'' =
     Some \<lparr>key_id = ''k1'', scope = Namespace ''demo'', rate_limit = 100,
        lookup_hash = ''h1'', key_prefix = ''bkg_demo_abcd'', created_at = 0,
        last_used_at = None, expires_at = None, rotated_from = None, rotated_at = None,
        revoked = False\<rparr> \<and>
   (\<exists>st1. revoke
       [''k1'' \<mapsto> \<lparr>key_id = ''k1'', scope = Namespace ''demo'', rate_limit = 100,
          lookup_hash = ''h1'', key_prefix = ''bkg_demo_abcd'', created_at = 0,
          last_used_at = None, expires_at = None, rotated_from = None, rotated_at = None,
          revoked = False\<rparr>] ''k1'' = Inr st1 \<and>
      revoke st1 ''k1'' = Inr st1 \<and>
      find_by_id st1 ''k1'' =
        Some \<lparr>key_id = ''k1'', scope = Namespace ''demo'', rate_limit = 100,
          lookup_hash = ''h1'', key_prefix = ''bkg_demo_abcd'', created_at = 0,
          last_used_at = None, expires_at = None, rotated_from = None, rotated_at = None,
          revoked = True\<rparr>)"
proof -
  let ?r = "\<lparr>key_id = ''k1'', scope = Namespace ''demo'', rate_limit = 100,
        lookup_hash = ''h1'', key_prefix = ''bkg_demo_abcd'', created_at = 0,
        last_used_at = None, expires_at = None, rotated_from = None, rotated_at = None,
        revoked = False\<rparr>"
  have found: "find_by_id [''k1'' \<mapsto> ?r] ''k1'' = Some ?r"
    by (simp add: find_by_id_def)
  show ?thesis
    using revoke_idempotent [OF found] found
    by simp
qed

end
